theory Spec2Isabelle
  imports Complex_Main
begin

section \<open>Numbers, vectors and planes\<close>

text \<open>
  The C++ types \<open>double\<close> and \<open>float\<close> are modelled as \<open>real\<close>: rounding, infinities
  and NaN are not part of the model. An \<open>Eigen::Vector3d\<close> is a triple and an
  \<open>Eigen::Vector4d\<close> a quadruple of reals; \<open>v(3)\<close> is written \<open>c3 v\<close>.
  A default-constructed Eigen vector holds no defined value: a local vector that the code
  may leave unassigned is an \<open>option\<close>, with \<open>None\<close> for "never assigned".
\<close>

type_synonym vec3 = "real \<times> real \<times> real"
type_synonym vec4 = "real \<times> real \<times> real \<times> real"

fun c0 :: "vec4 \<Rightarrow> real" where "c0 (a, b, c, e) = a"
fun c1 :: "vec4 \<Rightarrow> real" where "c1 (a, b, c, e) = b"
fun c2 :: "vec4 \<Rightarrow> real" where "c2 (a, b, c, e) = c"
fun c3 :: "vec4 \<Rightarrow> real" where "c3 (a, b, c, e) = e"

fun head3 :: "vec4 \<Rightarrow> vec3" where "head3 (a, b, c, e) = (a, b, c)"

fun scale3 :: "real \<Rightarrow> vec3 \<Rightarrow> vec3" where
  "scale3 k (a, b, c) = (k * a, k * b, k * c)"

fun sub3 :: "vec3 \<Rightarrow> vec3 \<Rightarrow> vec3" where
  "sub3 (a, b, c) (a', b', c') = (a - a', b - b', c - c')"

fun dot3 :: "vec3 \<Rightarrow> vec3 \<Rightarrow> real" where
  "dot3 (a, b, c) (a', b', c') = a * a' + b * b' + c * c'"

fun x3 :: "vec3 \<Rightarrow> real" where "x3 (a, b, c) = a"
fun y3 :: "vec3 \<Rightarrow> real" where "y3 (a, b, c) = b"
fun z3 :: "vec3 \<Rightarrow> real" where "z3 (a, b, c) = c"

text \<open>The message type \<open>s_graphs::PlaneData\<close>, restricted to the fields the utilities read.\<close>

record PlaneData =
  nx :: real
  ny :: real
  nz :: real
  d :: real

section \<open>PlaneUtils (plane\_utils.hpp)\<close>

text \<open>
  \<open>PlaneUtils::width_between_planes(Eigen::Vector4d v1, Eigen::Vector4d v2)\<close>.
  The local \<open>vec\<close> is assigned in the two branches of the \<open>if / else if\<close> only; the
  final \<open>fabs(vec(0) + vec(1))\<close> reads it in every case. Reading the unassigned vector
  gives no defined result: \<open>None\<close>.
\<close>

definition width_between_planes :: "vec4 \<Rightarrow> vec4 \<Rightarrow> real option" where
  "width_between_planes v1 v2 =
     (let vec =
        (if abs (c3 v1) > abs (c3 v2)
           then Some (sub3 (scale3 (abs (c3 v1)) (head3 v1)) (scale3 (abs (c3 v2)) (head3 v2)))
         else if abs (c3 v2) > abs (c3 v1)
           then Some (sub3 (scale3 (abs (c3 v2)) (head3 v2)) (scale3 (abs (c3 v1)) (head3 v1)))
         else None)
      in case vec of
           None \<Rightarrow> None
         | Some w \<Rightarrow> Some (abs (x3 w + y3 w)))"

text \<open>\<open>PlaneUtils::width_between_planes(PlaneData& plane1, PlaneData& plane2)\<close>.\<close>

definition width_between_planes_PlaneData :: "PlaneData \<Rightarrow> PlaneData \<Rightarrow> real option" where
  "width_between_planes_PlaneData plane1 plane2 =
     (let plane1_eigen = (nx plane1, ny plane1, nz plane1);
          plane2_eigen = (nx plane2, ny plane2, nz plane2);
          vec =
        (if abs (d plane1) > abs (d plane2)
           then Some (sub3 (scale3 (abs (d plane1)) plane1_eigen) (scale3 (abs (d plane2)) plane2_eigen))
         else if abs (d plane2) > abs (d plane1)
           then Some (sub3 (scale3 (abs (d plane2)) plane2_eigen) (scale3 (abs (d plane1)) plane1_eigen))
         else None)
      in case vec of
           None \<Rightarrow> None
         | Some w \<Rightarrow> Some (abs (x3 w + y3 w)))"

text \<open>
  \<open>PlaneUtils::correct_plane_d(int plane_type, PlaneData& plane)\<close> and
  \<open>PlaneUtils::correct_plane_d(int plane_type, Eigen::Vector4d& plane, double px, double py)\<close>:
  both ignore every argument but the plane and negate all four coefficients when the
  offset is positive.
\<close>

definition correct_plane_d_PlaneData :: "int \<Rightarrow> PlaneData \<Rightarrow> PlaneData" where
  "correct_plane_d_PlaneData plane_type plane =
     (if d plane > 0
        then plane\<lparr>nx := -1 * nx plane, ny := -1 * ny plane, nz := -1 * nz plane, d := -1 * d plane\<rparr>
      else plane)"

definition correct_plane_d_Vector4d :: "int \<Rightarrow> vec4 \<Rightarrow> real \<Rightarrow> real \<Rightarrow> vec4" where
  "correct_plane_d_Vector4d plane_type plane px py =
     (if c3 plane > 0
        then (-1 * c0 plane, -1 * c1 plane, -1 * c2 plane, -1 * c3 plane)
      else plane)"

section \<open>Plane pairing in the mapping nodelet\<close>

text \<open>
  \<open>g2o::Plane3D\<close> (an external type) keeps its four coefficients with a unit normal:
  constructing or assigning one from an \<open>Eigen::Vector4d\<close> divides all four coefficients
  by the length of the normal. For a zero normal the C++ value is not finite; the model's
  value there carries no meaning.
\<close>

definition Plane3D :: "vec4 \<Rightarrow> vec4" where
  "Plane3D v = (let n = sqrt (dot3 (head3 v) (head3 v))
                in (c0 v * (1 / n), c1 v * (1 / n), c2 v * (1 / n), c3 v * (1 / n)))"

text \<open>The \<open>plane_class\<close> enumeration, used through \<open>int plane_type\<close>.\<close>

definition X_VERT_PLANE :: int where "X_VERT_PLANE = 0"
definition Y_VERT_PLANE :: int where "Y_VERT_PLANE = 1"
definition HORT_PLANE :: int where "HORT_PLANE = 2"

text \<open>
  The nodelet's own \<open>width_between_planes(Eigen::Vector4d v1, Eigen::Vector4d v2)\<close>:
  \<open>size\<close> starts at 0 and stays 0 when the offsets have equal magnitude.
\<close>

definition nodelet_width_between_planes :: "vec4 \<Rightarrow> vec4 \<Rightarrow> real" where
  "nodelet_width_between_planes v1 v2 =
     (if abs (c3 v1) > abs (c3 v2) then abs (c3 v1 - c3 v2)
      else if abs (c3 v2) > abs (c3 v1) then abs (c3 v2 - c3 v1)
      else 0)"

text \<open>
  The nodelet's \<open>correct_plane_d(int plane_type, g2o::Plane3D& plane1, g2o::Plane3D& plane2)\<close>.
  The two planes are passed by reference; the model takes and returns the pair. Only the
  offset is negated, and the changed coefficients are assigned back through \<open>Plane3D\<close>.
\<close>

definition nodelet_correct_plane_d :: "int \<Rightarrow> vec4 \<times> vec4 \<Rightarrow> vec4 \<times> vec4" where
  "nodelet_correct_plane_d plane_type pp =
     (let plane1 = fst pp; plane2 = snd pp;
          coeffs1 = plane1; coeffs2 = plane2;
          plane1x = (if plane_type = X_VERT_PLANE \<and> c0 coeffs1 < 0
                     then Plane3D (c0 coeffs1, c1 coeffs1, c2 coeffs1, -1 * c3 coeffs1) else plane1);
          plane2x = (if plane_type = X_VERT_PLANE \<and> c0 coeffs2 < 0
                     then Plane3D (c0 coeffs2, c1 coeffs2, c2 coeffs2, -1 * c3 coeffs2) else plane2);
          plane1y = (if plane_type = Y_VERT_PLANE \<and> c1 coeffs1 < 0
                     then Plane3D (c0 coeffs1, c1 coeffs1, c2 coeffs1, -1 * c3 coeffs1) else plane1x);
          plane2y = (if plane_type = Y_VERT_PLANE \<and> c1 coeffs2 < 0
                     then Plane3D (c0 coeffs2, c1 coeffs2, c2 coeffs2, -1 * c3 coeffs2) else plane2x)
      in (plane1y, plane2y))"

text \<open>
  \<open>struct plane_data_list\<close> and \<open>struct structure_data_list\<close> of the nodelet. The
  pointer \<open>keyframe_node\<close> is the id of the pose vertex it points to, \<open>None\<close> for null.
\<close>

record plane_data_list =
  plane_local :: vec4
  plane :: vec4
  plane_id :: int
  plane_length :: real
  keyframe_node :: "nat option"
  keyframe_trans :: vec3
  is_structural_candidate :: bool

record structure_data_list =
  plane1 :: plane_data_list
  plane2 :: plane_data_list
  width :: real
  length_diff :: real

text \<open>The parameters read in \<open>onInit\<close> that the pairing functions use.\<close>

record pairing_params =
  corridor_min_width :: real
  corridor_max_width :: real
  corridor_plane_length_diff_threshold :: real
  room_min_width :: real
  room_plane_length_diff_threshold :: real

text \<open>
  \<open>sort_corridors(int plane_type, std::vector<plane_data_list> corridor_candidates)\<close>.
  The vector is a by-value copy that the loops update in place: the sign correction is
  applied to the stored planes of candidates \<open>i\<close> and \<open>j\<close> at every pair. Its size never
  changes, so each counting loop is a fold over its index range.
\<close>

definition sort_corridors_body ::
  "pairing_params \<Rightarrow> int \<Rightarrow> nat \<Rightarrow> nat \<Rightarrow>
   plane_data_list list \<times> structure_data_list list \<Rightarrow>
   plane_data_list list \<times> structure_data_list list" where
  "sort_corridors_body P plane_type i j st =
     (let corridor_candidates = fst st; corridor_pair_vec = snd st;
          pm = nodelet_correct_plane_d plane_type
                 (plane (corridor_candidates ! i), plane (corridor_candidates ! j));
          pl = nodelet_correct_plane_d plane_type
                 (plane_local (corridor_candidates ! i), plane_local (corridor_candidates ! j));
          ci = (corridor_candidates ! i)\<lparr>plane := fst pm, plane_local := fst pl\<rparr>;
          cands1 = corridor_candidates[i := ci];
          cj = (cands1 ! j)\<lparr>plane := snd pm, plane_local := snd pl\<rparr>;
          cands2 = cands1[j := cj];
          corr_width = nodelet_width_between_planes (plane (cands2 ! i)) (plane (cands2 ! j));
          diff_plane_length = abs (plane_length (cands2 ! i) - plane_length (cands2 ! j))
      in if dot3 (head3 (plane (cands2 ! i))) (head3 (plane (cands2 ! j))) < 0
            \<and> (corr_width < corridor_max_width P \<and> corr_width > corridor_min_width P)
            \<and> diff_plane_length < corridor_plane_length_diff_threshold P
         then (cands2, corridor_pair_vec @
                 [\<lparr>plane1 = cands2 ! i, plane2 = cands2 ! j,
                   width = corr_width, length_diff = diff_plane_length\<rparr>])
         else (cands2, corridor_pair_vec))"

definition sort_corridors ::
  "pairing_params \<Rightarrow> int \<Rightarrow> plane_data_list list \<Rightarrow> structure_data_list list" where
  "sort_corridors P plane_type corridor_candidates =
     snd (fold (\<lambda>i st. fold (\<lambda>j st'. sort_corridors_body P plane_type i j st')
                           [i + 1 ..< length corridor_candidates] st)
               [0 ..< length corridor_candidates]
               (corridor_candidates, []))"

text \<open>\<open>sort_rooms\<close>: the same loops with the room gate (no upper bound on the width).\<close>

definition sort_rooms_body ::
  "pairing_params \<Rightarrow> int \<Rightarrow> nat \<Rightarrow> nat \<Rightarrow>
   plane_data_list list \<times> structure_data_list list \<Rightarrow>
   plane_data_list list \<times> structure_data_list list" where
  "sort_rooms_body P plane_type i j st =
     (let room_candidates = fst st; room_pair_vec = snd st;
          pm = nodelet_correct_plane_d plane_type
                 (plane (room_candidates ! i), plane (room_candidates ! j));
          pl = nodelet_correct_plane_d plane_type
                 (plane_local (room_candidates ! i), plane_local (room_candidates ! j));
          ci = (room_candidates ! i)\<lparr>plane := fst pm, plane_local := fst pl\<rparr>;
          cands1 = room_candidates[i := ci];
          cj = (cands1 ! j)\<lparr>plane := snd pm, plane_local := snd pl\<rparr>;
          cands2 = cands1[j := cj];
          room_width = nodelet_width_between_planes (plane (cands2 ! i)) (plane (cands2 ! j));
          diff_plane_length = abs (plane_length (cands2 ! i) - plane_length (cands2 ! j))
      in if dot3 (head3 (plane (cands2 ! i))) (head3 (plane (cands2 ! j))) < 0
            \<and> room_width > room_min_width P
            \<and> diff_plane_length < room_plane_length_diff_threshold P
         then (cands2, room_pair_vec @
                 [\<lparr>plane1 = cands2 ! i, plane2 = cands2 ! j,
                   width = room_width, length_diff = diff_plane_length\<rparr>])
         else (cands2, room_pair_vec))"

definition sort_rooms ::
  "pairing_params \<Rightarrow> int \<Rightarrow> plane_data_list list \<Rightarrow> structure_data_list list" where
  "sort_rooms P plane_type room_candidates =
     snd (fold (\<lambda>i st. fold (\<lambda>j st'. sort_rooms_body P plane_type i j st')
                           [i + 1 ..< length room_candidates] st)
               [0 ..< length room_candidates]
               (room_candidates, []))"

text \<open>
  A value-initialised \<open>plane_data_list\<close>, as \<open>resize(2)\<close> creates it: the default
  \<open>Plane3D\<close> is \<open>(1, 0, 0, -1)\<close>, everything else is zero or null.
\<close>

definition plane_data_list_default :: plane_data_list where
  "plane_data_list_default =
     \<lparr>plane_local = Plane3D (1, 0, 0, -1), plane = Plane3D (1, 0, 0, -1), plane_id = 0,
      plane_length = 0, keyframe_node = None, keyframe_trans = (0, 0, 0),
      is_structural_candidate = False\<rparr>"

text \<open>
  \<open>refine_rooms(x_room_vec, y_room_vec)\<close>. The loop state is
  \<open>(min_width_diff, x_room, y_room)\<close>.
\<close>

definition refine_rooms_body ::
  "structure_data_list list \<Rightarrow> structure_data_list list \<Rightarrow> nat \<Rightarrow> nat \<Rightarrow>
   real \<times> plane_data_list list \<times> plane_data_list list \<Rightarrow>
   real \<times> plane_data_list list \<times> plane_data_list list" where
  "refine_rooms_body x_room_vec y_room_vec i j st =
     (let min_width_diff = fst st; x_room = fst (snd st); y_room = snd (snd st);
          width_diff = abs (width (x_room_vec ! i) - width (y_room_vec ! j))
      in if width_diff < min_width_diff
         then (width_diff,
               x_room[0 := plane1 (x_room_vec ! i), 1 := plane2 (x_room_vec ! i)],
               y_room[0 := plane1 (y_room_vec ! j), 1 := plane2 (y_room_vec ! j)])
         else (min_width_diff, x_room, y_room))"

definition refine_rooms ::
  "structure_data_list list \<Rightarrow> structure_data_list list \<Rightarrow>
   plane_data_list list \<times> plane_data_list list" where
  "refine_rooms x_room_vec y_room_vec =
     (let st = fold (\<lambda>i st. fold (\<lambda>j st'. refine_rooms_body x_room_vec y_room_vec i j st')
                                [0 ..< length y_room_vec] st)
                    [0 ..< length x_room_vec]
                    (2.5, [plane_data_list_default, plane_data_list_default],
                          [plane_data_list_default, plane_data_list_default])
      in if fst st \<ge> 2.5 then ([], [])
         else (fst (snd st), snd (snd st)))"

section \<open>Poses, points and clouds\<close>

text \<open>
  An \<open>Eigen::Isometry3d\<close> is a rotation matrix (three rows) and a translation; as a
  4x4 matrix it is \<open>[R t; 0 0 0 1]\<close>. A 3x3 covariance is a \<open>mat3\<close> as well.
\<close>

type_synonym mat3 = "vec3 \<times> vec3 \<times> vec3"

record Isometry3d =
  rotation :: mat3
  translation :: vec3

fun add3 :: "vec3 \<Rightarrow> vec3 \<Rightarrow> vec3" where
  "add3 (a, b, c) (a', b', c') = (a + a', b + b', c + c')"

fun mat3_vec :: "mat3 \<Rightarrow> vec3 \<Rightarrow> vec3" where
  "mat3_vec (r0, r1, r2) v = (dot3 r0 v, dot3 r1 v, dot3 r2 v)"

fun transpose3 :: "mat3 \<Rightarrow> mat3" where
  "transpose3 ((a, b, c), (a', b', c'), (a'', b'', c'')) = ((a, a', a''), (b, b', b''), (c, c', c''))"

definition Identity3 :: mat3 where
  "Identity3 = ((1, 0, 0), (0, 1, 0), (0, 0, 1))"

definition Isometry_Identity :: Isometry3d where
  "Isometry_Identity = \<lparr>rotation = Identity3, translation = (0, 0, 0)\<rparr>"

text \<open>\<open>Isometry3d::inverse()\<close>: \<open>[R\<^sup>T  -R\<^sup>T t]\<close>.\<close>

definition isometry_inverse :: "Isometry3d \<Rightarrow> Isometry3d" where
  "isometry_inverse T =
     \<lparr>rotation = transpose3 (rotation T),
      translation = scale3 (-1) (mat3_vec (transpose3 (rotation T)) (translation T))\<rparr>"

text \<open>
  \<open>pcl::PointXYZRGBNormal\<close>: \<open>getVector4fMap()\<close> is \<open>(x, y, z, data[3])\<close>. The default
  constructor sets \<open>data[3] = 1\<close> and everything else to zero.
\<close>

record PointNormal =
  pt_x :: real
  pt_y :: real
  pt_z :: real
  pt_w :: real
  normal_x :: real
  normal_y :: real
  normal_z :: real
  curvature :: real
  pt_r :: nat
  pt_g :: nat
  pt_b :: nat

type_synonym cloud = "PointNormal list"

definition PointNormal_default :: PointNormal where
  "PointNormal_default =
     \<lparr>pt_x = 0, pt_y = 0, pt_z = 0, pt_w = 1, normal_x = 0, normal_y = 0, normal_z = 0,
      curvature = 0, pt_r = 0, pt_g = 0, pt_b = 0\<rparr>"

text \<open>
  \<open>dst_pt.getVector4fMap() = pose * src_pt.getVector4fMap()\<close> on a fresh \<open>dst_pt\<close>.
\<close>

definition transform_point :: "Isometry3d \<Rightarrow> PointNormal \<Rightarrow> PointNormal" where
  "transform_point pose src_pt =
     (let v = add3 (mat3_vec (rotation pose) (pt_x src_pt, pt_y src_pt, pt_z src_pt))
                   (scale3 (pt_w src_pt) (translation pose))
      in PointNormal_default\<lparr>pt_x := x3 v, pt_y := y3 v, pt_z := z3 v, pt_w := pt_w src_pt\<rparr>)"

text \<open>\<open>(p.getVector4fMap() - q.getVector4fMap()).squaredNorm()\<close>.\<close>

definition squaredNorm_diff :: "PointNormal \<Rightarrow> PointNormal \<Rightarrow> real" where
  "squaredNorm_diff p q =
     (pt_x p - pt_x q)\<^sup>2 + (pt_y p - pt_y q)\<^sup>2 + (pt_z p - pt_z q)\<^sup>2 + (pt_w p - pt_w q)\<^sup>2"

text \<open>
  \<open>PlaneUtils::check_point_neighbours(cloud_1, cloud_2)\<close>. The inner loop stops at the
  first point of \<open>cloud_2\<close> whose squared distance to the point of \<open>cloud_1\<close> is below
  \<open>min_dist = 0.5\<close>, and counts the point of \<open>cloud_1\<close>; the outer loop stops as soon as
  \<open>point_count > 100\<close>.
\<close>

fun has_near_point :: "PointNormal \<Rightarrow> cloud \<Rightarrow> bool" where
  "has_near_point p [] = False"
| "has_near_point p (q # cloud_2) =
     (if squaredNorm_diff p q < 0.5 then True else has_near_point p cloud_2)"

fun check_point_neighbours_from :: "int \<Rightarrow> cloud \<Rightarrow> cloud \<Rightarrow> bool" where
  "check_point_neighbours_from point_count [] cloud_2 = False"
| "check_point_neighbours_from point_count (p # cloud_1) cloud_2 =
     (let point_count' = (if has_near_point p cloud_2 then point_count + 1 else point_count)
      in if point_count' > 100 then True
         else check_point_neighbours_from point_count' cloud_1 cloud_2)"

definition check_point_neighbours :: "cloud \<Rightarrow> cloud \<Rightarrow> bool" where
  "check_point_neighbours cloud_1 cloud_2 = check_point_neighbours_from 0 cloud_1 cloud_2"

section \<open>The optimisation graph (GraphSLAM)\<close>

text \<open>
  Only the declaration of \<open>GraphSLAM\<close> is part of the sources at hand. A pointer to a
  vertex is the position of the vertex in the list of vertices, a pointer to an edge the
  position of the edge in the list of edges. An edge keeps its type, the vertices it
  joins, its measurement and its information matrix (both row by row), and its robust
  kernel if one was attached.
\<close>

datatype vertex =
    VertexSE3 Isometry3d
  | VertexPlane vec4
  | VertexCorridor vec3
  | VertexRoomXYLB "real \<times> real"

datatype edge_type =
    EdgeSE3 | EdgeSE3Plane | EdgeSE3PointToPlane
  | EdgeSE3Corridor | EdgeCorridorXPlane | EdgeCorridorYPlane
  | EdgeSE3Room | EdgeRoomXPlane | EdgeRoomYPlane
  | EdgeSE3PriorXY | EdgeSE3PriorXYZ | EdgeSE3PriorQuat | EdgeSE3PriorVec

record edge =
  edge_kind :: edge_type
  edge_vertices :: "nat list"
  measurement :: "real list"
  information :: "real list"
  robust_kernel :: "(string \<times> real) option"

record GraphSLAM =
  vertices :: "vertex list"
  edges :: "edge list"
  vertex_count :: nat
  edge_count :: nat

text \<open>
  Modelled from the spec: the implementation of \<open>GraphSLAM\<close> (graph\_slam.cpp) is missing.
  "Vertex ids are the monotonically increasing count of vertices added;
  \<open>num_vertices_local\<close>/\<open>num_edges_local\<close> distinguish a robot's own subgraph from
  federated/merged portions." \<open>num_vertices\<close> counts the vertices of the optimizer,
  \<open>num_vertices_local\<close> reads the counter \<open>vertex_count\<close>, which every vertex added
  through this object increments.
\<close>

definition num_vertices :: "GraphSLAM \<Rightarrow> int" where
  "num_vertices g = int (length (vertices g))"

definition num_vertices_local :: "GraphSLAM \<Rightarrow> int" where
  "num_vertices_local g = int (vertex_count g)"

text \<open>
  Modelled from the spec: "typed factory methods for every vertex/edge kind, each taking
  the geometric quantity and an information matrix, returning an opaque handle".
\<close>

definition add_vertex :: "GraphSLAM \<Rightarrow> vertex \<Rightarrow> nat \<times> GraphSLAM" where
  "add_vertex g v =
     (length (vertices g), g\<lparr>vertices := vertices g @ [v], vertex_count := vertex_count g + 1\<rparr>)"

definition add_se3_node :: "GraphSLAM \<Rightarrow> Isometry3d \<Rightarrow> nat \<times> GraphSLAM" where
  "add_se3_node g pose = add_vertex g (VertexSE3 pose)"

definition add_plane_node :: "GraphSLAM \<Rightarrow> vec4 \<Rightarrow> nat \<times> GraphSLAM" where
  "add_plane_node g plane_coeffs = add_vertex g (VertexPlane (Plane3D plane_coeffs))"

definition add_corridor_node :: "GraphSLAM \<Rightarrow> vec3 \<Rightarrow> nat \<times> GraphSLAM" where
  "add_corridor_node g corridor_pose = add_vertex g (VertexCorridor corridor_pose)"

definition add_room_node :: "GraphSLAM \<Rightarrow> real \<times> real \<Rightarrow> nat \<times> GraphSLAM" where
  "add_room_node g room_pose = add_vertex g (VertexRoomXYLB room_pose)"

definition add_edge ::
  "GraphSLAM \<Rightarrow> edge_type \<Rightarrow> nat list \<Rightarrow> real list \<Rightarrow> real list \<Rightarrow> nat \<times> GraphSLAM" where
  "add_edge g k vs meas info =
     (length (edges g),
      g\<lparr>edges := edges g @ [\<lparr>edge_kind = k, edge_vertices = vs, measurement = meas,
                               information = info, robust_kernel = None\<rparr>],
        edge_count := edge_count g + 1\<rparr>)"

text \<open>
  Modelled from the spec: "robust-kernel attachment". The kernel type \<open>NONE\<close> attaches
  nothing.
\<close>

definition add_robust_kernel :: "GraphSLAM \<Rightarrow> nat \<Rightarrow> string \<Rightarrow> real \<Rightarrow> GraphSLAM" where
  "add_robust_kernel g e kernel_type kernel_size =
     (if kernel_type = ''NONE'' \<or> \<not> e < length (edges g) then g
      else g\<lparr>edges := (edges g)[e := (edges g ! e)\<lparr>robust_kernel := Some (kernel_type, kernel_size)\<rparr>]\<rparr>)"

text \<open>\<open>v->estimate()\<close> through a pointer to a pose vertex.\<close>

definition se3_estimate :: "GraphSLAM \<Rightarrow> nat \<Rightarrow> Isometry3d option" where
  "se3_estimate g v =
     (if v < length (vertices g)
      then (case vertices g ! v of VertexSE3 pose \<Rightarrow> Some pose | _ \<Rightarrow> None)
      else None)"

fun vec4_list :: "vec4 \<Rightarrow> real list" where
  "vec4_list (a, b, c, e) = [a, b, c, e]"

fun vec3_list :: "vec3 \<Rightarrow> real list" where
  "vec3_list (a, b, c) = [a, b, c]"

section \<open>PlaneMapper (plane\_mapper.cpp)\<close>

text \<open>
  What the C++ leaves undefined is an error value of the model: passing on a pointer that
  was never assigned, following a pointer that is null or is not a vertex of the expected
  kind, indexing a vector out of range, \<open>back()\<close> of an empty cloud or of an empty
  vector of keyframes, dereferencing the end iterator that \<open>find_if\<close> returns when
  nothing is found.
\<close>

datatype mapper_error =
    UninitialisedPlaneNode
  | DanglingVertex
  | IndexOutOfRange
  | NullCloud
  | EmptyCloud
  | PlaneNotFound
  | UninitialisedValue
  | EmptyKeyframes

text \<open>
  \<open>KeyFrame\<close>, restricted to what the plane mapper touches. \<open>keyframe->estimate()\<close> and
  \<open>keyframe->node->estimate()\<close> both read the pose vertex \<open>kf_node\<close> of the graph.
\<close>

record KeyFrame =
  kf_node :: nat
  kf_cloud_seg_body :: cloud
  x_plane_ids :: "int list"
  y_plane_ids :: "int list"
  hort_plane_ids :: "int list"

text \<open>
  \<open>VerticalPlanes\<close> and \<open>HorizontalPlanes\<close> (planes.hpp, not among the sources) have the
  same fields, read off their uses. The nodelet works on an older version of the struct;
  of its fields it uses \<open>id\<close>, \<open>plane_node\<close> and \<open>covariance\<close> in the functions
  modelled below. \<open>cloud_seg_map\<close> is a pointer, \<open>None\<close> for \<open>nullptr\<close>.
\<close>

record VerticalPlanes =
  vp_id :: int
  vp_plane :: vec4
  vp_cloud_seg_body :: cloud
  vp_cloud_seg_body_vec :: "cloud list"
  vp_keyframe_node_vec :: "nat list"
  vp_keyframe_node :: nat
  vp_plane_node :: nat
  vp_cloud_seg_map :: "cloud option"
  vp_covariance :: mat3
  vp_color :: "real list"

record plane_mapper_params =
  use_point_to_plane :: bool
  plane_information :: real
  plane_dist_threshold :: real

text \<open>
  The graph and the three collections of plane landmarks. The plane mapper receives them
  by reference together with the keyframe it works on; in the nodelet they are members,
  next to the corridors and rooms.
\<close>

record landmarks =
  graph :: GraphSLAM
  x_vert_planes :: "VerticalPlanes list"
  y_vert_planes :: "VerticalPlanes list"
  hort_planes :: "VerticalPlanes list"

record mapper_state = landmarks +
  keyframe :: KeyFrame

text \<open>
  The Mahalanobis distance of \<open>associate_plane\<close> is computed with g2o and Eigen
  (\<open>m2n * plane\<close>, \<open>ominus\<close>, the inverse of the covariance, \<open>sqrt\<close>); it is a parameter
  of the model: \<open>maha est landmark_plane det_plane cov\<close> stands for
  \<open>sqrt(error\<^sup>T * cov.inverse() * error)\<close> with
  \<open>error = (est.inverse() * landmark_plane).ominus(det_plane)\<close>, and is \<open>None\<close> when the
  C++ value is NaN. The fall-back of the code is the same expression with the identity
  matrix.
\<close>

type_synonym maha_fun = "Isometry3d \<Rightarrow> vec4 \<Rightarrow> vec4 \<Rightarrow> mat3 \<Rightarrow> real option"

definition fallback_maha_dist :: "maha_fun \<Rightarrow> Isometry3d \<Rightarrow> vec4 \<Rightarrow> VerticalPlanes \<Rightarrow> real option" where
  "fallback_maha_dist maha est det_plane vp =
     (case maha est (vp_plane vp) det_plane (vp_covariance vp) of
        None \<Rightarrow> maha est (vp_plane vp) det_plane Identity3
      | Some m \<Rightarrow> if m < 0.001 then maha est (vp_plane vp) det_plane Identity3 else Some m)"

text \<open>
  The body of the association loop over a collection of vertical planes; the state is
  \<open>(vert_min_maha_dist, data_association.first, data_association.second)\<close>. A NaN
  distance compares false.
\<close>

definition associate_vert_body ::
  "maha_fun \<Rightarrow> Isometry3d \<Rightarrow> vec4 \<Rightarrow> VerticalPlanes list \<Rightarrow> nat \<Rightarrow>
   real \<times> int \<times> int \<Rightarrow> real \<times> int \<times> int" where
  "associate_vert_body maha est det_plane planes i st =
     (case fallback_maha_dist maha est det_plane (planes ! i) of
        None \<Rightarrow> st
      | Some maha_dist \<Rightarrow>
          if maha_dist < fst st then (maha_dist, vp_id (planes ! i), int i) else st)"

text \<open>
  In the loop over the horizontal planes the comparison is with \<open>hort_min_maha_dist\<close>,
  which the loop never changes (it assigns \<open>vert_min_maha_dist\<close>): the state is
  \<open>(data_association.first, data_association.second)\<close>.
\<close>

definition associate_hort_body ::
  "maha_fun \<Rightarrow> Isometry3d \<Rightarrow> vec4 \<Rightarrow> VerticalPlanes list \<Rightarrow> nat \<Rightarrow>
   int \<times> int \<Rightarrow> int \<times> int" where
  "associate_hort_body maha est det_plane planes i st =
     (case fallback_maha_dist maha est det_plane (planes ! i) of
        None \<Rightarrow> st
      | Some maha_dist \<Rightarrow>
          if maha_dist < 100 then (vp_id (planes ! i), int i) else st)"

text \<open>
  The case of a vertical class in \<open>associate_plane\<close>; the cases \<open>X_VERT_PLANE\<close> and
  \<open>Y_VERT_PLANE\<close> are the same code on \<open>x_vert_planes\<close> and on \<open>y_vert_planes\<close>.
  \<open>std::pair<int, int> data_association\<close> starts as \<open>(0, 0)\<close>.
\<close>

definition associate_vert ::
  "maha_fun \<Rightarrow> plane_mapper_params \<Rightarrow> Isometry3d \<Rightarrow> vec4 \<Rightarrow> cloud \<Rightarrow>
   VerticalPlanes list \<Rightarrow> mapper_error + (int \<times> int)" where
  "associate_vert maha P est det_plane cloud_seg_body planes =
     (let st = fold (associate_vert_body maha est det_plane planes) [0 ..< length planes] (100, 0, 0);
          vert_min_maha_dist = fst st;
          data_association = snd st
      in if vert_min_maha_dist < plane_dist_threshold P
         then (if \<not> nat (snd data_association) < length planes then Inl IndexOutOfRange
               else case vp_cloud_seg_map (planes ! nat (snd data_association)) of
                      None \<Rightarrow> Inl NullCloud
                    | Some cloud_seg_map \<Rightarrow>
                        if cloud_seg_map \<noteq> []
                        then (let cloud_seg_detected = map (transform_point est) cloud_seg_body;
                                  valid_neighbour = check_point_neighbours cloud_seg_map cloud_seg_detected
                              in if \<not> valid_neighbour then Inr (-1, snd data_association)
                                 else Inr data_association)
                        else Inr data_association)
         else Inr data_association)"

definition associate_plane ::
  "maha_fun \<Rightarrow> plane_mapper_params \<Rightarrow> int \<Rightarrow> GraphSLAM \<Rightarrow> KeyFrame \<Rightarrow> vec4 \<Rightarrow> cloud \<Rightarrow>
   VerticalPlanes list \<Rightarrow> VerticalPlanes list \<Rightarrow> VerticalPlanes list \<Rightarrow>
   mapper_error + (int \<times> int)" where
  "associate_plane maha P plane_type g kf det_plane cloud_seg_body xs ys hs =
     (case se3_estimate g (kf_node kf) of
        None \<Rightarrow> Inl DanglingVertex
      | Some est \<Rightarrow>
          if plane_type = X_VERT_PLANE then associate_vert maha P est det_plane cloud_seg_body xs
          else if plane_type = Y_VERT_PLANE then associate_vert maha P est det_plane cloud_seg_body ys
          else if plane_type = HORT_PLANE
          then (let data_association =
                      fold (associate_hort_body maha est det_plane hs) [0 ..< length hs] (0, 0)
                in if 100 > plane_dist_threshold P then Inr (-1, snd data_association)
                   else Inr data_association)
          else Inr (0, 0))"

text \<open>
  \<open>convert_plane_points_to_map\<close>: every landmark gets a fresh map cloud, the supporting
  body clouds moved by their supporting poses. The loop over \<open>k\<close> reads
  \<open>keyframe_node_vec[k]\<close> and \<open>cloud_seg_body_vec[k]\<close> side by side.
\<close>

fun map_cloud_of :: "GraphSLAM \<Rightarrow> nat list \<Rightarrow> cloud list \<Rightarrow> mapper_error + cloud" where
  "map_cloud_of g [] cs = Inr []"
| "map_cloud_of g (n # ns) [] = Inl IndexOutOfRange"
| "map_cloud_of g (n # ns) (c # cs) =
     (case se3_estimate g n of
        None \<Rightarrow> Inl DanglingVertex
      | Some pose \<Rightarrow>
          (case map_cloud_of g ns cs of
             Inl e \<Rightarrow> Inl e
           | Inr rest \<Rightarrow> Inr (map (transform_point pose) c @ rest)))"

fun convert_planes :: "GraphSLAM \<Rightarrow> VerticalPlanes list \<Rightarrow> mapper_error + VerticalPlanes list" where
  "convert_planes g [] = Inr []"
| "convert_planes g (vp # vps) =
     (case map_cloud_of g (vp_keyframe_node_vec vp) (vp_cloud_seg_body_vec vp) of
        Inl e \<Rightarrow> Inl e
      | Inr cloud_seg_map \<Rightarrow>
          (case convert_planes g vps of
             Inl e \<Rightarrow> Inl e
           | Inr rest \<Rightarrow> Inr (vp\<lparr>vp_cloud_seg_map := Some cloud_seg_map\<rparr> # rest)))"

definition convert_plane_points_to_map :: "mapper_state \<Rightarrow> mapper_error + mapper_state" where
  "convert_plane_points_to_map s =
     (case convert_planes (graph s) (x_vert_planes s) of
        Inl e \<Rightarrow> Inl e
      | Inr xs \<Rightarrow>
          (case convert_planes (graph s) (y_vert_planes s) of
             Inl e \<Rightarrow> Inl e
           | Inr ys \<Rightarrow>
               (case convert_planes (graph s) (hort_planes s) of
                  Inl e \<Rightarrow> Inl e
                | Inr hs \<Rightarrow> Inr (s\<lparr>x_vert_planes := xs, y_vert_planes := ys, hort_planes := hs\<rparr>))))"

text \<open>
  The point-to-plane filter at the head of \<open>factor_planes\<close>: a point stays in the
  keyframe's cloud when its distance to the detected plane is below 0.1, and its outer
  product \<open>point * point\<^sup>T\<close> (16 entries, row by row) is added to \<open>Gij\<close>.
\<close>

definition point_to_plane_d :: "vec4 \<Rightarrow> Isometry3d \<Rightarrow> PointNormal \<Rightarrow> real" where
  "point_to_plane_d coeffs est p =
     dot3 (head3 coeffs)
          (add3 (mat3_vec (rotation est) (pt_x p, pt_y p, pt_z p)) (translation est))
     + c3 coeffs"

definition outer4 :: "PointNormal \<Rightarrow> real list" where
  "outer4 p = (let v = [pt_x p, pt_y p, pt_z p, 1] in concat (map (\<lambda>a. map (\<lambda>b. a * b) v) v))"

fun filter_points :: "vec4 \<Rightarrow> Isometry3d \<Rightarrow> cloud \<Rightarrow> real list \<Rightarrow> cloud \<times> real list" where
  "filter_points coeffs est [] Gij = ([], Gij)"
| "filter_points coeffs est (p # ps) Gij =
     (if abs (point_to_plane_d coeffs est p) < 0.1
      then (let r = filter_points coeffs est ps (map2 (+) Gij (outer4 p)) in (p # fst r, snd r))
      else filter_points coeffs est ps Gij)"

text \<open>
  A new landmark of \<open>factor_planes\<close>. The colour of a vertical plane is read from the
  last point of the keyframe's cloud.
\<close>

definition new_plane ::
  "int \<Rightarrow> vec4 \<Rightarrow> KeyFrame \<Rightarrow> nat \<Rightarrow> real list \<Rightarrow> VerticalPlanes" where
  "new_plane ident coeffs kf plane_node color =
     \<lparr>vp_id = ident, vp_plane = Plane3D coeffs, vp_cloud_seg_body = kf_cloud_seg_body kf,
      vp_cloud_seg_body_vec = [kf_cloud_seg_body kf], vp_keyframe_node_vec = [kf_node kf],
      vp_keyframe_node = kf_node kf, vp_plane_node = plane_node, vp_cloud_seg_map = None,
      vp_covariance = Identity3, vp_color = color\<rparr>"

definition matched_plane :: "KeyFrame \<Rightarrow> VerticalPlanes \<Rightarrow> VerticalPlanes" where
  "matched_plane kf vp =
     vp\<lparr>vp_cloud_seg_body_vec := vp_cloud_seg_body_vec vp @ [kf_cloud_seg_body kf],
        vp_keyframe_node_vec := vp_keyframe_node_vec vp @ [kf_node kf]\<rparr>"

text \<open>
  The \<open>switch(plane_type)\<close> of \<open>factor_planes\<close>. It returns \<open>data_association.first\<close>,
  the local \<open>plane_node\<close> (\<open>None\<close> while it was never assigned, as after the \<open>default\<close>
  case, which only prints a message) and the new state.
\<close>

definition factor_planes_switch ::
  "int \<Rightarrow> vec4 \<Rightarrow> int \<times> int \<Rightarrow> mapper_state \<Rightarrow>
   mapper_error + (int \<times> nat option \<times> mapper_state)" where
  "factor_planes_switch plane_type det_plane_map_frame data_association s =
     (let kf = keyframe s in
      if plane_type = X_VERT_PLANE then
        (if x_vert_planes s = [] \<or> fst data_association = -1
         then (if kf_cloud_seg_body kf = [] then Inl EmptyCloud
               else let first = num_vertices_local (graph s);
                        r = add_plane_node (graph s) det_plane_map_frame;
                        color = [real (pt_r (last (kf_cloud_seg_body kf))),
                                 real (pt_g (last (kf_cloud_seg_body kf))),
                                 real (pt_b (last (kf_cloud_seg_body kf)))];
                        vert_plane = new_plane first det_plane_map_frame kf (fst r) color
                    in Inr (first, Some (fst r),
                            s\<lparr>graph := snd r,
                              x_vert_planes := x_vert_planes s @ [vert_plane],
                              keyframe := kf\<lparr>x_plane_ids := x_plane_ids kf @ [vp_id vert_plane]\<rparr>\<rparr>))
         else (if \<not> nat (snd data_association) < length (x_vert_planes s) \<or> snd data_association < 0
               then Inl IndexOutOfRange
               else let i = nat (snd data_association); vp = x_vert_planes s ! i
                    in Inr (fst data_association, Some (vp_plane_node vp),
                            s\<lparr>x_vert_planes := (x_vert_planes s)[i := matched_plane kf vp],
                              keyframe := kf\<lparr>x_plane_ids := x_plane_ids kf @ [vp_id vp]\<rparr>\<rparr>)))
      else if plane_type = Y_VERT_PLANE then
        (if y_vert_planes s = [] \<or> fst data_association = -1
         then (if kf_cloud_seg_body kf = [] then Inl EmptyCloud
               else let first = num_vertices_local (graph s);
                        r = add_plane_node (graph s) det_plane_map_frame;
                        color = [real (pt_r (last (kf_cloud_seg_body kf))),
                                 real (pt_g (last (kf_cloud_seg_body kf))),
                                 real (pt_b (last (kf_cloud_seg_body kf)))];
                        vert_plane = new_plane first det_plane_map_frame kf (fst r) color
                    in Inr (first, Some (fst r),
                            s\<lparr>graph := snd r,
                              y_vert_planes := y_vert_planes s @ [vert_plane],
                              keyframe := kf\<lparr>y_plane_ids := y_plane_ids kf @ [vp_id vert_plane]\<rparr>\<rparr>))
         else (if \<not> nat (snd data_association) < length (y_vert_planes s) \<or> snd data_association < 0
               then Inl IndexOutOfRange
               else let i = nat (snd data_association); vp = y_vert_planes s ! i
                    in Inr (fst data_association, Some (vp_plane_node vp),
                            s\<lparr>y_vert_planes := (y_vert_planes s)[i := matched_plane kf vp],
                              keyframe := kf\<lparr>y_plane_ids := y_plane_ids kf @ [vp_id vp]\<rparr>\<rparr>)))
      else if plane_type = HORT_PLANE then
        (if hort_planes s = [] \<or> fst data_association = -1
         then (let first = num_vertices_local (graph s);
                   r = add_plane_node (graph s) det_plane_map_frame;
                   hort_plane = new_plane first det_plane_map_frame kf (fst r) [255, 0, 100]
               in Inr (first, Some (fst r),
                       s\<lparr>graph := snd r,
                         hort_planes := hort_planes s @ [hort_plane],
                         keyframe := kf\<lparr>hort_plane_ids := hort_plane_ids kf @ [vp_id hort_plane]\<rparr>\<rparr>))
         else (if \<not> nat (snd data_association) < length (hort_planes s) \<or> snd data_association < 0
               then Inl IndexOutOfRange
               else let i = nat (snd data_association); vp = hort_planes s ! i
                    in Inr (fst data_association, Some (vp_plane_node vp),
                            s\<lparr>hort_planes := (hort_planes s)[i := matched_plane kf vp],
                              keyframe := kf\<lparr>hort_plane_ids := hort_plane_ids kf @ [vp_id vp]\<rparr>\<rparr>)))
      else Inr (fst data_association, None, s))"

text \<open>
  The edge after the switch. \<open>plane_node\<close> is passed to the graph whatever the switch
  did; when it was never assigned this is the use of an indeterminate pointer.
\<close>

definition factor_planes_edge ::
  "plane_mapper_params \<Rightarrow> nat option \<Rightarrow> real list \<Rightarrow> vec4 \<Rightarrow> mapper_state \<Rightarrow>
   mapper_error + mapper_state" where
  "factor_planes_edge P plane_node Gij det_plane_body_frame s =
     (case plane_node of
        None \<Rightarrow> Inl UninitialisedPlaneNode
      | Some pn \<Rightarrow>
          if use_point_to_plane P
          then (let r = add_edge (graph s) EdgeSE3PointToPlane [kf_node (keyframe s), pn] Gij [0.001]
                in Inr (s\<lparr>graph := add_robust_kernel (snd r) (fst r) ''Huber'' 1.0\<rparr>))
          else (let k = plane_information P;
                    r = add_edge (graph s) EdgeSE3Plane [kf_node (keyframe s), pn]
                          (vec4_list det_plane_body_frame) [k, 0, 0, 0, k, 0, 0, 0, k]
                in Inr (s\<lparr>graph := add_robust_kernel (snd r) (fst r) ''Huber'' 1.0\<rparr>)))"

text \<open>\<open>PlaneMapper::factor_planes\<close>; it returns \<open>data_association.first\<close>.\<close>

definition factor_planes ::
  "maha_fun \<Rightarrow> plane_mapper_params \<Rightarrow> mapper_state \<Rightarrow> int \<Rightarrow> vec4 \<Rightarrow> vec4 \<Rightarrow>
   mapper_error + (int \<times> mapper_state)" where
  "factor_planes maha P s plane_type det_plane_map_frame det_plane_body_frame =
     (case se3_estimate (graph s) (kf_node (keyframe s)) of
        None \<Rightarrow> Inl DanglingVertex
      | Some est \<Rightarrow>
          (let fp = (if use_point_to_plane P
                     then filter_points det_plane_map_frame est (kf_cloud_seg_body (keyframe s))
                            (replicate 16 0)
                     else (kf_cloud_seg_body (keyframe s), replicate 16 0));
               Gij = snd fp;
               s1 = s\<lparr>keyframe := (keyframe s)\<lparr>kf_cloud_seg_body := fst fp\<rparr>\<rparr>
           in case associate_plane maha P plane_type (graph s1) (keyframe s1) det_plane_body_frame
                     (kf_cloud_seg_body (keyframe s1))
                     (x_vert_planes s1) (y_vert_planes s1) (hort_planes s1) of
                Inl e \<Rightarrow> Inl e
              | Inr data_association \<Rightarrow>
                  (case factor_planes_switch plane_type det_plane_map_frame data_association s1 of
                     Inl e \<Rightarrow> Inl e
                   | Inr (first, plane_node, s2) \<Rightarrow>
                       (case factor_planes_edge P plane_node Gij det_plane_body_frame s2 of
                          Inl e \<Rightarrow> Inl e
                        | Inr s3 \<Rightarrow>
                            (case convert_plane_points_to_map s3 of
                               Inl e \<Rightarrow> Inl e
                             | Inr s4 \<Rightarrow> Inr (first, s4))))))"

text \<open>\<open>PlaneMapper::sort_planes\<close> only forwards to \<open>factor_planes\<close>.\<close>

definition sort_planes ::
  "maha_fun \<Rightarrow> plane_mapper_params \<Rightarrow> mapper_state \<Rightarrow> int \<Rightarrow> vec4 \<Rightarrow> vec4 \<Rightarrow>
   mapper_error + (int \<times> mapper_state)" where
  "sort_planes maha P s plane_type det_plane_map_frame det_plane_body_frame =
     factor_planes maha P s plane_type det_plane_map_frame det_plane_body_frame"

text \<open>\<open>PlaneMapper::convert_plane_to_map_frame\<close>.\<close>

definition convert_plane_to_map_frame :: "Isometry3d \<Rightarrow> vec4 \<Rightarrow> vec4" where
  "convert_plane_to_map_frame w2n det_plane_body_frame =
     (let n = mat3_vec (rotation w2n) (head3 det_plane_body_frame);
          e = c3 det_plane_body_frame - dot3 (translation w2n) n
      in Plane3D (x3 n, y3 n, z3 n, e))"

text \<open>
  \<open>PlaneMapper::add_planes_to_graph\<close>; it returns \<open>plane_type\<close>, which stays \<open>-1\<close> when
  no coefficient of the normal is strictly the largest in magnitude.
\<close>

definition add_planes_to_graph ::
  "maha_fun \<Rightarrow> plane_mapper_params \<Rightarrow> mapper_state \<Rightarrow> vec4 \<Rightarrow>
   mapper_error + (int \<times> mapper_state)" where
  "add_planes_to_graph maha P s det_plane_body_frame =
     (case se3_estimate (graph s) (kf_node (keyframe s)) of
        None \<Rightarrow> Inl DanglingVertex
      | Some w2n \<Rightarrow>
          (let det_plane_map_frame = convert_plane_to_map_frame w2n det_plane_body_frame;
               a = abs (c0 det_plane_map_frame);
               b = abs (c1 det_plane_map_frame);
               c = abs (c2 det_plane_map_frame);
               plane_type = (if a > b \<and> a > c then X_VERT_PLANE
                             else if b > a \<and> b > c then Y_VERT_PLANE
                             else if c > a \<and> c > b then HORT_PLANE
                             else -1)
           in case sort_planes maha P s plane_type det_plane_map_frame det_plane_body_frame of
                Inl e \<Rightarrow> Inl e
              | Inr (pid, s') \<Rightarrow> Inr (plane_type, s')))"

section \<open>Corridor and room factoring in the mapping nodelet\<close>

text \<open>\<open>Corridors\<close> and \<open>Rooms\<close> (corridors.hpp, rooms.hpp), read off their uses.\<close>

record Corridors =
  cor_id :: int
  cor_plane1 :: vec4
  cor_plane2 :: vec4
  cor_plane1_id :: int
  cor_plane2_id :: int
  cor_keyframe_trans :: vec3
  cor_node :: nat

record Rooms =
  room_id :: int
  plane_x1 :: vec4
  plane_x2 :: vec4
  plane_y1 :: vec4
  plane_y2 :: vec4
  plane_x1_id :: int
  plane_x2_id :: int
  plane_y1_id :: int
  plane_y2_id :: int
  room_node :: nat

record nodelet_state = landmarks +
  x_corridors :: "Corridors list"
  y_corridors :: "Corridors list"
  rooms_vec :: "Rooms list"

record structure_params =
  corridor_dist_threshold :: real
  room_dist_threshold :: real

definition corridor_estimate :: "GraphSLAM \<Rightarrow> nat \<Rightarrow> vec3 option" where
  "corridor_estimate g v =
     (if v < length (vertices g)
      then (case vertices g ! v of VertexCorridor e \<Rightarrow> Some e | _ \<Rightarrow> None)
      else None)"

definition room_estimate :: "GraphSLAM \<Rightarrow> nat \<Rightarrow> (real \<times> real) option" where
  "room_estimate g v =
     (if v < length (vertices g)
      then (case vertices g ! v of VertexRoomXYLB e \<Rightarrow> Some e | _ \<Rightarrow> None)
      else None)"

text \<open>\<open>pre_corridor_pose\<close>: one coordinate of \<open>(0, 0, 0)\<close> is set, by the plane type.\<close>

definition midpoint_offset :: "vec4 \<Rightarrow> vec4 \<Rightarrow> real" where
  "midpoint_offset v1 v2 =
     (if abs (c3 v1) > abs (c3 v2) then (c3 v1 - c3 v2) / 2 + c3 v2
      else (c3 v2 - c3 v1) / 2 + c3 v1)"

definition pre_corridor_pose :: "int \<Rightarrow> vec4 \<Rightarrow> vec4 \<Rightarrow> vec3" where
  "pre_corridor_pose plane_type v1 v2 =
     (let px = (if plane_type = X_VERT_PLANE then midpoint_offset v1 v2 else 0);
          py = (if plane_type = Y_VERT_PLANE then midpoint_offset v1 v2 else 0)
      in (px, py, 0))"

text \<open>
  \<open>final_corridor_pose\<close>: the local vector is assigned for the two vertical plane types
  only.
\<close>

definition final_corridor_pose :: "int \<Rightarrow> vec3 \<Rightarrow> Isometry3d \<Rightarrow> vec3 option" where
  "final_corridor_pose plane_type pre_corr_pose est =
     (if plane_type = Y_VERT_PLANE
        then Some (x3 (translation est), y3 pre_corr_pose, z3 (translation est))
      else if plane_type = X_VERT_PLANE
        then Some (x3 pre_corr_pose, y3 (translation est), z3 (translation est))
      else None)"

text \<open>
  \<open>corridor_pose_local\<close>: the translation of \<open>corridor_pose_map * keyframe.inverse()\<close>,
  where \<open>corridor_pose_map\<close> is the identity moved to \<open>corr_pose\<close>.
\<close>

definition corridor_pose_local :: "Isometry3d \<Rightarrow> vec3 \<Rightarrow> vec3" where
  "corridor_pose_local est corr_pose = add3 (translation (isometry_inverse est)) corr_pose"

definition signed_gap :: "real \<Rightarrow> real \<Rightarrow> real" where
  "signed_gap a b = (if abs a > abs b then a - b else b - a)"

definition corridor_measurement :: "int \<Rightarrow> vec3 \<Rightarrow> vec4 \<Rightarrow> vec3" where
  "corridor_measurement plane_type corr pl =
     (let m0 = (if plane_type = X_VERT_PLANE then signed_gap (x3 corr) (c3 pl) else 0);
          m1 = (if plane_type = Y_VERT_PLANE then signed_gap (y3 corr) (c3 pl) else m0)
      in (m1, 0, 0))"

text \<open>
  \<open>associate_corridors\<close>. The loop state is \<open>(min_dist, first, second)\<close>, starting from
  \<open>(100, -1, 0)\<close>; \<open>sel\<close> is the coordinate that the plane type selects.
\<close>

fun associate_corridors_loop ::
  "GraphSLAM \<Rightarrow> (vec3 \<Rightarrow> real) \<Rightarrow> vec3 \<Rightarrow> Corridors list \<Rightarrow> nat \<Rightarrow>
   real \<times> int \<times> int \<Rightarrow> mapper_error + (real \<times> int \<times> int)" where
  "associate_corridors_loop g sel corr_pose [] i st = Inr st"
| "associate_corridors_loop g sel corr_pose (c # cs) i st =
     (case corridor_estimate g (cor_node c) of
        None \<Rightarrow> Inl DanglingVertex
      | Some e \<Rightarrow>
          (let dist = abs (sel corr_pose - sel e)
           in associate_corridors_loop g sel corr_pose cs (i + 1)
                (if dist < fst st then (dist, cor_id c, int i) else st)))"

definition associate_corridors ::
  "structure_params \<Rightarrow> int \<Rightarrow> GraphSLAM \<Rightarrow> Corridors list \<Rightarrow> Corridors list \<Rightarrow> vec3 \<Rightarrow>
   mapper_error + (int \<times> int)" where
  "associate_corridors P plane_type g xcs ycs corr_pose =
     (case (if plane_type = X_VERT_PLANE
            then associate_corridors_loop g x3 corr_pose xcs 0 (100, -1, 0)
            else Inr (100, -1, 0)) of
        Inl e \<Rightarrow> Inl e
      | Inr st1 \<Rightarrow>
          (case (if plane_type = Y_VERT_PLANE
                 then associate_corridors_loop g y3 corr_pose ycs 0 st1
                 else Inr st1) of
             Inl e \<Rightarrow> Inl e
           | Inr st2 \<Rightarrow>
               if fst st2 > corridor_dist_threshold P then Inr (-1, snd (snd st2))
               else Inr (snd st2)))"

text \<open>
  One branch of \<open>factor_corridors\<close>. The branches for \<open>X_VERT_PLANE\<close> and \<open>Y_VERT_PLANE\<close>
  are the same code on \<open>(x_vert_planes, x_corridors)\<close> with \<open>add_corridor_xplane_edge\<close>
  and on \<open>(y_vert_planes, y_corridors)\<close> with \<open>add_corridor_yplane_edge\<close>.

  First the \<open>if / else\<close> that creates a corridor or takes the matched one: it yields
  \<open>corr_node\<close>, its estimate, the graph and the collection of corridors.
\<close>

definition corridor_node_for ::
  "int \<Rightarrow> int \<times> int \<Rightarrow> vec3 \<Rightarrow> Isometry3d \<Rightarrow> GraphSLAM \<Rightarrow> Corridors list \<Rightarrow>
   plane_data_list \<Rightarrow> plane_data_list \<Rightarrow>
   mapper_error + (nat \<times> vec3 \<times> GraphSLAM \<times> Corridors list)" where
  "corridor_node_for plane_type corr_data_association pre_corr_pose est g corridors
       corr_plane1_pair corr_plane2_pair =
     (if corridors = [] \<or> fst corr_data_association = -1
      then (case final_corridor_pose plane_type pre_corr_pose est of
              None \<Rightarrow> Inl UninitialisedValue
            | Some corr_pose \<Rightarrow>
                (let first = num_vertices g;
                     r = add_corridor_node g corr_pose;
                     det_corridor =
                       \<lparr>cor_id = first,
                        cor_plane1 = plane corr_plane1_pair, cor_plane2 = plane corr_plane2_pair,
                        cor_plane1_id = plane_id corr_plane1_pair,
                        cor_plane2_id = plane_id corr_plane2_pair,
                        cor_keyframe_trans = translation est, cor_node = fst r\<rparr>
                 in Inr (fst r, corr_pose, snd r, corridors @ [det_corridor])))
      else if 0 \<le> snd corr_data_association \<and> nat (snd corr_data_association) < length corridors
      then (let corr_node = cor_node (corridors ! nat (snd corr_data_association))
            in case corridor_estimate g corr_node of
                 None \<Rightarrow> Inl DanglingVertex
               | Some e \<Rightarrow> Inr (corr_node, e, g, corridors))
      else Inl IndexOutOfRange)"

text \<open>Then the three edges, each with a Huber kernel.\<close>

definition corridor_edges ::
  "int \<Rightarrow> edge_type \<Rightarrow> nat \<Rightarrow> Isometry3d \<Rightarrow> nat \<Rightarrow> vec3 \<Rightarrow> GraphSLAM \<Rightarrow>
   VerticalPlanes \<Rightarrow> VerticalPlanes \<Rightarrow> plane_data_list \<Rightarrow> plane_data_list \<Rightarrow> GraphSLAM" where
  "corridor_edges plane_type ek kn est corr_node corr_est g1 found_plane1 found_plane2
       corr_plane1_pair corr_plane2_pair =
     (let meas_plane1 = corridor_measurement plane_type corr_est (plane corr_plane1_pair);
          meas_plane2 = corridor_measurement plane_type corr_est (plane corr_plane2_pair);
          corr_pose_local = corridor_pose_local est corr_est;
          e0 = add_edge g1 EdgeSE3Corridor [kn, corr_node] (vec3_list corr_pose_local)
                 [0.01, 0, 0, 0, 0.01, 0, 0, 0, 0.01];
          g2 = add_robust_kernel (snd e0) (fst e0) ''Huber'' 1.0;
          e1 = add_edge g2 ek [corr_node, vp_plane_node found_plane1] (vec3_list meas_plane1) [0.01];
          g3 = add_robust_kernel (snd e1) (fst e1) ''Huber'' 1.0;
          e2 = add_edge g3 ek [corr_node, vp_plane_node found_plane2] (vec3_list meas_plane2) [0.01]
      in add_robust_kernel (snd e2) (fst e2) ''Huber'' 1.0)"

definition factor_corridors_branch ::
  "int \<Rightarrow> edge_type \<Rightarrow> int \<times> int \<Rightarrow> vec3 \<Rightarrow> GraphSLAM \<Rightarrow> VerticalPlanes list \<Rightarrow>
   Corridors list \<Rightarrow> plane_data_list \<Rightarrow> plane_data_list \<Rightarrow>
   mapper_error + (GraphSLAM \<times> Corridors list)" where
  "factor_corridors_branch plane_type ek corr_data_association pre_corr_pose g planes corridors
       corr_plane1_pair corr_plane2_pair =
     (case keyframe_node corr_plane1_pair of
        None \<Rightarrow> Inl DanglingVertex
      | Some kn \<Rightarrow>
     (case se3_estimate g kn of
        None \<Rightarrow> Inl DanglingVertex
      | Some est \<Rightarrow>
     (case corridor_node_for plane_type corr_data_association pre_corr_pose est g corridors
             corr_plane1_pair corr_plane2_pair of
        Inl e \<Rightarrow> Inl e
      | Inr r \<Rightarrow>
     (case find (\<lambda>vp. vp_id vp = plane_id corr_plane1_pair) planes of
        None \<Rightarrow> Inl PlaneNotFound
      | Some found_plane1 \<Rightarrow>
     (case find (\<lambda>vp. vp_id vp = plane_id corr_plane2_pair) planes of
        None \<Rightarrow> Inl PlaneNotFound
      | Some found_plane2 \<Rightarrow>
          Inr (corridor_edges plane_type ek kn est (fst r) (fst (snd r)) (fst (snd (snd r)))
                 found_plane1 found_plane2 corr_plane1_pair corr_plane2_pair,
               snd (snd (snd r))))))))"

text \<open>\<open>factor_corridors(plane_type, corr_plane1_pair, corr_plane2_pair)\<close>.\<close>

definition factor_corridors ::
  "structure_params \<Rightarrow> nodelet_state \<Rightarrow> int \<Rightarrow> plane_data_list \<Rightarrow> plane_data_list \<Rightarrow>
   mapper_error + nodelet_state" where
  "factor_corridors P s plane_type corr_plane1_pair corr_plane2_pair =
     (let pre_corr_pose = pre_corridor_pose plane_type (plane corr_plane1_pair) (plane corr_plane2_pair)
      in case (if plane_type = X_VERT_PLANE
               then (case associate_corridors P plane_type (graph s) (x_corridors s) (y_corridors s)
                            pre_corr_pose of
                       Inl e \<Rightarrow> Inl e
                     | Inr da \<Rightarrow>
                         (case factor_corridors_branch plane_type EdgeCorridorXPlane da pre_corr_pose
                                 (graph s) (x_vert_planes s) (x_corridors s)
                                 corr_plane1_pair corr_plane2_pair of
                            Inl e \<Rightarrow> Inl e
                          | Inr r \<Rightarrow> Inr (s\<lparr>graph := fst r, x_corridors := snd r\<rparr>)))
               else Inr s) of
           Inl e \<Rightarrow> Inl e
         | Inr s1 \<Rightarrow>
             if plane_type = Y_VERT_PLANE
             then (case associate_corridors P plane_type (graph s1) (x_corridors s1) (y_corridors s1)
                          pre_corr_pose of
                     Inl e \<Rightarrow> Inl e
                   | Inr da \<Rightarrow>
                       (case factor_corridors_branch plane_type EdgeCorridorYPlane da pre_corr_pose
                               (graph s1) (y_vert_planes s1) (y_corridors s1)
                               corr_plane1_pair corr_plane2_pair of
                          Inl e \<Rightarrow> Inl e
                        | Inr r \<Rightarrow> Inr (s1\<lparr>graph := fst r, y_corridors := snd r\<rparr>)))
             else Inr s1)"

text \<open>\<open>compute_room_pose\<close>, \<open>compute_room_pose_local\<close>, \<open>room_measurement\<close>.\<close>

definition compute_room_pose :: "vec4 \<Rightarrow> vec4 \<Rightarrow> vec4 \<Rightarrow> vec4 \<Rightarrow> real \<times> real" where
  "compute_room_pose x_plane1 x_plane2 y_plane1 y_plane2 =
     (-1 * midpoint_offset x_plane1 x_plane2, -1 * midpoint_offset y_plane1 y_plane2)"

definition compute_room_pose_local :: "Isometry3d \<Rightarrow> real \<times> real \<Rightarrow> real \<times> real" where
  "compute_room_pose_local est room_pose =
     (let t = add3 (translation (isometry_inverse est)) (fst room_pose, snd room_pose, 0)
      in (x3 t, y3 t))"

definition room_measurement :: "int \<Rightarrow> real \<times> real \<Rightarrow> vec4 \<Rightarrow> real option" where
  "room_measurement plane_type room pl =
     (if plane_type = X_VERT_PLANE then Some (signed_gap (fst room) (c3 pl))
      else if plane_type = Y_VERT_PLANE then Some (signed_gap (snd room) (c3 pl))
      else None)"

text \<open>\<open>associate_rooms\<close>: the loop state is \<open>(min_dist, first, second)\<close> from \<open>(100, -1, 0)\<close>.\<close>

fun associate_rooms_loop ::
  "GraphSLAM \<Rightarrow> real \<times> real \<Rightarrow> Rooms list \<Rightarrow> nat \<Rightarrow>
   real \<times> int \<times> int \<Rightarrow> mapper_error + (real \<times> int \<times> int)" where
  "associate_rooms_loop g room_pose [] i st = Inr st"
| "associate_rooms_loop g room_pose (r # rs) i st =
     (case room_estimate g (room_node r) of
        None \<Rightarrow> Inl DanglingVertex
      | Some e \<Rightarrow>
          (let diff_x = fst room_pose - fst e;
               diff_y = snd room_pose - snd e;
               dist = sqrt (diff_x\<^sup>2 + diff_y\<^sup>2)
           in associate_rooms_loop g room_pose rs (i + 1)
                (if dist < fst st then (dist, room_id r, int i) else st)))"

definition associate_rooms ::
  "structure_params \<Rightarrow> GraphSLAM \<Rightarrow> Rooms list \<Rightarrow> real \<times> real \<Rightarrow> mapper_error + (int \<times> int)" where
  "associate_rooms P g rooms room_pose =
     (case associate_rooms_loop g room_pose rooms 0 (100, -1, 0) of
        Inl e \<Rightarrow> Inl e
      | Inr st \<Rightarrow>
          if fst st > room_dist_threshold P then Inr (-1, snd (snd st)) else Inr (snd st))"

text \<open>
  \<open>factor_rooms(x_room_pair_vec, y_room_pair_vec)\<close>. Both vectors are read at the
  indices 0 and 1. First the \<open>if / else\<close> that creates a room or takes the matched one,
  then the five edges, each with a Huber kernel.
\<close>

definition room_node_for ::
  "int \<times> int \<Rightarrow> real \<times> real \<Rightarrow> GraphSLAM \<Rightarrow> Rooms list \<Rightarrow>
   plane_data_list \<Rightarrow> plane_data_list \<Rightarrow> plane_data_list \<Rightarrow> plane_data_list \<Rightarrow>
   mapper_error + (nat \<times> GraphSLAM \<times> Rooms list)" where
  "room_node_for room_data_association room_pose g rooms x0 x1 y0 y1 =
     (if rooms = [] \<or> fst room_data_association = -1
      then (let first = num_vertices g;
                r = add_room_node g room_pose;
                det_room =
                  \<lparr>room_id = first,
                   plane_x1 = plane x0, plane_x2 = plane x1,
                   plane_y1 = plane y0, plane_y2 = plane y1,
                   plane_x1_id = plane_id x0, plane_x2_id = plane_id x1,
                   plane_y1_id = plane_id y0, plane_y2_id = plane_id y1,
                   room_node = fst r\<rparr>
            in Inr (fst r, snd r, rooms @ [det_room]))
      else if 0 \<le> snd room_data_association \<and> nat (snd room_data_association) < length rooms
      then Inr (room_node (rooms ! nat (snd room_data_association)), g, rooms)
      else Inl IndexOutOfRange)"

definition room_edges ::
  "nat \<Rightarrow> nat \<Rightarrow> real \<times> real \<Rightarrow> GraphSLAM \<Rightarrow>
   VerticalPlanes \<Rightarrow> VerticalPlanes \<Rightarrow> VerticalPlanes \<Rightarrow> VerticalPlanes \<Rightarrow>
   real \<Rightarrow> real \<Rightarrow> real \<Rightarrow> real \<Rightarrow> GraphSLAM" where
  "room_edges kn rn room_pose_local g1 found_x_plane1 found_x_plane2 found_y_plane1 found_y_plane2
       x_plane1_meas x_plane2_meas y_plane1_meas y_plane2_meas =
     (let e0 = add_edge g1 EdgeSE3Room [kn, rn] [fst room_pose_local, snd room_pose_local]
                 [0.01, 0, 0, 0.01];
          g2 = add_robust_kernel (snd e0) (fst e0) ''Huber'' 1.0;
          e1 = add_edge g2 EdgeRoomXPlane [rn, vp_plane_node found_x_plane1] [x_plane1_meas] [0.01];
          g3 = add_robust_kernel (snd e1) (fst e1) ''Huber'' 1.0;
          e2 = add_edge g3 EdgeRoomXPlane [rn, vp_plane_node found_x_plane2] [x_plane2_meas] [0.01];
          g4 = add_robust_kernel (snd e2) (fst e2) ''Huber'' 1.0;
          e3 = add_edge g4 EdgeRoomYPlane [rn, vp_plane_node found_y_plane1] [y_plane1_meas] [0.01];
          g5 = add_robust_kernel (snd e3) (fst e3) ''Huber'' 1.0;
          e4 = add_edge g5 EdgeRoomYPlane [rn, vp_plane_node found_y_plane2] [y_plane2_meas] [0.01]
      in add_robust_kernel (snd e4) (fst e4) ''Huber'' 1.0)"

definition factor_rooms ::
  "structure_params \<Rightarrow> nodelet_state \<Rightarrow> plane_data_list list \<Rightarrow> plane_data_list list \<Rightarrow>
   mapper_error + nodelet_state" where
  "factor_rooms P s x_room_pair_vec y_room_pair_vec =
     (if length x_room_pair_vec < 2 \<or> length y_room_pair_vec < 2 then Inl IndexOutOfRange
      else
     (let x0 = x_room_pair_vec ! 0; x1 = x_room_pair_vec ! 1;
          y0 = y_room_pair_vec ! 0; y1 = y_room_pair_vec ! 1;
          room_pose = compute_room_pose (plane x0) (plane x1) (plane y0) (plane y1)
      in
     (case keyframe_node x0 of
        None \<Rightarrow> Inl DanglingVertex
      | Some kn \<Rightarrow>
     (case se3_estimate (graph s) kn of
        None \<Rightarrow> Inl DanglingVertex
      | Some est \<Rightarrow>
     (case associate_rooms P (graph s) (rooms_vec s) room_pose of
        Inl e \<Rightarrow> Inl e
      | Inr room_data_association \<Rightarrow>
     (case room_node_for room_data_association room_pose (graph s) (rooms_vec s) x0 x1 y0 y1 of
        Inl e \<Rightarrow> Inl e
      | Inr r \<Rightarrow>
     (case find (\<lambda>vp. vp_id vp = plane_id x0) (x_vert_planes s) of
        None \<Rightarrow> Inl PlaneNotFound
      | Some found_x_plane1 \<Rightarrow>
     (case find (\<lambda>vp. vp_id vp = plane_id x1) (x_vert_planes s) of
        None \<Rightarrow> Inl PlaneNotFound
      | Some found_x_plane2 \<Rightarrow>
     (case find (\<lambda>vp. vp_id vp = plane_id y0) (y_vert_planes s) of
        None \<Rightarrow> Inl PlaneNotFound
      | Some found_y_plane1 \<Rightarrow>
     (case find (\<lambda>vp. vp_id vp = plane_id y1) (y_vert_planes s) of
        None \<Rightarrow> Inl PlaneNotFound
      | Some found_y_plane2 \<Rightarrow>
     (case room_measurement X_VERT_PLANE room_pose (plane x0) of
        None \<Rightarrow> Inl UninitialisedValue
      | Some x_plane1_meas \<Rightarrow>
     (case room_measurement X_VERT_PLANE room_pose (plane x1) of
        None \<Rightarrow> Inl UninitialisedValue
      | Some x_plane2_meas \<Rightarrow>
     (case room_measurement Y_VERT_PLANE room_pose (plane y0) of
        None \<Rightarrow> Inl UninitialisedValue
      | Some y_plane1_meas \<Rightarrow>
     (case room_measurement Y_VERT_PLANE room_pose (plane y1) of
        None \<Rightarrow> Inl UninitialisedValue
      | Some y_plane2_meas \<Rightarrow>
          Inr (s\<lparr>graph := room_edges kn (fst r) (compute_room_pose_local est room_pose)
                               (fst (snd r)) found_x_plane1 found_x_plane2 found_y_plane1
                               found_y_plane2 x_plane1_meas x_plane2_meas y_plane1_meas
                               y_plane2_meas,
                   rooms_vec := snd (snd r)\<rparr>)))))))))))))))"

section \<open>The fusion loop of the mapping nodelet\<close>

text \<open>
  Time stamps are seconds. A keyframe as the fusion loop uses it (keyframe.hpp, read off
  its uses): the pose vertex \<open>node\<close> is a null pointer until the keyframe is flushed into
  the graph; \<open>utm_coord\<close>, \<open>acceleration\<close> and \<open>orientation\<close> are \<open>boost::optional\<close>.
  The altitude of a GPS fix may be NaN (\<open>nmea_callback\<close> stores NaN), and the code tests
  for it: the third coordinate of such a point is an \<open>option\<close>, \<open>None\<close> for NaN. A
  quaternion is \<open>(w, x, y, z)\<close>.
\<close>

type_synonym quat = "real \<times> real \<times> real \<times> real"
type_synonym geo_point = "real \<times> real \<times> real option"

record StampedKeyFrame =
  stamp :: real
  odom :: Isometry3d
  kf_cloud :: "vec4 list"
  node :: "nat option"
  utm_coord :: "geo_point option"
  acceleration :: "vec3 option"
  orientation :: "quat option"

record GeoPointStamped =
  gps_stamp :: real
  gps_position :: geo_point

record Imu =
  imu_stamp :: real
  imu_frame_id :: string
  imu_orientation :: quat
  imu_linear_acceleration :: vec3

record Loop =
  key1 :: StampedKeyFrame
  key2 :: StampedKeyFrame
  relative_pose :: Isometry3d

text \<open>
  The members of the nodelet that the fusion loop works on, next to the graph and the
  landmarks. The members that only the floor flush and the flush of the segmented clouds
  use (their queues, \<open>keyframe_hash\<close>, \<open>floor_plane_node\<close>) are the extension slot of the
  record.
\<close>

record fusion_state = nodelet_state +
  keyframe_queue :: "StampedKeyFrame list"
  new_keyframes :: "StampedKeyFrame list"
  keyframes :: "StampedKeyFrame list"
  gps_queue :: "GeoPointStamped list"
  imu_queue :: "Imu list"
  zero_utm :: "geo_point option"
  base_frame_id :: string
  anchor_node :: "nat option"
  anchor_edge :: "nat option"

text \<open>
  What the timer callback hands to the other threads and to its publishers: the members
  \<open>trans_odom2map\<close>, \<open>keyframes_snapshot\<close> (pose and cloud of every keyframe) and
  \<open>graph_updated\<close>, and, in the order in which they happen, the messages published and
  the calls of the loop detector and of the solver.
\<close>

datatype event =
    PublishReadUntil real string
  | Detect
  | Optimize int
  | ComputeLandmarkMarginals "(int \<times> int) list"
  | PublishOdom2Map real Isometry3d

record publication =
  trans_odom2map :: Isometry3d
  keyframes_snapshot :: "(Isometry3d \<times> vec4 list) list"
  graph_updated :: bool
  trace :: "event list"

text \<open>The values read from the parameter server.\<close>

record fusion_params =
  points_topic :: string
  max_keyframes_per_update :: int
  fix_first_node :: bool
  fix_first_node_stddev :: "real list"
  fix_first_node_adaptive :: bool
  odometry_edge_robust_kernel :: string
  odometry_edge_robust_kernel_size :: real
  loop_closure_edge_robust_kernel :: string
  loop_closure_edge_robust_kernel_size :: real
  gps_edge_stddev_xy :: real
  gps_edge_stddev_z :: real
  gps_edge_robust_kernel :: string
  gps_edge_robust_kernel_size :: real
  enable_imu_orientation :: bool
  enable_imu_acceleration :: bool
  imu_orientation_edge_stddev :: real
  imu_acceleration_edge_stddev :: real
  imu_orientation_edge_robust_kernel :: string
  imu_orientation_edge_robust_kernel_size :: real
  imu_acceleration_edge_robust_kernel :: string
  imu_acceleration_edge_robust_kernel_size :: real
  g2o_solver_num_iterations :: int

text \<open>
  The collaborators of the fusion loop are parameters of the model:
  \<open>geodesy::fromMsg\<close>; the two calls of the tf listener on an IMU message (\<open>None\<close> when
  one of them throws); \<open>InformationMatrixCalculator::calc_information_matrix\<close>;
  \<open>flush_floor_queue\<close> and \<open>flush_clouds_seg_queue\<close>, of which the loop uses the flag they
  return; \<open>LoopDetector::detect\<close>; \<open>hessianIndex\<close> of a vertex and the Cholesky
  factorisation \<open>Eigen::LLT\<close>, of which \<open>llt_numerical_issue\<close> says whether \<open>info()\<close> is
  \<open>NumericalIssue\<close>; and the two methods of \<open>GraphSLAM\<close> described next.
\<close>

text \<open>
  Modelled from the spec: "\<open>optimize(iterations)\<close> runs batch nonlinear least squares and
  returns iterations actually performed (\<open>\<le>0\<close> signals failure/no-op, e.g. empty graph).
  \<open>compute_landmark_marginals(pairs_of_hessian_indices)\<close> returns block-diagonal covariance
  for each requested (vertex,vertex) pair; fails gracefully (returns false) if the solver's
  linear system is not in a state to provide marginals". Both are methods of \<open>GraphSLAM\<close>
  whose implementation is missing; \<open>optimize\<close> gives the number of iterations and the
  graph with the new estimates, \<open>compute_landmark_marginals\<close> the blocks (\<open>None\<close> for
  \<open>false\<close>).
\<close>

record 'st collaborators =
  fromMsg :: "geo_point \<Rightarrow> geo_point"
  transform_imu :: "string \<Rightarrow> Imu \<Rightarrow> (vec3 \<times> quat) option"
  calc_information_matrix :: "vec4 list \<Rightarrow> vec4 list \<Rightarrow> Isometry3d \<Rightarrow> real list"
  flush_floor_queue :: "'st \<Rightarrow> bool \<times> 'st"
  flush_clouds_seg_queue :: "'st \<Rightarrow> bool \<times> 'st"
  detect :: "StampedKeyFrame list \<Rightarrow> StampedKeyFrame list \<Rightarrow> GraphSLAM \<Rightarrow> Loop list"
  optimize :: "int \<Rightarrow> GraphSLAM \<Rightarrow> int \<times> GraphSLAM"
  hessianIndex :: "GraphSLAM \<Rightarrow> nat \<Rightarrow> int"
  compute_landmark_marginals :: "GraphSLAM \<Rightarrow> (int \<times> int) list \<Rightarrow> (int \<times> int \<Rightarrow> mat3) option"
  llt_numerical_issue :: "mat3 \<Rightarrow> bool"

text \<open>The product of two isometries, and a pose or a diagonal matrix row by row.\<close>

definition mat3_mul :: "mat3 \<Rightarrow> mat3 \<Rightarrow> mat3" where
  "mat3_mul A B =
     (case transpose3 B of (b0, b1, b2) \<Rightarrow> transpose3 (mat3_vec A b0, mat3_vec A b1, mat3_vec A b2))"

definition isometry_compose :: "Isometry3d \<Rightarrow> Isometry3d \<Rightarrow> Isometry3d" where
  "isometry_compose T1 T2 =
     \<lparr>rotation = mat3_mul (rotation T1) (rotation T2),
      translation = add3 (mat3_vec (rotation T1) (translation T2)) (translation T1)\<rparr>"

definition pose_list :: "Isometry3d \<Rightarrow> real list" where
  "pose_list T =
     (case rotation T of (r0, r1, r2) \<Rightarrow>
        vec3_list r0 @ vec3_list r1 @ vec3_list r2 @ vec3_list (translation T))"

definition diag_list :: "real list \<Rightarrow> real list" where
  "diag_list ds =
     concat (map (\<lambda>i. map (\<lambda>j. if i = j then ds ! i else 0) [0..<length ds]) [0..<length ds])"

fun quat_list :: "quat \<Rightarrow> real list" where
  "quat_list (w, x, y, z) = [w, x, y, z]"

subsection \<open>\<open>flush_keyframe_queue\<close>\<close>

text \<open>
  One round of the loop over the queued keyframes. The keyframe gets its pose vertex; the
  very first keyframe gets the anchor when \<open>fix_first_node\<close> is set (\<open>setFixed\<close> is not
  part of the model of a vertex); every keyframe but the very first gets an odometry
  edge to its predecessor. \<open>new_keyframes\<close> and \<open>keyframe_queue\<close> share the keyframe, so
  both see the vertex.
\<close>

definition keyframe_step ::
  "'st collaborators \<Rightarrow> fusion_params \<Rightarrow> Isometry3d \<Rightarrow> nat \<Rightarrow> 'a fusion_state_scheme \<Rightarrow>
   mapper_error + 'a fusion_state_scheme" where
  "keyframe_step C P odom2map i s =
     (let r = add_se3_node (graph s) (isometry_compose odom2map (odom (keyframe_queue s ! i)));
          kf = (keyframe_queue s ! i)\<lparr>node := Some (fst r)\<rparr>;
          s1 = s\<lparr>graph := snd r,
                 keyframe_queue := (keyframe_queue s)[i := kf],
                 new_keyframes := new_keyframes s @ [kf]\<rparr>;
          s2 = (if keyframes s1 = [] \<and> length (new_keyframes s1) = 1 \<and> fix_first_node P
                then (let a = add_se3_node (graph s1) Isometry_Identity;
                          e = add_edge (snd a) EdgeSE3 [fst a, fst r] (pose_list Isometry_Identity)
                                (diag_list (map (\<lambda>stddev. 1 / stddev) (fix_first_node_stddev P)))
                      in s1\<lparr>graph := snd e, anchor_node := Some (fst a), anchor_edge := Some (fst e)\<rparr>)
                else s1)
      in if i = 0 \<and> keyframes s2 = [] then Inr s2
         else (let prev_keyframe = (if i = 0 then last (keyframes s2) else keyframe_queue s2 ! (i - 1));
                   rel = isometry_compose (isometry_inverse (odom kf)) (odom prev_keyframe);
                   inf = calc_information_matrix C (kf_cloud kf) (kf_cloud prev_keyframe) rel
               in case node prev_keyframe of
                    None \<Rightarrow> Inl DanglingVertex
                  | Some pn \<Rightarrow>
                      (let e = add_edge (graph s2) EdgeSE3 [fst r, pn] (pose_list rel) inf
                       in Inr (s2\<lparr>graph := add_robust_kernel (snd e) (fst e)
                                              (odometry_edge_robust_kernel P)
                                              (odometry_edge_robust_kernel_size P)\<rparr>))))"

text \<open>
  \<open>flush_keyframe_queue\<close>: the flag, the two \<open>read_until\<close> messages and the new state.
  \<open>odom2map\<close> is \<open>trans_odom2map\<close>. The loop runs \<open>min(size, max_keyframes_per_update)\<close>
  times, \<open>num_processed\<close> is the last index it visited (0 when it did not run).
\<close>

definition flush_keyframe_queue ::
  "'st collaborators \<Rightarrow> fusion_params \<Rightarrow> Isometry3d \<Rightarrow> 'a fusion_state_scheme \<Rightarrow>
   mapper_error + (bool \<times> event list \<times> 'a fusion_state_scheme)" where
  "flush_keyframe_queue C P odom2map s =
     (if keyframe_queue s = [] then Inr (False, [], s)
      else (let n = nat (min (int (length (keyframe_queue s))) (max_keyframes_per_update P));
                num_processed = n - 1
            in case fold (\<lambda>i r. case r of Inl e \<Rightarrow> Inl e | Inr st \<Rightarrow> keyframe_step C P odom2map i st)
                      [0..<n] (Inr s) of
                 Inl e \<Rightarrow> Inl e
               | Inr s1 \<Rightarrow>
                   (let read_until = stamp (keyframe_queue s1 ! num_processed) + 10
                    in Inr (True,
                            [PublishReadUntil read_until (points_topic P),
                             PublishReadUntil read_until ''/filtered_points''],
                            s1\<lparr>keyframe_queue := drop (num_processed + 1) (keyframe_queue s1)\<rparr>))))"

subsection \<open>\<open>flush_gps_queue\<close> and \<open>flush_imu_queue\<close>\<close>

text \<open>
  The search for the queued measurement closest in time to a keyframe: the inner \<open>for\<close>
  loop, started at the cursor. \<open>gs\<close> are the stamps still to visit, \<open>i\<close> is the position
  of the first of them in the queue, \<open>(c, ci)\<close> stamp and position of \<open>closest\<close>.
\<close>

fun closest_in_queue :: "real \<Rightarrow> real list \<Rightarrow> nat \<Rightarrow> real \<times> nat \<Rightarrow> nat" where
  "closest_in_queue t [] i (c, ci) = ci"
| "closest_in_queue t (g # gs) i (c, ci) =
     (if \<bar>c - t\<bar> < \<bar>g - t\<bar> then ci else closest_in_queue t gs (Suc i) (g, i))"

text \<open>
  The loop over the keyframes, which the two flushes share word for word. \<open>stamps\<close> are
  the stamps of the queue, \<open>has\<close> tells whether the keyframe already carries the
  measurement, \<open>attach\<close> is the rest of the loop body after the test of the 0.2 s window:
  it gives the updated keyframe and state, or \<open>None\<close> when the body leaves the function
  with \<open>return false\<close>. The result is the keyframes, \<open>updated\<close>, the state, and whether
  the function returned from inside the loop.
\<close>

fun match_keyframes ::
  "real list \<Rightarrow> ('k \<Rightarrow> real) \<Rightarrow> ('k \<Rightarrow> bool) \<Rightarrow>
   (nat \<Rightarrow> 'k \<Rightarrow> 's \<Rightarrow> mapper_error + ('k \<times> 's) option) \<Rightarrow>
   'k list \<Rightarrow> nat \<Rightarrow> bool \<Rightarrow> 's \<Rightarrow> mapper_error + ('k list \<times> bool \<times> 's \<times> bool)" where
  "match_keyframes stamps stamp_of has attach [] cursor updated s = Inr ([], updated, s, False)"
| "match_keyframes stamps stamp_of has attach (kf # rest) cursor updated s =
     (if stamp_of kf > last stamps then Inr (kf # rest, updated, s, False)
      else if stamp_of kf < stamps ! cursor \<or> has kf
      then (case match_keyframes stamps stamp_of has attach rest cursor updated s of
              Inl e \<Rightarrow> Inl e
            | Inr (ks, r) \<Rightarrow> Inr (kf # ks, r))
      else (let closest = closest_in_queue (stamp_of kf) (drop cursor stamps) cursor
                            (stamps ! cursor, cursor)
            in if 0.2 < \<bar>stamps ! closest - stamp_of kf\<bar>
               then (case match_keyframes stamps stamp_of has attach rest closest updated s of
                       Inl e \<Rightarrow> Inl e
                     | Inr (ks, r) \<Rightarrow> Inr (kf # ks, r))
               else (case attach closest kf s of
                       Inl e \<Rightarrow> Inl e
                     | Inr None \<Rightarrow> Inr (kf # rest, updated, s, True)
                     | Inr (Some (kf1, s1)) \<Rightarrow>
                         (case match_keyframes stamps stamp_of has attach rest closest True s1 of
                            Inl e \<Rightarrow> Inl e
                          | Inr (ks, r) \<Rightarrow> Inr (kf1 # ks, r)))))"

text \<open>
  \<open>std::upper_bound\<close> with the comparison \<open>stamp < item->header.stamp\<close>: the binary search
  of the standard library, on the stamps of the queue.
\<close>

function upper_bound_from :: "real list \<Rightarrow> real \<Rightarrow> nat \<Rightarrow> nat \<Rightarrow> nat" where
  "upper_bound_from xs v first len =
     (if 0 < len
      then (let half = len div 2; middle = first + half
            in if v < xs ! middle then upper_bound_from xs v first half
               else upper_bound_from xs v (middle + 1) (len - half - 1))
      else first)"
  by pat_completeness auto
termination
  by (relation "measure (\<lambda>(xs, v, first, len). len)") auto

declare upper_bound_from.simps [simp del]

definition upper_bound :: "real list \<Rightarrow> real \<Rightarrow> nat" where
  "upper_bound xs v = upper_bound_from xs v 0 (length xs)"

text \<open>\<open>xyz -= (*zero_utm)\<close>; a NaN altitude on either side gives NaN.\<close>

fun utm_sub :: "geo_point \<Rightarrow> geo_point \<Rightarrow> geo_point" where
  "utm_sub (x, y, z) (x0, y0, z0) =
     (x - x0, y - y0,
      (case z of None \<Rightarrow> None | Some a \<Rightarrow> (case z0 of None \<Rightarrow> None | Some b \<Rightarrow> Some (a - b))))"

text \<open>The measurement and the information matrix of the prior edge for a GPS position.\<close>

fun gps_edge :: "fusion_params \<Rightarrow> geo_point \<Rightarrow> edge_type \<times> real list \<times> real list" where
  "gps_edge P (x, y, None) =
     (EdgeSE3PriorXY, [x, y], [1 / gps_edge_stddev_xy P, 0, 0, 1 / gps_edge_stddev_xy P])"
| "gps_edge P (x, y, Some z) =
     (EdgeSE3PriorXYZ, [x, y, z],
      [1 / gps_edge_stddev_xy P, 0, 0, 0, 1 / gps_edge_stddev_xy P, 0, 0, 0, 1 / gps_edge_stddev_z P])"

text \<open>
  The body of the GPS loop for a keyframe and the queued fix closest to it, once the fix
  is within the window. The state of the loop is \<open>zero_utm\<close> and the graph.
\<close>

definition gps_attach ::
  "'st collaborators \<Rightarrow> fusion_params \<Rightarrow> GeoPointStamped list \<Rightarrow> nat \<Rightarrow> StampedKeyFrame \<Rightarrow>
   geo_point option \<times> GraphSLAM \<Rightarrow>
   mapper_error + (StampedKeyFrame \<times> geo_point option \<times> GraphSLAM) option" where
  "gps_attach C P queue closest kf zg =
     (let utm = fromMsg C (gps_position (queue ! closest));
          zero = (case fst zg of None \<Rightarrow> utm | Some z \<Rightarrow> z);
          xyz = utm_sub utm zero
      in case node kf of
           None \<Rightarrow> Inl DanglingVertex
         | Some n \<Rightarrow>
             (let k = gps_edge P xyz;
                  e = add_edge (snd zg) (fst k) [n] (fst (snd k)) (snd (snd k))
              in Inr (Some (kf\<lparr>utm_coord := Some xyz\<rparr>,
                            Some zero,
                            add_robust_kernel (snd e) (fst e) (gps_edge_robust_kernel P)
                              (gps_edge_robust_kernel_size P)))))"

definition flush_gps_queue ::
  "'st collaborators \<Rightarrow> fusion_params \<Rightarrow> 'a fusion_state_scheme \<Rightarrow>
   mapper_error + (bool \<times> 'a fusion_state_scheme)" where
  "flush_gps_queue C P s =
     (if keyframes s = [] \<or> gps_queue s = [] then Inr (False, s)
      else (case match_keyframes (map gps_stamp (gps_queue s)) stamp (\<lambda>k. utm_coord k \<noteq> None)
                   (gps_attach C P (gps_queue s)) (keyframes s) 0 False (zero_utm s, graph s) of
              Inl e \<Rightarrow> Inl e
            | Inr (ks, updated, zg, returned) \<Rightarrow>
                (let remove_loc = upper_bound (map gps_stamp (gps_queue s)) (stamp (last ks))
                 in Inr (updated,
                         s\<lparr>graph := snd zg, keyframes := ks, zero_utm := fst zg,
                           gps_queue := drop remove_loc (gps_queue s)\<rparr>))))"

text \<open>
  The body of the IMU loop: the transformation into the base frame (which may throw),
  the sign of the quaternion, and the two prior edges.
\<close>

fun quat_neg_if_w_negative :: "quat \<Rightarrow> quat" where
  "quat_neg_if_w_negative (w, x, y, z) = (if w < 0 then (- w, - x, - y, - z) else (w, x, y, z))"

definition imu_attach ::
  "'st collaborators \<Rightarrow> fusion_params \<Rightarrow> string \<Rightarrow> Imu list \<Rightarrow> nat \<Rightarrow> StampedKeyFrame \<Rightarrow>
   GraphSLAM \<Rightarrow> mapper_error + (StampedKeyFrame \<times> GraphSLAM) option" where
  "imu_attach C P base queue closest kf g =
     (case transform_imu C base (queue ! closest) of
        None \<Rightarrow> Inr None
      | Some (acc_base, quat_base) \<Rightarrow>
          (let ori = quat_neg_if_w_negative quat_base;
               kf1 = kf\<lparr>acceleration := Some acc_base, orientation := Some ori\<rparr>
           in if \<not> enable_imu_orientation P \<and> \<not> enable_imu_acceleration P then Inr (Some (kf1, g))
              else (case node kf of
                      None \<Rightarrow> Inl DanglingVertex
                    | Some n \<Rightarrow>
                        (let g1 = (if enable_imu_orientation P
                                   then (let e = add_edge g EdgeSE3PriorQuat [n] (quat_list ori)
                                                   (diag_list (replicate 3 (1 / imu_orientation_edge_stddev P)))
                                         in add_robust_kernel (snd e) (fst e)
                                              (imu_orientation_edge_robust_kernel P)
                                              (imu_orientation_edge_robust_kernel_size P))
                                   else g);
                             g2 = (if enable_imu_acceleration P
                                   then (let e = add_edge g1 EdgeSE3PriorVec [n]
                                                   ([0, 0, - 1] @ vec3_list acc_base)
                                                   (diag_list (replicate 3 (1 / imu_acceleration_edge_stddev P)))
                                         in add_robust_kernel (snd e) (fst e)
                                              (imu_acceleration_edge_robust_kernel P)
                                              (imu_acceleration_edge_robust_kernel_size P))
                                   else g1)
                         in Inr (Some (kf1, g2))))))"

text \<open>
  \<open>flush_imu_queue\<close>. When the transformation throws, the function returns \<open>false\<close> from
  inside the loop: what the loop did so far stays, the queue is not touched.
\<close>

definition flush_imu_queue ::
  "'st collaborators \<Rightarrow> fusion_params \<Rightarrow> 'a fusion_state_scheme \<Rightarrow>
   mapper_error + (bool \<times> 'a fusion_state_scheme)" where
  "flush_imu_queue C P s =
     (if keyframes s = [] \<or> imu_queue s = [] \<or> base_frame_id s = [] then Inr (False, s)
      else (case match_keyframes (map imu_stamp (imu_queue s)) stamp (\<lambda>k. acceleration k \<noteq> None)
                   (imu_attach C P (base_frame_id s) (imu_queue s)) (keyframes s) 0 False (graph s) of
              Inl e \<Rightarrow> Inl e
            | Inr (ks, updated, g, returned) \<Rightarrow>
                if returned then Inr (False, s\<lparr>graph := g, keyframes := ks\<rparr>)
                else (let remove_loc = upper_bound (map imu_stamp (imu_queue s)) (stamp (last ks))
                      in Inr (updated,
                              s\<lparr>graph := g, keyframes := ks,
                                imu_queue := drop remove_loc (imu_queue s)\<rparr>))))"

subsection \<open>\<open>compute_plane_cov\<close>\<close>

text \<open>
  The pair of Hessian indices requested for a plane, and the plane with the covariance
  read from the block of the marginals, or the identity when the factorisation of the
  block reports a numerical issue.
\<close>

definition plane_pair :: "'st collaborators \<Rightarrow> GraphSLAM \<Rightarrow> VerticalPlanes \<Rightarrow> int \<times> int" where
  "plane_pair C g vp = (hessianIndex C g (vp_plane_node vp), hessianIndex C g (vp_plane_node vp))"

definition recover_covariance ::
  "'st collaborators \<Rightarrow> GraphSLAM \<Rightarrow> (int \<times> int \<Rightarrow> mat3) \<Rightarrow> VerticalPlanes \<Rightarrow> VerticalPlanes" where
  "recover_covariance C g plane_spinv_vec vp =
     (let covariance = plane_spinv_vec (plane_pair C g vp)
      in vp\<lparr>vp_covariance := (if llt_numerical_issue C covariance then Identity3 else covariance)\<rparr>)"

text \<open>
  \<open>compute_plane_cov\<close>, with the call of \<open>compute_landmark_marginals\<close> it makes, if any.
\<close>

definition compute_plane_cov ::
  "'st collaborators \<Rightarrow> 'a fusion_state_scheme \<Rightarrow> event list \<times> 'a fusion_state_scheme" where
  "compute_plane_cov C s =
     (let plane_pairs_vec = map (plane_pair C (graph s)) (x_vert_planes s)
                            @ map (plane_pair C (graph s)) (y_vert_planes s)
                            @ map (plane_pair C (graph s)) (hort_planes s)
      in if plane_pairs_vec \<noteq> []
         then ([ComputeLandmarkMarginals plane_pairs_vec],
               (case compute_landmark_marginals C (graph s) plane_pairs_vec of
                  None \<Rightarrow> s
                | Some plane_spinv_vec \<Rightarrow>
                    s\<lparr>x_vert_planes := map (recover_covariance C (graph s) plane_spinv_vec) (x_vert_planes s),
                      y_vert_planes := map (recover_covariance C (graph s) plane_spinv_vec) (y_vert_planes s),
                      hort_planes := map (recover_covariance C (graph s) plane_spinv_vec) (hort_planes s)\<rparr>))
         else ([], s))"

subsection \<open>\<open>optimization_timer_callback\<close>\<close>

text \<open>The edges for the loops that the loop detector found.\<close>

definition add_loop_edge ::
  "'st collaborators \<Rightarrow> fusion_params \<Rightarrow> Loop \<Rightarrow> GraphSLAM \<Rightarrow> mapper_error + GraphSLAM" where
  "add_loop_edge C P loop g =
     (case node (key1 loop) of
        None \<Rightarrow> Inl DanglingVertex
      | Some n1 \<Rightarrow>
          (case node (key2 loop) of
             None \<Rightarrow> Inl DanglingVertex
           | Some n2 \<Rightarrow>
               (let e = add_edge g EdgeSE3 [n1, n2] (pose_list (relative_pose loop))
                          (calc_information_matrix C (kf_cloud (key1 loop)) (kf_cloud (key2 loop))
                             (relative_pose loop))
                in Inr (add_robust_kernel (snd e) (fst e) (loop_closure_edge_robust_kernel P)
                          (loop_closure_edge_robust_kernel_size P)))))"

definition add_loop_edges ::
  "'st collaborators \<Rightarrow> fusion_params \<Rightarrow> Loop list \<Rightarrow> GraphSLAM \<Rightarrow> mapper_error + GraphSLAM" where
  "add_loop_edges C P loops g =
     fold (\<lambda>loop r. case r of Inl e \<Rightarrow> Inl e | Inr g1 \<Rightarrow> add_loop_edge C P loop g1) loops (Inr g)"

text \<open>
  The anchor follows the estimate of the first keyframe, the second vertex of the anchor
  edge.
\<close>

definition retarget_anchor :: "fusion_params \<Rightarrow> GraphSLAM \<Rightarrow> nat option \<Rightarrow> nat option \<Rightarrow> mapper_error + GraphSLAM" where
  "retarget_anchor P g a_node a_edge =
     (case a_node of
        None \<Rightarrow> Inr g
      | Some a \<Rightarrow>
          if \<not> fix_first_node_adaptive P then Inr g
          else (case a_edge of
                  None \<Rightarrow> Inl DanglingVertex
                | Some e \<Rightarrow>
                    if e < length (edges g) \<and> 1 < length (edge_vertices (edges g ! e)) \<and> a < length (vertices g)
                    then (case se3_estimate g (edge_vertices (edges g ! e) ! 1) of
                            None \<Rightarrow> Inl DanglingVertex
                          | Some anchor_target \<Rightarrow> Inr (g\<lparr>vertices := (vertices g)[a := VertexSE3 anchor_target]\<rparr>))
                    else Inl DanglingVertex))"

text \<open>
  The two lines of the callback that run the solver:
  \<open>if((graph_slam->optimize(num_iterations)) > 0) compute_plane_cov();\<close>
\<close>

definition optimize_graph ::
  "'st collaborators \<Rightarrow> fusion_params \<Rightarrow> 'a fusion_state_scheme \<Rightarrow> event list \<times> 'a fusion_state_scheme" where
  "optimize_graph C P s =
     (let num_iterations = g2o_solver_num_iterations P;
          r = optimize C num_iterations (graph s);
          s1 = s\<lparr>graph := snd r\<rparr>
      in if fst r > 0
         then (let c = compute_plane_cov C s1 in (Optimize num_iterations # fst c, snd c))
         else ([Optimize num_iterations], s1))"

text \<open>\<open>KeyFrameSnapshot\<close> of every keyframe: the estimate of its pose vertex and its cloud.\<close>

fun snapshots :: "GraphSLAM \<Rightarrow> StampedKeyFrame list \<Rightarrow> mapper_error + (Isometry3d \<times> vec4 list) list" where
  "snapshots g [] = Inr []"
| "snapshots g (k # ks) =
     (case node k of
        None \<Rightarrow> Inl DanglingVertex
      | Some n \<Rightarrow>
          (case se3_estimate g n of
             None \<Rightarrow> Inl DanglingVertex
           | Some pose \<Rightarrow>
               (case snapshots g ks of
                  Inl e \<Rightarrow> Inl e
                | Inr rest \<Rightarrow> Inr ((pose, kf_cloud k) # rest))))"

text \<open>
  The callback after its early return: loop detection, the move of the new keyframes,
  the anchor, the solver, and the publication of the new estimate.
\<close>

definition optimize_and_publish ::
  "('a fusion_state_scheme) collaborators \<Rightarrow> fusion_params \<Rightarrow>
   'a fusion_state_scheme \<times> publication \<Rightarrow> mapper_error + ('a fusion_state_scheme \<times> publication)" where
  "optimize_and_publish C P sp =
     (let s = fst sp; pub = snd sp;
          loops = detect C (keyframes s) (new_keyframes s) (graph s)
      in case add_loop_edges C P loops (graph s) of
           Inl e \<Rightarrow> Inl e
         | Inr g1 \<Rightarrow>
             (case retarget_anchor P g1 (anchor_node s) (anchor_edge s) of
                Inl e \<Rightarrow> Inl e
              | Inr g2 \<Rightarrow>
                  (let opt = optimize_graph C P
                             (s\<lparr>graph := g2, keyframes := keyframes s @ new_keyframes s, new_keyframes := []\<rparr>);
                       s3 = snd opt
                   in if keyframes s3 = [] then Inl EmptyKeyframes
                      else (case node (last (keyframes s3)) of
                              None \<Rightarrow> Inl DanglingVertex
                            | Some n \<Rightarrow>
                                (case se3_estimate (graph s3) n of
                                   None \<Rightarrow> Inl DanglingVertex
                                 | Some est \<Rightarrow>
                                     (case snapshots (graph s3) (keyframes s3) of
                                        Inl e \<Rightarrow> Inl e
                                      | Inr snapshot \<Rightarrow>
                                          (let tr = isometry_compose est (isometry_inverse (odom (last (keyframes s3))))
                                           in Inr (s3,
                                                   pub\<lparr>trans_odom2map := tr,
                                                       keyframes_snapshot := snapshot,
                                                       graph_updated := True,
                                                       trace := trace pub @ [Detect] @ fst opt
                                                                @ [PublishOdom2Map (stamp (last (keyframes s3))) tr]\<rparr>))))))))"

text \<open>
  \<open>optimization_timer_callback\<close> at the time \<open>now\<close>. The five flags are joined by \<open>&\<close>,
  which does not short-circuit: all five flushes run on every tick, here in the order in
  which they are written.
\<close>

definition optimization_timer_callback ::
  "('a fusion_state_scheme) collaborators \<Rightarrow> fusion_params \<Rightarrow> real \<Rightarrow>
   'a fusion_state_scheme \<times> publication \<Rightarrow> mapper_error + ('a fusion_state_scheme \<times> publication)" where
  "optimization_timer_callback C P now sp =
     (case flush_keyframe_queue C P (trans_odom2map (snd sp)) (fst sp) of
        Inl e \<Rightarrow> Inl e
      | Inr (keyframe_updated, published, s1) \<Rightarrow>
          (let pub1 = (snd sp)\<lparr>trace := trace (snd sp) @ published
                          @ (if \<not> keyframe_updated
                             then [PublishReadUntil (now + 30) (points_topic P),
                                   PublishReadUntil (now + 30) ''/filtered_points'']
                             else [])\<rparr>;
               fl = flush_floor_queue C s1
           in case flush_gps_queue C P (snd fl) of
                Inl e \<Rightarrow> Inl e
              | Inr (gps_updated, s3) \<Rightarrow>
                  (case flush_imu_queue C P s3 of
                     Inl e \<Rightarrow> Inl e
                   | Inr (imu_updated, s4) \<Rightarrow>
                       (let seg = flush_clouds_seg_queue C s4
                        in if \<not> keyframe_updated \<and> \<not> fst fl \<and> \<not> gps_updated \<and> \<not> imu_updated \<and> \<not> fst seg
                           then Inr (snd seg, pub1)
                           else optimize_and_publish C P (snd seg, pub1)))))"

section \<open>Notions used to state the properties\<close>

text \<open>
  The effect of the nodelet's sign correction on one plane, for the coefficient \<open>cf\<close>
  that the plane type selects (\<open>c0\<close> for X, \<open>c1\<close> for Y).
\<close>

definition negate_offset_if :: "(vec4 \<Rightarrow> real) \<Rightarrow> vec4 \<Rightarrow> vec4" where
  "negate_offset_if cf p = (if cf p < 0 then Plane3D (c0 p, c1 p, c2 p, -1 * c3 p) else p)"

text \<open>
  For \<open>refine_rooms\<close>: the width difference of an (X-pair, Y-pair) combination, the
  result that selects a combination, and the loop body as a function of the combination.
  \<open>List.product xs ys\<close> lists the combinations in the order the two loops visit them.
\<close>

definition width_diff :: "structure_data_list \<times> structure_data_list \<Rightarrow> real" where
  "width_diff c = abs (width (fst c) - width (snd c))"

definition room_selection ::
  "structure_data_list \<times> structure_data_list \<Rightarrow> plane_data_list list \<times> plane_data_list list" where
  "room_selection c = ([plane1 (fst c), plane2 (fst c)], [plane1 (snd c), plane2 (snd c)])"

definition refine_step ::
  "structure_data_list \<times> structure_data_list \<Rightarrow>
   real \<times> plane_data_list list \<times> plane_data_list list \<Rightarrow>
   real \<times> plane_data_list list \<times> plane_data_list list" where
  "refine_step c st =
     (if width_diff c < fst st
      then (width_diff c,
            (fst (snd st))[0 := plane1 (fst c), 1 := plane2 (fst c)],
            (snd (snd st))[0 := plane1 (snd c), 1 := plane2 (snd c)])
      else st)"

text \<open>
  For the neighbour check: the number of points of \<open>cloud_1\<close> that have a point of
  \<open>cloud_2\<close> at a squared distance below 0.5.
\<close>

definition near_count :: "cloud \<Rightarrow> cloud \<Rightarrow> nat" where
  "near_count cloud_1 cloud_2 =
     length (filter (\<lambda>p. \<exists>q\<in>set cloud_2. squaredNorm_diff p q < 0.5) cloud_1)"

text \<open>The ids of the plane landmarks, collection by collection.\<close>

definition plane_ids :: "'a landmarks_scheme \<Rightarrow> int list \<times> int list \<times> int list" where
  "plane_ids s = (map vp_id (x_vert_planes s), map vp_id (y_vert_planes s), map vp_id (hort_planes s))"

text \<open>
  The edges that a function added to the graph, and the robust kernel that
  \<open>add_robust_kernel\<close> leaves on a new edge.
\<close>

definition new_edges :: "GraphSLAM \<Rightarrow> GraphSLAM \<Rightarrow> edge list" where
  "new_edges g g' = drop (length (edges g)) (edges g')"

definition kernel_of :: "string \<Rightarrow> real \<Rightarrow> (string \<times> real) option" where
  "kernel_of kernel_type kernel_size = (if kernel_type = ''NONE'' then None else Some (kernel_type, kernel_size))"

text \<open>
  The prior factor of the keyframe \<open>kf\<close> for the GPS fix \<open>m\<close>, with the origin \<open>zero\<close> of
  the map, and the prior factors of \<open>kf\<close> for the IMU message \<open>m\<close>.
\<close>

definition gps_factor ::
  "'st collaborators \<Rightarrow> fusion_params \<Rightarrow> geo_point \<Rightarrow> StampedKeyFrame \<Rightarrow> GeoPointStamped \<Rightarrow> edge" where
  "gps_factor C P zero kf m =
     (let k = gps_edge P (utm_sub (fromMsg C (gps_position m)) zero)
      in \<lparr>edge_kind = fst k, edge_vertices = [the (node kf)], measurement = fst (snd k),
          information = snd (snd k),
          robust_kernel = kernel_of (gps_edge_robust_kernel P) (gps_edge_robust_kernel_size P)\<rparr>)"

definition imu_factors ::
  "'st collaborators \<Rightarrow> fusion_params \<Rightarrow> string \<Rightarrow> StampedKeyFrame \<Rightarrow> Imu \<Rightarrow> edge list" where
  "imu_factors C P base kf m =
     (case transform_imu C base m of
        None \<Rightarrow> []
      | Some (acc_base, quat_base) \<Rightarrow>
          (if enable_imu_orientation P
           then [\<lparr>edge_kind = EdgeSE3PriorQuat, edge_vertices = [the (node kf)],
                   measurement = quat_list (quat_neg_if_w_negative quat_base),
                   information = diag_list (replicate 3 (1 / imu_orientation_edge_stddev P)),
                   robust_kernel = kernel_of (imu_orientation_edge_robust_kernel P)
                                     (imu_orientation_edge_robust_kernel_size P)\<rparr>]
           else [])
          @ (if enable_imu_acceleration P
             then [\<lparr>edge_kind = EdgeSE3PriorVec, edge_vertices = [the (node kf)],
                     measurement = [0, 0, - 1] @ vec3_list acc_base,
                     information = diag_list (replicate 3 (1 / imu_acceleration_edge_stddev P)),
                     robust_kernel = kernel_of (imu_acceleration_edge_robust_kernel P)
                                       (imu_acceleration_edge_robust_kernel_size P)\<rparr>]
             else []))"

text \<open>The pairs of Hessian indices of all plane landmarks, in the order of the request.\<close>

definition plane_pairs :: "'st collaborators \<Rightarrow> 'a fusion_state_scheme \<Rightarrow> (int \<times> int) list" where
  "plane_pairs C s = map (plane_pair C (graph s)) (x_vert_planes s @ y_vert_planes s @ hort_planes s)"

text \<open>
  The covariance that the recomputation stores for a plane: the block of the marginals,
  or the identity when the factorisation of the block fails.
\<close>

definition block_or_identity ::
  "'st collaborators \<Rightarrow> GraphSLAM \<Rightarrow> (int \<times> int \<Rightarrow> mat3) \<Rightarrow> VerticalPlanes \<Rightarrow> mat3" where
  "block_or_identity C g spinv vp =
     (if llt_numerical_issue C (spinv (plane_pair C g vp)) then Identity3 else spinv (plane_pair C g vp))"

section \<open>Concrete inputs\<close>

text \<open>The default parameters of \<open>onInit\<close>.\<close>

definition default_pairing_params :: pairing_params where
  "default_pairing_params =
     \<lparr>corridor_min_width = 1.5, corridor_max_width = 2.5,
      corridor_plane_length_diff_threshold = 0.3, room_min_width = 2.5,
      room_plane_length_diff_threshold = 0.3\<rparr>"

text \<open>A detection of length 12 m seen from pose vertex 0, with the given plane and id.\<close>

definition detection :: "vec4 \<Rightarrow> int \<Rightarrow> plane_data_list" where
  "detection v i =
     \<lparr>plane_local = v, plane = v, plane_id = i, plane_length = 12,
      keyframe_node = Some 0, keyframe_trans = (0, 0, 0), is_structural_candidate = False\<rparr>"

text \<open>A room pair candidate of the given width between the planes with ids \<open>i\<close> and \<open>i + 1\<close>.\<close>

definition room_pair :: "real \<Rightarrow> int \<Rightarrow> structure_data_list" where
  "room_pair w i =
     \<lparr>plane1 = detection (1, 0, 0, 0) i, plane2 = detection (-1, 0, 0, w) (i + 1),
      width = w, length_diff = 0\<rparr>"

text \<open>
  Inputs of the plane mapper: a point on the x axis, the default parameters, a distance
  function that finds every landmark at Mahalanobis distance 0.05, the state after the
  first keyframe (its pose vertex at the identity, one point in its segment cloud, no
  landmark yet), and a plane landmark with a given map cloud.
\<close>

definition point_at :: "real \<Rightarrow> PointNormal" where
  "point_at a = PointNormal_default\<lparr>pt_x := a\<rparr>"

definition default_mapper_params :: plane_mapper_params where
  "default_mapper_params =
     \<lparr>use_point_to_plane = False, plane_information = 0.01, plane_dist_threshold = 0.15\<rparr>"

definition close_maha :: maha_fun where
  "close_maha est landmark_plane det_plane cov = Some 0.05"

definition first_keyframe_state :: mapper_state where
  "first_keyframe_state =
     \<lparr>graph = \<lparr>vertices = [VertexSE3 Isometry_Identity], edges = [], vertex_count = 1, edge_count = 0\<rparr>,
      x_vert_planes = [], y_vert_planes = [], hort_planes = [],
      keyframe = \<lparr>kf_node = 0, kf_cloud_seg_body = [point_at 1], x_plane_ids = [], y_plane_ids = [],
                   hort_plane_ids = []\<rparr>\<rparr>"

definition wall :: "int \<Rightarrow> nat \<Rightarrow> vec4 \<Rightarrow> cloud \<Rightarrow> VerticalPlanes" where
  "wall ident plane_node coeffs cloud_seg_map =
     \<lparr>vp_id = ident, vp_plane = coeffs, vp_cloud_seg_body = [], vp_cloud_seg_body_vec = [],
      vp_keyframe_node_vec = [], vp_keyframe_node = 0, vp_plane_node = plane_node,
      vp_cloud_seg_map = Some cloud_seg_map, vp_covariance = Identity3, vp_color = []\<rparr>"

text \<open>
  A state of the nodelet with one pose vertex and four wall landmarks (two X, two Y), no
  corridor and no room yet; and the default thresholds.
\<close>

definition four_walls_state :: nodelet_state where
  "four_walls_state =
     \<lparr>graph = \<lparr>vertices = [VertexSE3 Isometry_Identity, VertexPlane (1, 0, 0, -1),
                            VertexPlane (-1, 0, 0, 1.2), VertexPlane (0, 1, 0, -1),
                            VertexPlane (0, -1, 0, 1.3)],
                edges = [], vertex_count = 5, edge_count = 0\<rparr>,
      x_vert_planes = [wall 1 1 (1, 0, 0, -1) [], wall 2 2 (-1, 0, 0, 1.2) []],
      y_vert_planes = [wall 3 3 (0, 1, 0, -1) [], wall 4 4 (0, -1, 0, 1.3) []],
      hort_planes = [],
      x_corridors = [], y_corridors = [], rooms_vec = []\<rparr>"

definition default_structure_params :: structure_params where
  "default_structure_params = \<lparr>corridor_dist_threshold = 1.0, room_dist_threshold = 1.0\<rparr>"


text \<open>
  The pivots of the Cholesky factorisation of a 3x3 matrix (read from its lower
  triangle), computed exactly: the factorisation fails when one of them is not positive.
\<close>

fun llt_pivot_fails :: "mat3 \<Rightarrow> bool" where
  "llt_pivot_fails ((a00, a01, a02), (a10, a11, a12), (a20, a21, a22)) =
     (if a00 \<le> 0 then True
      else (let x1 = a11 - a10 * a10 / a00
            in if x1 \<le> 0 then True
               else a22 - a20 * a20 / a00 - (a21 - a20 * a10 / a00) * (a21 - a20 * a10 / a00) / x1 \<le> 0))"

text \<open>
  Collaborators for the examples: positions are already in UTM coordinates, the IMU is
  in the base frame, the floor flush and the flush of the segmented clouds have nothing
  to do, no loop is found, the solver does one iteration and leaves the estimates, and
  the marginals give a positive definite block for the vertices 1 and 5 and an indefinite
  block for all others.
\<close>

definition example_marginals :: "int \<times> int \<Rightarrow> mat3" where
  "example_marginals p =
     (if fst p = 1 \<or> fst p = 5 then ((2, 0, 0), (0, 2, 0), (0, 0, 2))
      else ((1, 2, 0), (2, 1, 0), (0, 0, 1)))"

definition example_collaborators :: "'st collaborators" where
  "example_collaborators =
     \<lparr>fromMsg = (\<lambda>p. p),
      transform_imu = (\<lambda>base m. Some (imu_linear_acceleration m, imu_orientation m)),
      calc_information_matrix = (\<lambda>c1 c2 T. diag_list (replicate 6 1)),
      flush_floor_queue = (\<lambda>s. (False, s)),
      flush_clouds_seg_queue = (\<lambda>s. (False, s)),
      detect = (\<lambda>ks nks g. []),
      optimize = (\<lambda>n g. (1, g)),
      hessianIndex = (\<lambda>g v. int v),
      compute_landmark_marginals = (\<lambda>g pairs. Some example_marginals),
      llt_numerical_issue = llt_pivot_fails\<rparr>"

text \<open>The default parameters of \<open>onInit\<close> and of the calls of \<open>private_nh.param\<close>.\<close>

definition default_fusion_params :: fusion_params where
  "default_fusion_params =
     \<lparr>points_topic = ''/velodyne_points'',
      max_keyframes_per_update = 10,
      fix_first_node = False,
      fix_first_node_stddev = [1, 1, 1, 1, 1, 1],
      fix_first_node_adaptive = True,
      odometry_edge_robust_kernel = ''NONE'',
      odometry_edge_robust_kernel_size = 1.0,
      loop_closure_edge_robust_kernel = ''NONE'',
      loop_closure_edge_robust_kernel_size = 1.0,
      gps_edge_stddev_xy = 10000.0,
      gps_edge_stddev_z = 10.0,
      gps_edge_robust_kernel = ''NONE'',
      gps_edge_robust_kernel_size = 1.0,
      enable_imu_orientation = False,
      enable_imu_acceleration = False,
      imu_orientation_edge_stddev = 0.1,
      imu_acceleration_edge_stddev = 3.0,
      imu_orientation_edge_robust_kernel = ''NONE'',
      imu_orientation_edge_robust_kernel_size = 1.0,
      imu_acceleration_edge_robust_kernel = ''NONE'',
      imu_acceleration_edge_robust_kernel_size = 1.0,
      g2o_solver_num_iterations = 1024\<rparr>"

text \<open>
  A keyframe at the time \<open>t\<close> with the pose vertex \<open>n\<close>, a GPS fix and an IMU message at
  the time \<open>t\<close>.
\<close>

definition keyframe_at :: "real \<Rightarrow> nat \<Rightarrow> StampedKeyFrame" where
  "keyframe_at t n =
     \<lparr>stamp = t, odom = Isometry_Identity, kf_cloud = [], node = Some n, utm_coord = None,
      acceleration = None, orientation = None\<rparr>"

definition fix_at :: "real \<Rightarrow> geo_point \<Rightarrow> GeoPointStamped" where
  "fix_at t p = \<lparr>gps_stamp = t, gps_position = p\<rparr>"

definition imu_at :: "real \<Rightarrow> vec3 \<Rightarrow> Imu" where
  "imu_at t acc =
     \<lparr>imu_stamp = t, imu_frame_id = ''imu'', imu_orientation = (1, 0, 0, 0),
      imu_linear_acceleration = acc\<rparr>"

text \<open>
  One committed keyframe at 10 s, and in each of the two queues a measurement at 9 s and
  one at 10.1 s. The map already has its origin.
\<close>

definition one_keyframe_state :: fusion_state where
  "one_keyframe_state =
     \<lparr>graph = \<lparr>vertices = [VertexSE3 Isometry_Identity], edges = [], vertex_count = 1, edge_count = 0\<rparr>,
      x_vert_planes = [], y_vert_planes = [], hort_planes = [],
      x_corridors = [], y_corridors = [], rooms_vec = [],
      keyframe_queue = [], new_keyframes = [], keyframes = [keyframe_at 10 0],
      gps_queue = [fix_at 9 (1, 1, Some 1), fix_at 10.1 (2, 2, Some 2)],
      imu_queue = [imu_at 9 (0, 0, 9), imu_at 10.1 (0, 0, 10)],
      zero_utm = Some (0, 0, Some 0),
      base_frame_id = ''base_link'',
      anchor_node = None, anchor_edge = None\<rparr>"

text \<open>The same keyframe with nothing to do: the only queued measurement is a fix at 11 s.\<close>

definition idle_state :: fusion_state where
  "idle_state = one_keyframe_state\<lparr>gps_queue := [fix_at 11 (3, 3, Some 3)], imu_queue := []\<rparr>"

definition initial_publication :: publication where
  "initial_publication =
     \<lparr>trans_odom2map = Isometry_Identity, keyframes_snapshot = [], graph_updated = False, trace = []\<rparr>"

text \<open>
  The four walls and a floor as landmarks of the fusion loop. Every landmark carries the
  covariance \<open>3 I\<close> of an earlier tick.
\<close>

definition stale_covariance :: mat3 where
  "stale_covariance = ((3, 0, 0), (0, 3, 0), (0, 0, 3))"

definition four_walls_fusion_state :: fusion_state where
  "four_walls_fusion_state =
     \<lparr>graph = (graph four_walls_state)
                 \<lparr>vertices := vertices (graph four_walls_state) @ [VertexPlane (0, 0, 1, 0)],
                   vertex_count := 6\<rparr>,
      x_vert_planes = map (\<lambda>vp. vp\<lparr>vp_covariance := stale_covariance\<rparr>) (x_vert_planes four_walls_state),
      y_vert_planes = map (\<lambda>vp. vp\<lparr>vp_covariance := stale_covariance\<rparr>) (y_vert_planes four_walls_state),
      hort_planes = [(wall 5 5 (0, 0, 1, 0) [])\<lparr>vp_covariance := stale_covariance\<rparr>],
      x_corridors = [], y_corridors = [], rooms_vec = [],
      keyframe_queue = [], new_keyframes = [], keyframes = [keyframe_at 10 0],
      gps_queue = [], imu_queue = [], zero_utm = None, base_frame_id = ''base_link'',
      anchor_node = None, anchor_edge = None\<rparr>"

text \<open>
  The same collaborators with a solver that cannot provide the marginals:
  \<open>compute_landmark_marginals\<close> returns \<open>false\<close>.
\<close>

definition no_marginals_collaborators :: "'st collaborators" where
  "no_marginals_collaborators = example_collaborators\<lparr>compute_landmark_marginals := (\<lambda>g pairs. None)\<rparr>"

text \<open>The default parameters with the acceleration of the IMU enabled.\<close>

definition imu_fusion_params :: fusion_params where
  "imu_fusion_params = default_fusion_params\<lparr>enable_imu_acceleration := True\<rparr>"
section \<open>Properties of PlaneUtils\<close>

lemma width_between_planes_defined:
  "abs (c3 v1) \<noteq> abs (c3 v2) \<Longrightarrow>
     width_between_planes v1 v2 =
       Some (abs (abs (c3 v1) * (c0 v1 + c1 v1) - abs (c3 v2) * (c0 v2 + c1 v2)))"
proof -
  assume ne: "abs (c3 v1) \<noteq> abs (c3 v2)"
  obtain a b c e where v1: "v1 = (a, b, c, e)" by (cases v1) auto
  obtain a' b' c' e' where v2: "v2 = (a', b', c', e')" by (cases v2) auto
  have sw: "abs (abs e' * a' + abs e' * b' - (abs e * a + abs e * b))
          = abs (abs e * a + abs e * b - (abs e' * a' + abs e' * b'))"
    by (rule abs_minus_commute)
  show ?thesis
    using ne sw by (auto simp: width_between_planes_def v1 v2 algebra_simps)
qed

text \<open>
  Claim C10. Both overloads of \<open>PlaneUtils::width_between_planes\<close> assign \<open>vec\<close> only
  when the two offsets differ in magnitude. The returned width is undefined (the
  unassigned vector is read) exactly when \<open>fabs(v1(3)) = fabs(v2(3))\<close>, and a defined
  value otherwise.
\<close>

theorem width_between_planes_undefined_iff:
  "(width_between_planes v1 v2 = None) = (abs (c3 v1) = abs (c3 v2)) \<and>
   (width_between_planes_PlaneData pd1 pd2 = None) = (abs (d pd1) = abs (d pd2))"
  by (auto simp: width_between_planes_def width_between_planes_PlaneData_def Let_def)

section \<open>Sign correction\<close>

lemma Plane3D_unit:
  assumes "a * a + b * b + c * c = 1"
  shows "Plane3D (a, b, c, e) = (a, b, c, e)"
  using assms by (simp add: Plane3D_def)

lemma Plane3D_normal_unit:
  assumes nz: "a * a + b * b + c * c \<noteq> 0"
  shows "\<exists>a' b' c' k. Plane3D (a, b, c, e) = (a', b', c', k * e) \<and> a' * a' + b' * b' + c' * c' = 1
          \<and> k > 0 \<and> a' = k * a \<and> b' = k * b \<and> c' = k * c"
proof -
  let ?s = "a * a + b * b + c * c"
  have pos: "?s > 0"
    using nz by (smt (verit) zero_le_square add_nonneg_nonneg)
  define n where "n = sqrt ?s"
  have npos: "n > 0" using pos by (simp add: n_def)
  have nn: "n * n = ?s" using pos by (simp add: n_def)
  have eq: "Plane3D (a, b, c, e) = (1 / n * a, 1 / n * b, 1 / n * c, 1 / n * e)"
    by (simp add: Plane3D_def n_def Let_def)
  have "(1 / n * a) * (1 / n * a) + (1 / n * b) * (1 / n * b) + (1 / n * c) * (1 / n * c)
        = ?s / (n * n)"
    by (simp add: add_divide_distrib)
  also have "\<dots> = 1" using nn pos by simp
  finally have unit: "(1 / n * a) * (1 / n * a) + (1 / n * b) * (1 / n * b) + (1 / n * c) * (1 / n * c) = 1" .
  show ?thesis
    using eq unit npos by (intro exI[of _ "1 / n * a"] exI[of _ "1 / n * b"] exI[of _ "1 / n * c"] exI[of _ "1 / n"]) simp
qed

lemma negate_offset_if_idem_iff_c0:
  "(negate_offset_if c0 (negate_offset_if c0 p) = negate_offset_if c0 p) = (0 \<le> c0 p \<or> c3 p = 0)"
proof (cases "c0 p < 0")
  case False
  then show ?thesis by (simp add: negate_offset_if_def)
next
  case True
  obtain a b c e where p: "p = (a, b, c, e)" by (cases p) auto
  with True have a: "a < 0" by simp
  then have nz: "a * a + b * b + c * c \<noteq> 0"
    by (smt (verit) mult_neg_neg zero_le_square)
  from Plane3D_normal_unit[OF nz, of "- e"] obtain a' b' c' k where
    q: "Plane3D (a, b, c, - e) = (a', b', c', k * (- e))" and
    unit: "a' * a' + b' * b' + c' * c' = 1" and k: "k > 0" and a': "a' = k * a"
    by blast
  have a'neg: "a' < 0" using a k a' by (simp add: mult_pos_neg)
  have fp: "negate_offset_if c0 p = (a', b', c', - (k * e))"
    using True q by (simp add: negate_offset_if_def p)
  have step: "negate_offset_if c0 (a', b', c', - (k * e)) = (a', b', c', k * e)"
    using a'neg unit by (simp add: negate_offset_if_def Plane3D_unit)
  from step have ffp: "negate_offset_if c0 (negate_offset_if c0 p) = (a', b', c', k * e)"
    by (simp add: fp)
  have "(negate_offset_if c0 (negate_offset_if c0 p) = negate_offset_if c0 p) = (e = 0)"
    unfolding fp step using k by auto
  then show ?thesis
    using True by (simp add: p)
qed

lemma negate_offset_if_idem_iff_c1:
  "(negate_offset_if c1 (negate_offset_if c1 p) = negate_offset_if c1 p) = (0 \<le> c1 p \<or> c3 p = 0)"
proof (cases "c1 p < 0")
  case False
  then show ?thesis by (simp add: negate_offset_if_def)
next
  case True
  obtain a b c e where p: "p = (a, b, c, e)" by (cases p) auto
  with True have b: "b < 0" by simp
  then have nz: "a * a + b * b + c * c \<noteq> 0"
    by (smt (verit) mult_neg_neg zero_le_square)
  from Plane3D_normal_unit[OF nz, of "- e"] obtain a' b' c' k where
    q: "Plane3D (a, b, c, - e) = (a', b', c', k * (- e))" and
    unit: "a' * a' + b' * b' + c' * c' = 1" and k: "k > 0" and b': "b' = k * b"
    by blast
  have b'neg: "b' < 0" using b k b' by (simp add: mult_pos_neg)
  have fp: "negate_offset_if c1 p = (a', b', c', - (k * e))"
    using True q by (simp add: negate_offset_if_def p)
  have step: "negate_offset_if c1 (a', b', c', - (k * e)) = (a', b', c', k * e)"
    using b'neg unit by (simp add: negate_offset_if_def Plane3D_unit)
  from step have ffp: "negate_offset_if c1 (negate_offset_if c1 p) = (a', b', c', k * e)"
    by (simp add: fp)
  have "(negate_offset_if c1 (negate_offset_if c1 p) = negate_offset_if c1 p) = (e = 0)"
    unfolding fp step using k by auto
  then show ?thesis
    using True by (simp add: p)
qed

lemma nodelet_correct_plane_d_X:
  "nodelet_correct_plane_d X_VERT_PLANE (p1, p2) = (negate_offset_if c0 p1, negate_offset_if c0 p2)"
  by (simp add: nodelet_correct_plane_d_def negate_offset_if_def X_VERT_PLANE_def Y_VERT_PLANE_def Let_def)

lemma nodelet_correct_plane_d_Y:
  "nodelet_correct_plane_d Y_VERT_PLANE (p1, p2) = (negate_offset_if c1 p1, negate_offset_if c1 p2)"
  by (simp add: nodelet_correct_plane_d_def negate_offset_if_def X_VERT_PLANE_def Y_VERT_PLANE_def Let_def)

text \<open>
  Claim C9, as amended. Applying the sign correction twice gives the same result as
  applying it once for both \<open>PlaneUtils\<close> overloads, on every plane. The nodelet overload
  negates the offset only and leaves the normal as it is, so its test stays true after
  the first application: on a pair of planes it is idempotent exactly when each plane has
  a non-negative coefficient on the axis of the plane type or a zero offset.
\<close>

theorem correct_plane_d_idempotence:
  "correct_plane_d_PlaneData t (correct_plane_d_PlaneData t pd) = correct_plane_d_PlaneData t pd \<and>
   correct_plane_d_Vector4d t (correct_plane_d_Vector4d t v px py) px py = correct_plane_d_Vector4d t v px py \<and>
   ((nodelet_correct_plane_d X_VERT_PLANE (nodelet_correct_plane_d X_VERT_PLANE (p1, p2))
       = nodelet_correct_plane_d X_VERT_PLANE (p1, p2))
     = ((0 \<le> c0 p1 \<or> c3 p1 = 0) \<and> (0 \<le> c0 p2 \<or> c3 p2 = 0))) \<and>
   ((nodelet_correct_plane_d Y_VERT_PLANE (nodelet_correct_plane_d Y_VERT_PLANE (p1, p2))
       = nodelet_correct_plane_d Y_VERT_PLANE (p1, p2))
     = ((0 \<le> c1 p1 \<or> c3 p1 = 0) \<and> (0 \<le> c1 p2 \<or> c3 p2 = 0)))"
proof (intro conjI)
  show "correct_plane_d_PlaneData t (correct_plane_d_PlaneData t pd) = correct_plane_d_PlaneData t pd"
    by (simp add: correct_plane_d_PlaneData_def)
  show "correct_plane_d_Vector4d t (correct_plane_d_Vector4d t v px py) px py = correct_plane_d_Vector4d t v px py"
    by (cases v) (simp add: correct_plane_d_Vector4d_def)
  show "(nodelet_correct_plane_d X_VERT_PLANE (nodelet_correct_plane_d X_VERT_PLANE (p1, p2))
       = nodelet_correct_plane_d X_VERT_PLANE (p1, p2))
     = ((0 \<le> c0 p1 \<or> c3 p1 = 0) \<and> (0 \<le> c0 p2 \<or> c3 p2 = 0))"
    using negate_offset_if_idem_iff_c0[of p1] negate_offset_if_idem_iff_c0[of p2]
    by (simp add: nodelet_correct_plane_d_X)
  show "(nodelet_correct_plane_d Y_VERT_PLANE (nodelet_correct_plane_d Y_VERT_PLANE (p1, p2))
       = nodelet_correct_plane_d Y_VERT_PLANE (p1, p2))
     = ((0 \<le> c1 p1 \<or> c3 p1 = 0) \<and> (0 \<le> c1 p2 \<or> c3 p2 = 0))"
    using negate_offset_if_idem_iff_c1[of p1] negate_offset_if_idem_iff_c1[of p2]
    by (simp add: nodelet_correct_plane_d_Y)
qed

text \<open>
  The claim as stated fails for the nodelet overload: on the X-vertical plane
  \<open>(-1, 0, 0, 2)\<close> the first application gives offset \<open>-2\<close> and the second gives
  offset \<open>2\<close> again.
\<close>

theorem nodelet_correct_plane_d_not_idempotent:
  "nodelet_correct_plane_d X_VERT_PLANE
     (nodelet_correct_plane_d X_VERT_PLANE ((-1, 0, 0, 2), (1, 0, 0, 1)))
   \<noteq> nodelet_correct_plane_d X_VERT_PLANE ((-1, 0, 0, 2), (1, 0, 0, 1))"
  by (simp add: nodelet_correct_plane_d_def X_VERT_PLANE_def Y_VERT_PLANE_def Let_def Plane3D_def)

section \<open>Corridor candidates\<close>

lemma Plane3D_axis_x:
  "Plane3D (-1, 0, 0, e) = (-1, 0, 0, e)" "Plane3D (1, 0, 0, e) = (1, 0, 0, e)"
  by (simp_all add: Plane3D_def)

lemma nodelet_correct_plane_d_axis_x:
  "nodelet_correct_plane_d X_VERT_PLANE ((1, 0, 0, e), (-1, 0, 0, e')) = ((1, 0, 0, e), (-1, 0, 0, - e'))"
  "nodelet_correct_plane_d X_VERT_PLANE ((1, 0, 0, e), (1, 0, 0, e')) = ((1, 0, 0, e), (1, 0, 0, e'))"
  by (simp_all add: nodelet_correct_plane_d_def X_VERT_PLANE_def Y_VERT_PLANE_def Let_def Plane3D_axis_x)

lemmas sort_corridors_eval =
  sort_corridors_def sort_corridors_body_def nodelet_correct_plane_d_axis_x
  nodelet_width_between_planes_def Let_def

text \<open>
  Claim C1, as amended. With \<open>corridor_min_width = 1.5\<close>, \<open>corridor_max_width = 2.5\<close> and a
  positive length-difference threshold, for two X-vertical detections of equal length:
  the plane \<open>(1, 0, 0, -1.0)\<close> paired with the plane \<open>(-1, 0, 0, -1.2)\<close> of opposing
  normal (its offset becomes \<open>1.2\<close> under the sign correction) is emitted as the one
  corridor candidate, of width \<open>2.2\<close>; with the second offset changed so that the width
  is \<open>3.0\<close> nothing is emitted; and with the second plane \<open>(1, 0, 0, 1.2)\<close>, whose normal
  points the same way as the first, nothing is emitted either, since the sign correction
  never changes a normal.
\<close>

theorem sort_corridors_gating:
  assumes "corridor_min_width P = 1.5" and "corridor_max_width P = 2.5"
      and "0 < corridor_plane_length_diff_threshold P"
      and "plane a = (1, 0, 0, -1.0)" and "plane_length a = plane_length b"
  shows "sort_corridors P X_VERT_PLANE [a, b\<lparr>plane := (-1, 0, 0, -1.2)\<rparr>] =
           [\<lparr>plane1 = a\<lparr>plane_local :=
                          fst (nodelet_correct_plane_d X_VERT_PLANE (plane_local a, plane_local b))\<rparr>,
              plane2 = b\<lparr>plane := (-1, 0, 0, 1.2),
                         plane_local :=
                          snd (nodelet_correct_plane_d X_VERT_PLANE (plane_local a, plane_local b))\<rparr>,
              width = 2.2, length_diff = 0\<rparr>] \<and>
         sort_corridors P X_VERT_PLANE [a, b\<lparr>plane := (-1, 0, 0, -2.0)\<rparr>] = [] \<and>
         sort_corridors P X_VERT_PLANE [a, b\<lparr>plane := (1, 0, 0, 1.2)\<rparr>] = []"
proof (intro conjI)
  show "sort_corridors P X_VERT_PLANE [a, b\<lparr>plane := (-1, 0, 0, -1.2)\<rparr>] =
           [\<lparr>plane1 = a\<lparr>plane_local :=
                          fst (nodelet_correct_plane_d X_VERT_PLANE (plane_local a, plane_local b))\<rparr>,
              plane2 = b\<lparr>plane := (-1, 0, 0, 1.2),
                         plane_local :=
                          snd (nodelet_correct_plane_d X_VERT_PLANE (plane_local a, plane_local b))\<rparr>,
              width = 2.2, length_diff = 0\<rparr>]"
    using assms by (simp add: sort_corridors_eval)
  show "sort_corridors P X_VERT_PLANE [a, b\<lparr>plane := (-1, 0, 0, -2.0)\<rparr>] = []"
    using assms by (simp add: sort_corridors_eval)
  show "sort_corridors P X_VERT_PLANE [a, b\<lparr>plane := (1, 0, 0, 1.2)\<rparr>] = []"
    using assms by (simp add: sort_corridors_eval)
qed

theorem sort_corridors_gating_witness:
  "sort_corridors default_pairing_params X_VERT_PLANE
     [detection (1, 0, 0, -1.0) 3, detection (-1, 0, 0, -1.2) 4] =
     [\<lparr>plane1 = detection (1, 0, 0, -1.0) 3, plane2 = detection (-1, 0, 0, 1.2) 4,
       width = 2.2, length_diff = 0\<rparr>] \<and>
   sort_corridors default_pairing_params X_VERT_PLANE
     [detection (1, 0, 0, -1.0) 3, (detection (-1, 0, 0, -1.2) 4)\<lparr>plane := (-1, 0, 0, -2.0)\<rparr>] = [] \<and>
   sort_corridors default_pairing_params X_VERT_PLANE
     [detection (1, 0, 0, -1.0) 3, (detection (-1, 0, 0, -1.2) 4)\<lparr>plane := (1, 0, 0, 1.2)\<rparr>] = []"
proof -
  have P: "corridor_min_width default_pairing_params = 1.5"
          "corridor_max_width default_pairing_params = 2.5"
          "0 < corridor_plane_length_diff_threshold default_pairing_params"
    by (simp_all add: default_pairing_params_def)
  have a: "plane (detection (1, 0, 0, -1.0) 3) = (1, 0, 0, -1.0)"
    by (simp add: detection_def)
  have len: "plane_length (detection (1, 0, 0, -1.0) 3) = plane_length (detection (-1, 0, 0, -1.2) 4)"
    by (simp add: detection_def)
  show ?thesis
    using sort_corridors_gating [OF P a len]
    by (simp add: detection_def nodelet_correct_plane_d_axis_x)
qed

text \<open>
  The claim as stated fails: the planes \<open>(1, 0, 0, -1.0)\<close> and \<open>(1, 0, 0, 1.2)\<close> have the
  same normal, the sign correction leaves both untouched, the dot product of the normals
  is \<open>1\<close>, and no candidate is emitted.
\<close>

theorem sort_corridors_same_normals_rejected:
  "sort_corridors default_pairing_params X_VERT_PLANE
     [detection (1, 0, 0, -1.0) 3, detection (1, 0, 0, 1.2) 4] = []"
  by (simp add: sort_corridors_eval default_pairing_params_def detection_def)

section \<open>Room refinement\<close>

lemma refine_rooms_body_step:
  "refine_rooms_body xv yv i j st = refine_step (xv ! i, yv ! j) st"
  by (cases st) (simp add: refine_rooms_body_def refine_step_def width_diff_def Let_def)

lemma fold_index: "fold (\<lambda>j. f (ys ! j)) [0 ..< length ys] s = fold f ys s"
proof -
  have "fold f (map ((!) ys) [0 ..< length ys]) s = fold (f \<circ> (!) ys) [0 ..< length ys] s"
    by (simp add: fold_map)
  then show ?thesis by (simp add: map_nth comp_def)
qed

lemma fold_product:
  "fold (\<lambda>x st. fold (\<lambda>y. g (x, y)) ys st) xs s = fold g (List.product xs ys) s"
  by (induction xs arbitrary: s) (simp_all add: fold_map comp_def)

lemma refine_rooms_fold:
  "fold (\<lambda>i st. fold (\<lambda>j st'. refine_rooms_body xv yv i j st') [0 ..< length yv] st)
        [0 ..< length xv] s
   = fold refine_step (List.product xv yv) s"
proof -
  have inner: "\<And>i st. fold (\<lambda>j st'. refine_rooms_body xv yv i j st') [0 ..< length yv] st
                 = fold (\<lambda>y. refine_step (xv ! i, y)) yv st"
    using fold_index[of "\<lambda>y. refine_step (xv ! i, y)" yv for i]
    by (simp add: refine_rooms_body_step)
  have "fold (\<lambda>i st. fold (\<lambda>y. refine_step (xv ! i, y)) yv st) [0 ..< length xv] s
        = fold (\<lambda>x st. fold (\<lambda>y. refine_step (x, y)) yv st) xv s"
    using fold_index[of "\<lambda>x st. fold (\<lambda>y. refine_step (x, y)) yv st" xv s] by simp
  then show ?thesis by (simp add: inner fold_product)
qed

lemma fold_snoc: "fold f (cs @ [c]) s = f c (fold f cs s)"
  by simp

lemma fold_refine_step:
  assumes "length xr0 = 2" "length yr0 = 2"
  shows "(\<forall>c\<in>set cs. \<not> width_diff c < m0) \<and> fold refine_step cs (m0, xr0, yr0) = (m0, xr0, yr0)
       \<or> (\<exists>pre c post. cs = pre @ c # post \<and>
             fold refine_step cs (m0, xr0, yr0) = (width_diff c, room_selection c) \<and>
             width_diff c < m0 \<and>
             (\<forall>c'\<in>set pre. width_diff c < width_diff c') \<and>
             (\<forall>c'\<in>set post. width_diff c \<le> width_diff c'))"
proof (induction cs rule: rev_induct)
  case Nil
  then show ?case by simp
next
  case (snoc c cs)
  from snoc.IH show ?case
  proof (elim disjE conjE exE)
    assume none: "\<forall>c\<in>set cs. \<not> width_diff c < m0"
       and st: "fold refine_step cs (m0, xr0, yr0) = (m0, xr0, yr0)"
    show ?thesis
    proof (cases "width_diff c < m0")
      case False
      have "fold refine_step (cs @ [c]) (m0, xr0, yr0) = (m0, xr0, yr0)"
        using False by (simp only: fold_snoc st) (simp add: refine_step_def)
      with none False show ?thesis by simp
    next
      case True
      have sel: "(xr0[0 := plane1 (fst c), 1 := plane2 (fst c)], yr0[0 := plane1 (snd c), 1 := plane2 (snd c)])
                 = room_selection c"
        using assms by (cases xr0; cases yr0) (auto simp: room_selection_def length_Suc_conv)
      have "fold refine_step (cs @ [c]) (m0, xr0, yr0) = (width_diff c, room_selection c)"
        using True sel by (simp only: fold_snoc st) (simp add: refine_step_def)
      moreover have "\<forall>c'\<in>set cs. width_diff c < width_diff c'"
        using none True by force
      ultimately show ?thesis
        using True by (intro disjI2 exI[of _ cs] exI[of _ c] exI[of _ "[]"]) simp
    qed
  next
    fix pre c0 post
    assume cs: "cs = pre @ c0 # post"
       and st: "fold refine_step cs (m0, xr0, yr0) = (width_diff c0, room_selection c0)"
       and lt: "width_diff c0 < m0"
       and pre: "\<forall>c'\<in>set pre. width_diff c0 < width_diff c'"
       and post: "\<forall>c'\<in>set post. width_diff c0 \<le> width_diff c'"
    show ?thesis
    proof (cases "width_diff c < width_diff c0")
      case False
      have "fold refine_step (cs @ [c]) (m0, xr0, yr0) = (width_diff c0, room_selection c0)"
        using False by (simp only: fold_snoc st) (simp add: refine_step_def)
      moreover have "cs @ [c] = pre @ c0 # (post @ [c])" using cs by simp
      moreover have "\<forall>c'\<in>set (post @ [c]). width_diff c0 \<le> width_diff c'"
        using post False by auto
      ultimately show ?thesis
        using lt pre by blast
    next
      case True
      have "fold refine_step (cs @ [c]) (m0, xr0, yr0) = (width_diff c, room_selection c)"
        using True by (simp only: fold_snoc st) (simp add: refine_step_def room_selection_def)
      moreover have "\<forall>c'\<in>set cs. width_diff c < width_diff c'"
        using pre post True cs by force
      moreover have "width_diff c < m0" using True lt by simp
      ultimately show ?thesis
        by (intro disjI2 exI[of _ cs] exI[of _ c] exI[of _ "[]"]) simp
    qed
  qed
qed

text \<open>
  Claim C7. \<open>refine_rooms\<close> returns the empty result when no combination of an X-pair
  and a Y-pair has a width difference below 2.5; otherwise it returns the planes of the
  combination with the least width difference, the first such combination in loop order
  (every earlier combination has a strictly larger difference, every later one a
  difference at least as large).
\<close>

theorem refine_rooms_first_minimum:
  "((\<forall>c\<in>set (List.product xv yv). \<not> width_diff c < 2.5) \<longrightarrow> refine_rooms xv yv = ([], [])) \<and>
   ((\<exists>c\<in>set (List.product xv yv). width_diff c < 2.5) \<longrightarrow>
      (\<exists>pre c post. List.product xv yv = pre @ c # post \<and>
          refine_rooms xv yv = room_selection c \<and>
          width_diff c < 2.5 \<and>
          (\<forall>c'\<in>set pre. width_diff c < width_diff c') \<and>
          (\<forall>c'\<in>set post. width_diff c \<le> width_diff c')))"
proof -
  let ?init = "(2.5::real, [plane_data_list_default, plane_data_list_default],
                [plane_data_list_default, plane_data_list_default])"
  let ?cs = "List.product xv yv"
  have rr: "refine_rooms xv yv =
      (let st = fold refine_step ?cs ?init
       in if fst st \<ge> 2.5 then ([], []) else (fst (snd st), snd (snd st)))"
    by (simp add: refine_rooms_def refine_rooms_fold)
  have len: "length [plane_data_list_default, plane_data_list_default] = 2" by simp
  from fold_refine_step[OF len len, of ?cs "2.5"]
  show ?thesis
  proof (elim disjE conjE exE)
    assume none: "\<forall>c\<in>set ?cs. \<not> width_diff c < 2.5"
       and st: "fold refine_step ?cs ?init = ?init"
    have "refine_rooms xv yv = ([], [])" by (simp only: rr st Let_def) simp
    with none show ?thesis by blast
  next
    fix pre c post
    assume cs: "?cs = pre @ c # post"
       and st: "fold refine_step ?cs ?init = (width_diff c, room_selection c)"
       and lt: "width_diff c < 2.5"
       and pre: "\<forall>c'\<in>set pre. width_diff c < width_diff c'"
       and post: "\<forall>c'\<in>set post. width_diff c \<le> width_diff c'"
    have "refine_rooms xv yv = room_selection c"
      using lt by (simp only: rr st Let_def) simp
    moreover have "\<not> (\<forall>c\<in>set ?cs. \<not> width_diff c < 2.5)"
      using cs lt by auto
    ultimately show ?thesis
      using cs lt pre post by blast
  qed
qed

text \<open>
  The witness is the example of the claim: X-pairs of widths 3.0 and 4.0, Y-pairs of
  widths 3.1 and 5.0; the X-pair of width 3.0 is selected with the Y-pair of width 3.1.
\<close>

theorem refine_rooms_first_minimum_witness:
  "(\<exists>c\<in>set (List.product [room_pair 3.0 1, room_pair 4.0 3] [room_pair 3.1 5, room_pair 5.0 7]).
       width_diff c < 2.5) \<and>
   refine_rooms [room_pair 3.0 1, room_pair 4.0 3] [room_pair 3.1 5, room_pair 5.0 7]
     = room_selection (room_pair 3.0 1, room_pair 3.1 5) \<and>
   (\<exists>pre c post.
       List.product [room_pair 3.0 1, room_pair 4.0 3] [room_pair 3.1 5, room_pair 5.0 7]
         = pre @ c # post \<and>
       refine_rooms [room_pair 3.0 1, room_pair 4.0 3] [room_pair 3.1 5, room_pair 5.0 7]
         = room_selection c \<and>
       width_diff c < 2.5 \<and>
       (\<forall>c'\<in>set pre. width_diff c < width_diff c') \<and>
       (\<forall>c'\<in>set post. width_diff c \<le> width_diff c'))"
proof -
  let ?xs = "[room_pair 3.0 1, room_pair 4.0 3]"
  let ?ys = "[room_pair 3.1 5, room_pair 5.0 7]"
  have ex: "\<exists>c\<in>set (List.product ?xs ?ys). width_diff c < 2.5"
    by (simp add: width_diff_def room_pair_def)
  have sel: "refine_rooms ?xs ?ys = room_selection (room_pair 3.0 1, room_pair 3.1 5)"
    by (simp add: refine_rooms_def refine_rooms_body_def room_selection_def room_pair_def Let_def)
  from refine_rooms_first_minimum [of ?xs ?ys] ex sel show ?thesis by blast
qed

section \<open>Neighbour overlap in the plane association\<close>

lemma has_near_point_iff:
  "has_near_point p cloud_2 = (\<exists>q\<in>set cloud_2. squaredNorm_diff p q < 0.5)"
  by (induction cloud_2) auto

lemma check_point_neighbours_from_count:
  "n \<le> 100 \<Longrightarrow>
   check_point_neighbours_from n cloud_1 cloud_2 =
     (100 < n + int (length (filter (\<lambda>p. has_near_point p cloud_2) cloud_1)))"
  by (induction cloud_1 arbitrary: n) (auto simp: Let_def)

lemma check_point_neighbours_count:
  "check_point_neighbours cloud_1 cloud_2 = (100 < near_count cloud_1 cloud_2)"
  using check_point_neighbours_from_count[of 0 cloud_1 cloud_2]
  by (simp add: check_point_neighbours_def has_near_point_iff near_count_def)

lemma transform_point_identity:
  "transform_point Isometry_Identity (point_at a) = point_at a"
  by (simp add: transform_point_def Isometry_Identity_def Identity3_def point_at_def
        PointNormal_default_def)

lemma near_count_replicate:
  "near_count (replicate n (point_at 0)) [point_at a] = (if a\<^sup>2 < 0.5 then n else 0)"
  by (simp add: near_count_def squaredNorm_diff_def point_at_def PointNormal_default_def)

lemma associate_fold_one:
  "fold (associate_vert_body close_maha est det_plane [wall 7 7 (1, 0, 0, -1) c]) [0 ..< length [wall 7 7 (1, 0, 0, -1) c]] (100, 0, 0)
     = (0.05, 7, 0)"
  by (simp add: associate_vert_body_def fallback_maha_dist_def close_maha_def wall_def)

lemma associate_vert_wall:
  "c \<noteq> [] \<Longrightarrow>
   associate_vert close_maha default_mapper_params Isometry_Identity det_plane [point_at a] [wall 7 7 (1, 0, 0, -1) c]
     = Inr (if 100 < near_count c [point_at a] then 7 else -1, 0)"
  by (simp only: associate_vert_def associate_fold_one Let_def)
     (simp add: default_mapper_params_def wall_def check_point_neighbours_count
        transform_point_identity)

lemma switch_unmatched_X:
  "kf_cloud_seg_body (keyframe s) \<noteq> [] \<Longrightarrow>
   \<exists>pn s'. factor_planes_switch X_VERT_PLANE mf (-1, k) s
              = Inr (num_vertices_local (graph s), Some pn, s')
           \<and> length (x_vert_planes s') = length (x_vert_planes s) + 1"
  by (simp add: factor_planes_switch_def Let_def)

lemma switch_unmatched_Y:
  "kf_cloud_seg_body (keyframe s) \<noteq> [] \<Longrightarrow>
   \<exists>pn s'. factor_planes_switch Y_VERT_PLANE mf (-1, k) s
              = Inr (num_vertices_local (graph s), Some pn, s')
           \<and> length (y_vert_planes s') = length (y_vert_planes s) + 1"
  by (simp add: factor_planes_switch_def Let_def X_VERT_PLANE_def Y_VERT_PLANE_def)

text \<open>
  Claim C3, as amended. \<open>check_point_neighbours\<close> succeeds exactly when more than 100
  points (101 or more) of the landmark's map cloud have some point of the transformed
  detection cloud at a squared distance below 0.5. When the least Mahalanobis distance
  of a vertical class is below the threshold and the matched landmark's map cloud is
  not empty, the association keeps the match exactly when the check succeeds and
  otherwise returns \<open>-1\<close>; on \<open>-1\<close> the switch of \<open>factor_planes\<close> creates a new
  landmark of the class.
\<close>

theorem overlap_veto:
  "check_point_neighbours cloud_1 cloud_2 = (100 < near_count cloud_1 cloud_2) \<and>
   (fold (associate_vert_body maha est det_plane planes) [0 ..< length planes] (100, 0, 0)
      = (m, first, second) \<longrightarrow>
    m < plane_dist_threshold P \<longrightarrow> nat second < length planes \<longrightarrow>
    vp_cloud_seg_map (planes ! nat second) = Some cloud_seg_map \<longrightarrow> cloud_seg_map \<noteq> [] \<longrightarrow>
    associate_vert maha P est det_plane cloud_seg_body planes
      = Inr (if 100 < near_count cloud_seg_map (map (transform_point est) cloud_seg_body)
             then first else -1, second)) \<and>
   (kf_cloud_seg_body (keyframe s) \<noteq> [] \<longrightarrow>
      (\<exists>pn s'. factor_planes_switch X_VERT_PLANE mf (-1, k) s
                 = Inr (num_vertices_local (graph s), Some pn, s')
              \<and> length (x_vert_planes s') = length (x_vert_planes s) + 1) \<and>
      (\<exists>pn s'. factor_planes_switch Y_VERT_PLANE mf (-1, k) s
                 = Inr (num_vertices_local (graph s), Some pn, s')
              \<and> length (y_vert_planes s') = length (y_vert_planes s) + 1))"
proof (intro conjI impI)
  show "check_point_neighbours cloud_1 cloud_2 = (100 < near_count cloud_1 cloud_2)"
    by (rule check_point_neighbours_count)
next
  assume "fold (associate_vert_body maha est det_plane planes) [0 ..< length planes] (100, 0, 0)
            = (m, first, second)"
     and "m < plane_dist_threshold P" and "nat second < length planes"
     and "vp_cloud_seg_map (planes ! nat second) = Some cloud_seg_map" and "cloud_seg_map \<noteq> []"
  then show "associate_vert maha P est det_plane cloud_seg_body planes
      = Inr (if 100 < near_count cloud_seg_map (map (transform_point est) cloud_seg_body)
             then first else -1, second)"
    by (simp add: check_point_neighbours_count associate_vert_def Let_def)
next
  assume "kf_cloud_seg_body (keyframe s) \<noteq> []"
  then show "\<exists>pn s'. factor_planes_switch X_VERT_PLANE mf (-1, k) s
                 = Inr (num_vertices_local (graph s), Some pn, s')
              \<and> length (x_vert_planes s') = length (x_vert_planes s) + 1"
    by (rule switch_unmatched_X)
next
  assume "kf_cloud_seg_body (keyframe s) \<noteq> []"
  then show "\<exists>pn s'. factor_planes_switch Y_VERT_PLANE mf (-1, k) s
                 = Inr (num_vertices_local (graph s), Some pn, s')
              \<and> length (y_vert_planes s') = length (y_vert_planes s) + 1"
    by (rule switch_unmatched_Y)
qed

text \<open>
  The witness: a landmark whose map cloud is 101 copies of the origin, a detection with
  one point at the origin, seen from the identity pose: the match with landmark 7 is
  kept.
\<close>

theorem overlap_veto_witness:
  "check_point_neighbours (replicate 101 (point_at 0)) [point_at 0] \<and>
   associate_vert close_maha default_mapper_params Isometry_Identity (1, 0, 0, -1) [point_at 0]
      [wall 7 7 (1, 0, 0, -1) (replicate 101 (point_at 0))] = Inr (7, 0) \<and>
   (\<exists>pn s'. factor_planes_switch X_VERT_PLANE (1, 0, 0, -1) (-1, 0) first_keyframe_state
              = Inr (num_vertices_local (graph first_keyframe_state), Some pn, s')
           \<and> length (x_vert_planes s') = length (x_vert_planes first_keyframe_state) + 1)"
proof -
  let ?cm = "replicate 101 (point_at 0)"
  let ?planes = "[wall 7 7 (1, 0, 0, -1) ?cm]"
  note v = overlap_veto [where ?cloud_1.0 = ?cm and ?cloud_2.0 = "[point_at 0]"
          and maha = close_maha and est = Isometry_Identity and det_plane = "(1, 0, 0, -1)"
          and planes = ?planes
          and m = "0.05" and first = 7 and second = 0 and P = default_mapper_params
          and cloud_seg_map = ?cm and cloud_seg_body = "[point_at 0]"
          and s = first_keyframe_state and mf = "(1, 0, 0, -1)" and k = 0]
  have h1: "fold (associate_vert_body close_maha Isometry_Identity (1, 0, 0, -1) ?planes)
              [0 ..< length ?planes] (100, 0, 0) = (0.05, 7, 0)"
    by (rule associate_fold_one)
  have h2: "(0.05::real) < plane_dist_threshold default_mapper_params"
    by (simp add: default_mapper_params_def)
  have h3: "nat 0 < length ?planes" by simp
  have h4: "vp_cloud_seg_map (?planes ! nat 0) = Some ?cm" by (simp add: wall_def)
  have h5: "?cm \<noteq> []" by simp
  have h6: "kf_cloud_seg_body (keyframe first_keyframe_state) \<noteq> []"
    by (simp add: first_keyframe_state_def)
  have n: "near_count ?cm [point_at 0] = 101"
    by (simp add: near_count_replicate)
  from v have c1: "check_point_neighbours ?cm [point_at 0]"
    by (simp add: n)
  from v [THEN conjunct2, THEN conjunct1, rule_format, OF h1 h2 h3 h4 h5]
  have c2: "associate_vert close_maha default_mapper_params Isometry_Identity (1, 0, 0, -1)
              [point_at 0] ?planes = Inr (7, 0)"
    by (simp add: transform_point_identity n)
  from v [THEN conjunct2, THEN conjunct2, rule_format, OF h6]
  have c3: "\<exists>pn s'. factor_planes_switch X_VERT_PLANE (1, 0, 0, -1) (-1, 0) first_keyframe_state
              = Inr (num_vertices_local (graph first_keyframe_state), Some pn, s')
           \<and> length (x_vert_planes s') = length (x_vert_planes first_keyframe_state) + 1"
    by (rule conjunct1)
  from c1 c2 c3 show ?thesis by (intro conjI)
qed

text \<open>
  The claim as stated fails on the count: with exactly 100 points of the landmark's map
  cloud on a point of the detection (squared distance 0, inside any gate), the check
  fails and the association returns \<open>-1\<close>.
\<close>

theorem overlap_veto_hundred_points_rejected:
  "100 \<le> length (filter (\<lambda>p. \<exists>q\<in>set (map (transform_point Isometry_Identity) [point_at 0]).
                               squaredNorm_diff p q < 0.5\<^sup>2)
                   (replicate 100 (point_at 0))) \<and>
   associate_vert close_maha default_mapper_params Isometry_Identity (1, 0, 0, -1) [point_at 0]
      [wall 7 7 (1, 0, 0, -1) (replicate 100 (point_at 0))] = Inr (-1, 0)"
proof -
  have "replicate 100 (point_at 0) \<noteq> []" by simp
  from associate_vert_wall[OF this, of "(1, 0, 0, -1)" 0]
  show ?thesis
    by (simp add: near_count_replicate transform_point_identity squaredNorm_diff_def)
qed

section \<open>A plane without a dominant axis\<close>

lemma associate_plane_other:
  "se3_estimate g (kf_node kf) = Some est \<Longrightarrow>
   plane_type \<noteq> X_VERT_PLANE \<Longrightarrow> plane_type \<noteq> Y_VERT_PLANE \<Longrightarrow> plane_type \<noteq> HORT_PLANE \<Longrightarrow>
   associate_plane maha P plane_type g kf det_plane c xs ys hs = Inr (0, 0)"
  by (simp add: associate_plane_def)

lemma factor_planes_other:
  assumes "se3_estimate (graph s) (kf_node (keyframe s)) = Some est"
      and "plane_type \<noteq> X_VERT_PLANE" "plane_type \<noteq> Y_VERT_PLANE" "plane_type \<noteq> HORT_PLANE"
  shows "factor_planes maha P s plane_type m b = Inl UninitialisedPlaneNode"
  using assms
  by (simp add: factor_planes_def Let_def associate_plane_other factor_planes_switch_def
        factor_planes_edge_def)

lemma map_frame_example:
  "convert_plane_to_map_frame Isometry_Identity (2/3, 2/3, 1/3, -1) = (2/3, 2/3, 1/3, -1)"
proof -
  have "Plane3D (2/3, 2/3, 1/3, -1) = (2/3, 2/3, 1/3, -1)"
    by (simp add: Plane3D_def Let_def)
  then show ?thesis
    by (simp add: convert_plane_to_map_frame_def Isometry_Identity_def Identity3_def Let_def)
qed

text \<open>
  Claim C4 (the code departs from it). When no coefficient of the map-frame normal is
  strictly the largest in magnitude, \<open>plane_type\<close> stays \<open>-1\<close>, the switch of
  \<open>factor_planes\<close> takes its \<open>default\<close> case and appends no landmark and adds no vertex;
  but the code then goes on to add the pose-to-plane edge with \<open>plane_node\<close>, which was
  never assigned. The operation does not come back with "no landmark": it ends in the
  use of an indeterminate pointer.
\<close>

theorem add_planes_to_graph_no_dominant_axis:
  assumes "se3_estimate (graph s) (kf_node (keyframe s)) = Some w2n"
      and "m = convert_plane_to_map_frame w2n b"
      and "\<not> (abs (c0 m) > abs (c1 m) \<and> abs (c0 m) > abs (c2 m))"
      and "\<not> (abs (c1 m) > abs (c0 m) \<and> abs (c1 m) > abs (c2 m))"
      and "\<not> (abs (c2 m) > abs (c0 m) \<and> abs (c2 m) > abs (c1 m))"
  shows "add_planes_to_graph maha P s b = Inl UninitialisedPlaneNode"
proof -
  have neq: "(-1::int) \<noteq> X_VERT_PLANE" "(-1::int) \<noteq> Y_VERT_PLANE" "(-1::int) \<noteq> HORT_PLANE"
    by (simp_all add: X_VERT_PLANE_def Y_VERT_PLANE_def HORT_PLANE_def)
  have "factor_planes maha P s (-1) m b = Inl UninitialisedPlaneNode"
    using factor_planes_other[OF assms(1) neq] .
  then show ?thesis
    using assms by (auto simp add: add_planes_to_graph_def Let_def sort_planes_def)
qed

text \<open>
  The witness: the first keyframe at the identity pose and a segment whose plane has the
  unit normal \<open>(2/3, 2/3, 1/3)\<close>, where the x and y coefficients tie.
\<close>

theorem add_planes_to_graph_no_dominant_axis_witness:
  "add_planes_to_graph close_maha default_mapper_params first_keyframe_state (2/3, 2/3, 1/3, -1)
     = Inl UninitialisedPlaneNode"
proof -
  have est: "se3_estimate (graph first_keyframe_state) (kf_node (keyframe first_keyframe_state))
             = Some Isometry_Identity"
    by (simp add: first_keyframe_state_def se3_estimate_def)
  show ?thesis
    by (rule add_planes_to_graph_no_dominant_axis[OF est map_frame_example[symmetric]]) simp_all
qed

section \<open>Landmark ids\<close>

lemma vertices_add_edge [simp]:
  "vertices (snd (add_edge g k vs meas info)) = vertices g"
  "vertex_count (snd (add_edge g k vs meas info)) = vertex_count g"
  by (simp_all add: add_edge_def)

lemma vertices_add_robust_kernel [simp]:
  "vertices (add_robust_kernel g e kt ks) = vertices g"
  "vertex_count (add_robust_kernel g e kt ks) = vertex_count g"
  by (simp_all add: add_robust_kernel_def)

lemma add_vertex_simps [simp]:
  "vertices (snd (add_vertex g v)) = vertices g @ [v]"
  "vertex_count (snd (add_vertex g v)) = vertex_count g + 1"
  by (simp_all add: add_vertex_def)

lemma convert_planes_ids:
  "convert_planes g vps = Inr r \<Longrightarrow> map vp_id r = map vp_id vps"
  by (induction vps arbitrary: r) (auto split: sum.splits)

lemma convert_plane_points_to_map_ids:
  assumes "convert_plane_points_to_map s = Inr s'"
  shows "graph s' = graph s \<and> map vp_id (x_vert_planes s') = map vp_id (x_vert_planes s)
         \<and> map vp_id (y_vert_planes s') = map vp_id (y_vert_planes s)
         \<and> map vp_id (hort_planes s') = map vp_id (hort_planes s)"
  using assms
  by (auto simp: convert_plane_points_to_map_def split: sum.splits dest: convert_planes_ids)

lemma factor_planes_edge_frame:
  assumes "factor_planes_edge P pn G b s = Inr s'"
  shows "vertices (graph s') = vertices (graph s) \<and> x_vert_planes s' = x_vert_planes s
         \<and> y_vert_planes s' = y_vert_planes s \<and> hort_planes s' = hort_planes s"
  using assms
  by (auto simp: factor_planes_edge_def Let_def split: option.splits if_splits)

lemma map_id_matched:
  "i < length xs \<Longrightarrow> map vp_id (xs[i := matched_plane kf (xs ! i)]) = map vp_id xs"
  by (simp add: map_update matched_plane_def list_update_same_conv)

lemma switch_X:
  "factor_planes_switch X_VERT_PLANE m da s =
     (let kf = keyframe s in
        (if x_vert_planes s = [] \<or> fst da = -1
         then (if kf_cloud_seg_body kf = [] then Inl EmptyCloud
               else let first = num_vertices_local (graph s);
                        r = add_plane_node (graph s) m;
                        color = [real (pt_r (last (kf_cloud_seg_body kf))),
                                 real (pt_g (last (kf_cloud_seg_body kf))),
                                 real (pt_b (last (kf_cloud_seg_body kf)))];
                        vert_plane = new_plane first m kf (fst r) color
                    in Inr (first, Some (fst r),
                            s\<lparr>graph := snd r,
                              x_vert_planes := x_vert_planes s @ [vert_plane],
                              keyframe := kf\<lparr>x_plane_ids := x_plane_ids kf @ [vp_id vert_plane]\<rparr>\<rparr>))
         else (if \<not> nat (snd da) < length (x_vert_planes s) \<or> snd da < 0
               then Inl IndexOutOfRange
               else let i = nat (snd da); vp = x_vert_planes s ! i
                    in Inr (fst da, Some (vp_plane_node vp),
                            s\<lparr>x_vert_planes := (x_vert_planes s)[i := matched_plane kf vp],
                              keyframe := kf\<lparr>x_plane_ids := x_plane_ids kf @ [vp_id vp]\<rparr>\<rparr>))))"
  by (simp add: factor_planes_switch_def)

lemma switch_Y:
  "factor_planes_switch Y_VERT_PLANE m da s =
     (let kf = keyframe s in
        (if y_vert_planes s = [] \<or> fst da = -1
         then (if kf_cloud_seg_body kf = [] then Inl EmptyCloud
               else let first = num_vertices_local (graph s);
                        r = add_plane_node (graph s) m;
                        color = [real (pt_r (last (kf_cloud_seg_body kf))),
                                 real (pt_g (last (kf_cloud_seg_body kf))),
                                 real (pt_b (last (kf_cloud_seg_body kf)))];
                        vert_plane = new_plane first m kf (fst r) color
                    in Inr (first, Some (fst r),
                            s\<lparr>graph := snd r,
                              y_vert_planes := y_vert_planes s @ [vert_plane],
                              keyframe := kf\<lparr>y_plane_ids := y_plane_ids kf @ [vp_id vert_plane]\<rparr>\<rparr>))
         else (if \<not> nat (snd da) < length (y_vert_planes s) \<or> snd da < 0
               then Inl IndexOutOfRange
               else let i = nat (snd da); vp = y_vert_planes s ! i
                    in Inr (fst da, Some (vp_plane_node vp),
                            s\<lparr>y_vert_planes := (y_vert_planes s)[i := matched_plane kf vp],
                              keyframe := kf\<lparr>y_plane_ids := y_plane_ids kf @ [vp_id vp]\<rparr>\<rparr>))))"
  by (simp add: factor_planes_switch_def X_VERT_PLANE_def Y_VERT_PLANE_def)

lemma switch_H:
  "factor_planes_switch HORT_PLANE m da s =
     (let kf = keyframe s in
        (if hort_planes s = [] \<or> fst da = -1
         then (let first = num_vertices_local (graph s);
                   r = add_plane_node (graph s) m;
                   hort_plane = new_plane first m kf (fst r) [255, 0, 100]
               in Inr (first, Some (fst r),
                       s\<lparr>graph := snd r,
                         hort_planes := hort_planes s @ [hort_plane],
                         keyframe := kf\<lparr>hort_plane_ids := hort_plane_ids kf @ [vp_id hort_plane]\<rparr>\<rparr>))
         else (if \<not> nat (snd da) < length (hort_planes s) \<or> snd da < 0
               then Inl IndexOutOfRange
               else let i = nat (snd da); vp = hort_planes s ! i
                    in Inr (fst da, Some (vp_plane_node vp),
                            s\<lparr>hort_planes := (hort_planes s)[i := matched_plane kf vp],
                              keyframe := kf\<lparr>hort_plane_ids := hort_plane_ids kf @ [vp_id vp]\<rparr>\<rparr>))))"
  by (simp add: factor_planes_switch_def X_VERT_PLANE_def Y_VERT_PLANE_def HORT_PLANE_def)

lemma switch_other:
  "plane_type \<noteq> X_VERT_PLANE \<Longrightarrow> plane_type \<noteq> Y_VERT_PLANE \<Longrightarrow> plane_type \<noteq> HORT_PLANE \<Longrightarrow>
   factor_planes_switch plane_type m da s = Inr (fst da, None, s)"
  by (simp add: factor_planes_switch_def)

lemma factor_planes_switch_ids:
  assumes "factor_planes_switch plane_type m da s = Inr (first, pn, s')"
  shows "(plane_ids s' = plane_ids s \<and> vertices (graph s') = vertices (graph s))
       \<or> (vertices (graph s') = vertices (graph s) @ [VertexPlane (Plane3D m)]
          \<and> first = num_vertices_local (graph s)
          \<and> (plane_ids s' = (map vp_id (x_vert_planes s) @ [num_vertices_local (graph s)],
                              map vp_id (y_vert_planes s), map vp_id (hort_planes s))
             \<or> plane_ids s' = (map vp_id (x_vert_planes s),
                              map vp_id (y_vert_planes s) @ [num_vertices_local (graph s)],
                              map vp_id (hort_planes s))
             \<or> plane_ids s' = (map vp_id (x_vert_planes s), map vp_id (y_vert_planes s),
                              map vp_id (hort_planes s) @ [num_vertices_local (graph s)])))"
proof -
  consider (X) "plane_type = X_VERT_PLANE" | (Y) "plane_type = Y_VERT_PLANE"
    | (H) "plane_type = HORT_PLANE"
    | (O) "plane_type \<noteq> HORT_PLANE \<and> plane_type \<noteq> X_VERT_PLANE \<and> plane_type \<noteq> Y_VERT_PLANE"
    by blast
  then show ?thesis
  proof cases
    case X
    from assms[unfolded X switch_X] show ?thesis
      by (clarsimp simp: Let_def split: if_splits;
          simp add: plane_ids_def new_plane_def add_plane_node_def map_id_matched)
  next
    case Y
    from assms[unfolded Y switch_Y] show ?thesis
      by (clarsimp simp: Let_def split: if_splits;
          simp add: plane_ids_def new_plane_def add_plane_node_def map_id_matched)
  next
    case H
    from assms[unfolded H switch_H] show ?thesis
      by (clarsimp simp: Let_def split: if_splits;
          simp add: plane_ids_def new_plane_def add_plane_node_def map_id_matched)
  next
    case O
    with assms show ?thesis
      by (auto simp: switch_other plane_ids_def)
  qed
qed

lemma factor_planes_ids:
  assumes "factor_planes maha P s plane_type m b = Inr (pid, s')"
  shows "(plane_ids s' = plane_ids s \<and> vertices (graph s') = vertices (graph s))
       \<or> (vertices (graph s') = vertices (graph s) @ [VertexPlane (Plane3D m)]
          \<and> pid = num_vertices_local (graph s)
          \<and> (plane_ids s' = (map vp_id (x_vert_planes s) @ [num_vertices_local (graph s)],
                              map vp_id (y_vert_planes s), map vp_id (hort_planes s))
             \<or> plane_ids s' = (map vp_id (x_vert_planes s),
                              map vp_id (y_vert_planes s) @ [num_vertices_local (graph s)],
                              map vp_id (hort_planes s))
             \<or> plane_ids s' = (map vp_id (x_vert_planes s), map vp_id (y_vert_planes s),
                              map vp_id (hort_planes s) @ [num_vertices_local (graph s)])))"
proof -
  from assms obtain est where est: "se3_estimate (graph s) (kf_node (keyframe s)) = Some est"
    by (auto simp: factor_planes_def split: option.splits)
  define fp where "fp = (if use_point_to_plane P
                     then filter_points m est (kf_cloud_seg_body (keyframe s)) (replicate 16 0)
                     else (kf_cloud_seg_body (keyframe s), replicate 16 0))"
  define s1 where "s1 = s\<lparr>keyframe := (keyframe s)\<lparr>kf_cloud_seg_body := fst fp\<rparr>\<rparr>"
  from assms est obtain da pn s2 s3 where
    sw: "factor_planes_switch plane_type m da s1 = Inr (pid, pn, s2)" and
    ed: "factor_planes_edge P pn (snd fp) b s2 = Inr s3" and
    cv: "convert_plane_points_to_map s3 = Inr s'"
    by (auto simp: factor_planes_def Let_def fp_def s1_def split: sum.splits prod.splits)
  have s1: "plane_ids s1 = plane_ids s" "graph s1 = graph s"
           "x_vert_planes s1 = x_vert_planes s" "y_vert_planes s1 = y_vert_planes s"
           "hort_planes s1 = hort_planes s"
    by (simp_all add: s1_def plane_ids_def)
  have e: "vertices (graph s3) = vertices (graph s2)" "plane_ids s3 = plane_ids s2"
    using factor_planes_edge_frame[OF ed] by (simp_all add: plane_ids_def)
  have c: "vertices (graph s') = vertices (graph s3)" "plane_ids s' = plane_ids s3"
    using convert_plane_points_to_map_ids[OF cv] by (simp_all add: plane_ids_def)
  from factor_planes_switch_ids[OF sw] show ?thesis
    by (simp only: s1 e c)
qed

lemma vertices_corridor_edges [simp]:
  "vertices (corridor_edges pt ek kn est cn ce g1 f1 f2 p1 p2) = vertices g1"
  by (simp add: corridor_edges_def Let_def)

lemma vertices_room_edges [simp]:
  "vertices (room_edges kn rn rl g1 fx1 fx2 fy1 fy2 mx1 mx2 my1 my2) = vertices g1"
  by (simp add: room_edges_def Let_def)

lemma corridor_node_for_ids:
  assumes "corridor_node_for pt da pre est g cs p1 p2 = Inr (cn, ce, g1, cs')"
  shows "(map cor_id cs' = map cor_id cs \<and> vertices g1 = vertices g)
       \<or> (vertices g1 = vertices g @ [VertexCorridor ce]
          \<and> map cor_id cs' = map cor_id cs @ [num_vertices g])"
  using assms
  by (clarsimp simp: corridor_node_for_def Let_def add_corridor_node_def
        split: if_splits option.splits)

lemma room_node_for_ids:
  assumes "room_node_for da room_pose g rs x0 x1 y0 y1 = Inr (rn, g1, rs')"
  shows "(map room_id rs' = map room_id rs \<and> vertices g1 = vertices g)
       \<or> (vertices g1 = vertices g @ [VertexRoomXYLB room_pose]
          \<and> map room_id rs' = map room_id rs @ [num_vertices g])"
  using assms
  by (clarsimp simp: room_node_for_def Let_def add_room_node_def split: if_splits)

lemma factor_corridors_branch_ids:
  assumes "factor_corridors_branch pt ek da pre g planes cs p1 p2 = Inr (g', cs')"
  shows "(map cor_id cs' = map cor_id cs \<and> vertices g' = vertices g)
       \<or> (\<exists>v. vertices g' = vertices g @ [v] \<and> map cor_id cs' = map cor_id cs @ [num_vertices g])"
proof -
  from assms obtain est r where
    nf: "corridor_node_for pt da pre est g cs p1 p2 = Inr r"
    and g': "vertices g' = vertices (fst (snd (snd r)))" and cs': "cs' = snd (snd (snd r))"
    by (auto simp: factor_corridors_branch_def split: option.splits sum.splits)
  obtain cn ce g1 where r: "r = (cn, ce, g1, cs')" using cs' by (cases r) auto
  from corridor_node_for_ids[OF nf[unfolded r]] g' show ?thesis
    by (auto simp: r)
qed

lemma factor_corridors_ids:
  assumes "factor_corridors P s pt p1 p2 = Inr s'"
  shows "(map cor_id (x_corridors s') = map cor_id (x_corridors s)
          \<and> map cor_id (y_corridors s') = map cor_id (y_corridors s)
          \<and> vertices (graph s') = vertices (graph s))
       \<or> (\<exists>v. vertices (graph s') = vertices (graph s) @ [v]
            \<and> (map cor_id (x_corridors s') = map cor_id (x_corridors s) @ [num_vertices (graph s)]
                 \<and> map cor_id (y_corridors s') = map cor_id (y_corridors s)
               \<or> map cor_id (x_corridors s') = map cor_id (x_corridors s)
                 \<and> map cor_id (y_corridors s') = map cor_id (y_corridors s) @ [num_vertices (graph s)]))"
proof -
  consider (X) "pt = X_VERT_PLANE" | (Y) "pt = Y_VERT_PLANE" | (O) "pt \<noteq> X_VERT_PLANE \<and> pt \<noteq> Y_VERT_PLANE"
    by blast
  then show ?thesis
  proof cases
    case X
    then have ny: "pt \<noteq> Y_VERT_PLANE" by (simp add: X_VERT_PLANE_def Y_VERT_PLANE_def)
    from assms X ny obtain da r where
      br: "factor_corridors_branch pt EdgeCorridorXPlane da
             (pre_corridor_pose pt (plane p1) (plane p2)) (graph s) (x_vert_planes s) (x_corridors s) p1 p2
           = Inr r"
      and s': "s' = s\<lparr>graph := fst r, x_corridors := snd r\<rparr>"
      by (auto simp: factor_corridors_def Let_def split: sum.splits)
    obtain g' cs' where r: "r = (g', cs')" by (cases r) auto
    from factor_corridors_branch_ids[OF br[unfolded r]] show ?thesis
      by (auto simp: s' r)
  next
    case Y
    then have nx: "pt \<noteq> X_VERT_PLANE" by (simp add: X_VERT_PLANE_def Y_VERT_PLANE_def)
    from assms Y nx obtain da r where
      br: "factor_corridors_branch pt EdgeCorridorYPlane da
             (pre_corridor_pose pt (plane p1) (plane p2)) (graph s) (y_vert_planes s) (y_corridors s) p1 p2
           = Inr r"
      and s': "s' = s\<lparr>graph := fst r, y_corridors := snd r\<rparr>"
      by (auto simp: factor_corridors_def Let_def split: sum.splits)
    obtain g' cs' where r: "r = (g', cs')" by (cases r) auto
    from factor_corridors_branch_ids[OF br[unfolded r]] show ?thesis
      by (auto simp: s' r)
  next
    case O
    with assms show ?thesis by (simp add: factor_corridors_def Let_def)
  qed
qed

lemma factor_rooms_ids:
  assumes "factor_rooms P s xv yv = Inr s'"
  shows "(map room_id (rooms_vec s') = map room_id (rooms_vec s)
          \<and> vertices (graph s') = vertices (graph s))
       \<or> (\<exists>v. vertices (graph s') = vertices (graph s) @ [v]
            \<and> map room_id (rooms_vec s') = map room_id (rooms_vec s) @ [num_vertices (graph s)])"
  using assms
  by (clarsimp simp: factor_rooms_def Let_def split: if_splits option.splits sum.splits)
     (drule room_node_for_ids, auto)

lemma factor_planes_first_wall: "\<exists>s'. factor_planes close_maha default_mapper_params first_keyframe_state X_VERT_PLANE
                (1, 0, 0, -1) (1, 0, 0, -1) = Inr (1, s')
              \<and> map vp_id (x_vert_planes s') = [1] \<and> length (vertices (graph s')) = 2"
  by (simp add: factor_planes_def first_keyframe_state_def se3_estimate_def default_mapper_params_def
        associate_plane_def associate_vert_def Let_def factor_planes_switch_def num_vertices_local_def
        add_plane_node_def add_vertex_def new_plane_def factor_planes_edge_def add_edge_def
        add_robust_kernel_def convert_plane_points_to_map_def Plane3D_axis_x)

lemma factor_corridors_first_corridor: "\<exists>s'. factor_corridors default_structure_params four_walls_state X_VERT_PLANE
                (detection (1, 0, 0, -1) 1) (detection (-1, 0, 0, 1.2) 2) = Inr s'
              \<and> map cor_id (x_corridors s') = [5] \<and> length (vertices (graph s')) = 6"
  by (simp add: factor_corridors_def four_walls_state_def default_structure_params_def
        associate_corridors_def factor_corridors_branch_def detection_def se3_estimate_def
        corridor_node_for_def final_corridor_pose_def num_vertices_def add_corridor_node_def
        add_vertex_def wall_def X_VERT_PLANE_def Y_VERT_PLANE_def Let_def)

lemma factor_rooms_first_room: "\<exists>s'. factor_rooms default_structure_params four_walls_state
                [detection (1, 0, 0, -1) 1, detection (-1, 0, 0, 1.2) 2]
                [detection (0, 1, 0, -1) 3, detection (0, -1, 0, 1.3) 4] = Inr s'
              \<and> map room_id (rooms_vec s') = [5] \<and> length (vertices (graph s')) = 6"
  by (simp add: factor_rooms_def four_walls_state_def default_structure_params_def
        associate_rooms_def detection_def se3_estimate_def room_measurement_def
        room_node_for_def num_vertices_def add_room_node_def
        add_vertex_def wall_def X_VERT_PLANE_def Y_VERT_PLANE_def Let_def)

text \<open>
  Claim C2. Whenever \<open>PlaneMapper::factor_planes\<close>, \<open>factor_corridors\<close> or
  \<open>factor_rooms\<close> returns, it has either created no landmark and added no vertex, or it
  has created exactly one landmark and added exactly one vertex, the landmark's own, and
  the id of the landmark is the vertex count read from the graph before that vertex was
  added: \<open>num_vertices_local\<close> for a plane, \<open>num_vertices\<close> for a corridor and for a room.
  Ids of landmarks created before are left as they are.
\<close>

theorem landmark_id_is_vertex_count_snapshot:
  "(factor_planes maha P s plane_type mf bf = Inr (pid, s') \<longrightarrow>
      (plane_ids s' = plane_ids s \<and> vertices (graph s') = vertices (graph s))
    \<or> (vertices (graph s') = vertices (graph s) @ [VertexPlane (Plane3D mf)]
       \<and> pid = num_vertices_local (graph s)
       \<and> (plane_ids s' = (map vp_id (x_vert_planes s) @ [num_vertices_local (graph s)],
                           map vp_id (y_vert_planes s), map vp_id (hort_planes s))
          \<or> plane_ids s' = (map vp_id (x_vert_planes s),
                           map vp_id (y_vert_planes s) @ [num_vertices_local (graph s)],
                           map vp_id (hort_planes s))
          \<or> plane_ids s' = (map vp_id (x_vert_planes s), map vp_id (y_vert_planes s),
                           map vp_id (hort_planes s) @ [num_vertices_local (graph s)])))) \<and>
   (factor_corridors SP ns plane_type p1 p2 = Inr ns' \<longrightarrow>
      (map cor_id (x_corridors ns') = map cor_id (x_corridors ns)
         \<and> map cor_id (y_corridors ns') = map cor_id (y_corridors ns)
         \<and> vertices (graph ns') = vertices (graph ns))
    \<or> (\<exists>v. vertices (graph ns') = vertices (graph ns) @ [v]
          \<and> (map cor_id (x_corridors ns') = map cor_id (x_corridors ns) @ [num_vertices (graph ns)]
               \<and> map cor_id (y_corridors ns') = map cor_id (y_corridors ns)
             \<or> map cor_id (x_corridors ns') = map cor_id (x_corridors ns)
               \<and> map cor_id (y_corridors ns') = map cor_id (y_corridors ns) @ [num_vertices (graph ns)]))) \<and>
   (factor_rooms SP ns xv yv = Inr ns'' \<longrightarrow>
      (map room_id (rooms_vec ns'') = map room_id (rooms_vec ns)
         \<and> vertices (graph ns'') = vertices (graph ns))
    \<or> (\<exists>v. vertices (graph ns'') = vertices (graph ns) @ [v]
          \<and> map room_id (rooms_vec ns'') = map room_id (rooms_vec ns) @ [num_vertices (graph ns)]))"
  using factor_planes_ids[of maha P s plane_type mf bf pid s']
        factor_corridors_ids[of SP ns plane_type p1 p2 ns']
        factor_rooms_ids[of SP ns xv yv ns'']
  by blast

text \<open>
  The witness: the first wall seen from the first keyframe becomes plane landmark 1 (one
  vertex before it), and in a map of one pose and four walls the first corridor and the
  first room each get the id 5.
\<close>

theorem landmark_id_is_vertex_count_snapshot_witness:
  "(\<exists>s'. factor_planes close_maha default_mapper_params first_keyframe_state X_VERT_PLANE
            (1, 0, 0, -1) (1, 0, 0, -1) = Inr (1, s')
         \<and> plane_ids s' = ([num_vertices_local (graph first_keyframe_state)], [], [])
         \<and> vertices (graph s') = vertices (graph first_keyframe_state) @ [VertexPlane (1, 0, 0, -1)]) \<and>
   (\<exists>s'. factor_corridors default_structure_params four_walls_state X_VERT_PLANE
            (detection (1, 0, 0, -1) 1) (detection (-1, 0, 0, 1.2) 2) = Inr s'
         \<and> map cor_id (x_corridors s') = [num_vertices (graph four_walls_state)]
         \<and> length (vertices (graph s')) = 6) \<and>
   (\<exists>s'. factor_rooms default_structure_params four_walls_state
            [detection (1, 0, 0, -1) 1, detection (-1, 0, 0, 1.2) 2]
            [detection (0, 1, 0, -1) 3, detection (0, -1, 0, 1.3) 4] = Inr s'
         \<and> map room_id (rooms_vec s') = [num_vertices (graph four_walls_state)]
         \<and> length (vertices (graph s')) = 6)"
proof (intro conjI)
  from factor_planes_first_wall obtain s' where
    r: "factor_planes close_maha default_mapper_params first_keyframe_state X_VERT_PLANE
          (1, 0, 0, -1) (1, 0, 0, -1) = Inr (1, s')"
    and ids: "map vp_id (x_vert_planes s') = [1]" and len: "length (vertices (graph s')) = 2"
    by (elim exE conjE)
  have g: "vertices (graph first_keyframe_state) = [VertexSE3 Isometry_Identity]"
          "num_vertices_local (graph first_keyframe_state) = 1"
          "x_vert_planes first_keyframe_state = []" "y_vert_planes first_keyframe_state = []"
          "hort_planes first_keyframe_state = []"
    by (simp_all add: first_keyframe_state_def num_vertices_local_def)
  from landmark_id_is_vertex_count_snapshot
         [THEN conjunct1, rule_format, OF r]
  have "plane_ids s' = ([1], [], []) \<and> vertices (graph s') = [VertexSE3 Isometry_Identity, VertexPlane (1, 0, 0, -1)]"
    using ids len by (auto simp: g plane_ids_def Plane3D_axis_x)
  with r show "\<exists>s'. factor_planes close_maha default_mapper_params first_keyframe_state X_VERT_PLANE
            (1, 0, 0, -1) (1, 0, 0, -1) = Inr (1, s')
         \<and> plane_ids s' = ([num_vertices_local (graph first_keyframe_state)], [], [])
         \<and> vertices (graph s') = vertices (graph first_keyframe_state) @ [VertexPlane (1, 0, 0, -1)]"
    by (auto simp: g)
next
  show "\<exists>s'. factor_corridors default_structure_params four_walls_state X_VERT_PLANE
            (detection (1, 0, 0, -1) 1) (detection (-1, 0, 0, 1.2) 2) = Inr s'
         \<and> map cor_id (x_corridors s') = [num_vertices (graph four_walls_state)]
         \<and> length (vertices (graph s')) = 6"
    using factor_corridors_first_corridor
    by (simp add: num_vertices_def four_walls_state_def)
next
  show "\<exists>s'. factor_rooms default_structure_params four_walls_state
            [detection (1, 0, 0, -1) 1, detection (-1, 0, 0, 1.2) 2]
            [detection (0, 1, 0, -1) 3, detection (0, -1, 0, 1.3) 4] = Inr s'
         \<and> map room_id (rooms_vec s') = [num_vertices (graph four_walls_state)]
         \<and> length (vertices (graph s')) = 6"
    using factor_rooms_first_room
    by (simp add: num_vertices_def four_walls_state_def)
qed

section \<open>The auxiliary queues\<close>

text \<open>
  The search for the closest measurement stays inside the queue; what the loop over the
  keyframes does to its state, it does through the loop body, with a measurement of the
  queue that is within 0.2 s of the keyframe.
\<close>

lemma closest_in_queue_bound:
  "ci < n \<Longrightarrow> i + length gs = n \<Longrightarrow> closest_in_queue t gs i (c, ci) < n"
  by (induction gs arbitrary: i c ci) auto

lemma closest_in_queue_drop:
  assumes "cursor < length stamps"
  shows "closest_in_queue t (drop cursor stamps) cursor (stamps ! cursor, cursor) < length stamps"
  using assms by (intro closest_in_queue_bound) auto

lemma match_keyframes_invariant:
  assumes "match_keyframes stamps stamp_of has attach kfs cursor u s = Inr (ks, u', s', ret)"
    and "cursor < length stamps"
    and "Inv s"
    and "\<And>c kf s kf1 s1. c < length stamps \<Longrightarrow> kf \<in> set kfs \<Longrightarrow>
           \<bar>stamps ! c - stamp_of kf\<bar> \<le> 0.2 \<Longrightarrow> Inv s \<Longrightarrow>
           attach c kf s = Inr (Some (kf1, s1)) \<Longrightarrow> Inv s1"
  shows "Inv s'"
  using assms
proof (induction kfs arbitrary: cursor u s ks)
  case Nil
  then show ?case by simp
next
  case (Cons kf rest)
  let ?closest = "closest_in_queue (stamp_of kf) (drop cursor stamps) cursor (stamps ! cursor, cursor)"
  have cl: "?closest < length stamps"
    using Cons.prems(2) by (rule closest_in_queue_drop)
  have step: "\<And>c kf s kf1 s1. c < length stamps \<Longrightarrow> kf \<in> set rest \<Longrightarrow>
           \<bar>stamps ! c - stamp_of kf\<bar> \<le> 0.2 \<Longrightarrow> Inv s \<Longrightarrow>
           attach c kf s = Inr (Some (kf1, s1)) \<Longrightarrow> Inv s1"
    using Cons.prems(4) by (meson list.set_intros(2))
  show ?case
  proof (cases "stamp_of kf > last stamps")
    case True
    then show ?thesis using Cons.prems(1,3) by simp
  next
    case notbreak: False
    show ?thesis
    proof (cases "stamp_of kf < stamps ! cursor \<or> has kf")
      case True
      then obtain ks0 where "match_keyframes stamps stamp_of has attach rest cursor u s = Inr (ks0, u', s', ret)"
        using Cons.prems(1) notbreak by (auto split: sum.splits)
      then show ?thesis using Cons.IH Cons.prems(2,3) step by blast
    next
      case nocont: False
      show ?thesis
      proof (cases "0.2 < \<bar>stamps ! ?closest - stamp_of kf\<bar>")
        case True
        then obtain ks0 where "match_keyframes stamps stamp_of has attach rest ?closest u s = Inr (ks0, u', s', ret)"
          using Cons.prems(1) notbreak nocont by (auto simp: Let_def split: sum.splits)
        then show ?thesis using Cons.IH cl Cons.prems(3) step by blast
      next
        case inwin: False
        show ?thesis
        proof (cases "attach ?closest kf s")
          case (Inl e)
          then show ?thesis using Cons.prems(1) notbreak nocont inwin by (simp add: Let_def)
        next
          case (Inr r)
          show ?thesis
          proof (cases r)
            case None
            then show ?thesis using Cons.prems(1,3) Inr notbreak nocont inwin by (simp add: Let_def)
          next
            case (Some p)
            obtain kf1 s1 where p: "p = (kf1, s1)" by (cases p)
            have a: "attach ?closest kf s = Inr (Some (kf1, s1))" using Inr Some p by simp
            have inv1: "Inv s1"
              using Cons.prems(4)[OF cl _ _ Cons.prems(3) a] inwin by simp
            obtain ks0 where "match_keyframes stamps stamp_of has attach rest ?closest True s1 = Inr (ks0, u', s', ret)"
              using Cons.prems(1) notbreak nocont inwin a by (auto simp: Let_def split: sum.splits)
            then show ?thesis using Cons.IH cl inv1 step by blast
          qed
        qed
      qed
    qed
  qed
qed

lemma match_keyframes_stamps:
  assumes "match_keyframes stamps stamp_of has attach kfs cursor u s = Inr (ks, r)"
    and "\<And>c kf s kf1 s1. attach c kf s = Inr (Some (kf1, s1)) \<Longrightarrow> stamp_of kf1 = stamp_of kf"
  shows "map stamp_of ks = map stamp_of kfs"
  using assms(1)
proof (induction kfs arbitrary: cursor u s ks r)
  case Nil
  then show ?case by auto
next
  case (Cons kf rest)
  show ?case
    using Cons.prems Cons.IH assms(2)
    by (auto simp: Let_def split: if_splits sum.splits option.splits prod.splits)
qed

lemma match_keyframes_not_returned:
  assumes "match_keyframes stamps stamp_of has attach kfs cursor u s = Inr (ks, u', s', ret)"
    and "cursor < length stamps"
    and "\<And>c kf s. c < length stamps \<Longrightarrow> attach c kf s \<noteq> Inr None"
  shows "\<not> ret"
  using assms(1,2)
proof (induction kfs arbitrary: cursor u s ks)
  case Nil
  then show ?case by auto
next
  case (Cons kf rest)
  let ?closest = "closest_in_queue (stamp_of kf) (drop cursor stamps) cursor (stamps ! cursor, cursor)"
  have cl: "?closest < length stamps"
    using Cons.prems(2) by (rule closest_in_queue_drop)
  have a: "attach ?closest kf s \<noteq> Inr None" using assms(3)[OF cl] .
  show ?case
    using Cons.prems(1) Cons.IH[OF _ Cons.prems(2)] Cons.IH[OF _ cl] a
    by (auto simp: Let_def split: if_splits sum.splits option.splits prod.splits)
qed

text \<open>On a queue in time order, the binary search finds the first stamp after \<open>v\<close>.\<close>

lemma upper_bound_from_sorted:
  "sorted xs \<Longrightarrow> first + len \<le> length xs \<Longrightarrow> (\<forall>i<first. xs ! i \<le> v) \<Longrightarrow>
   (\<forall>i. first + len \<le> i \<longrightarrow> i < length xs \<longrightarrow> v < xs ! i) \<Longrightarrow>
   upper_bound_from xs v first len \<le> length xs \<and>
   (\<forall>i<upper_bound_from xs v first len. xs ! i \<le> v) \<and>
   (\<forall>i. upper_bound_from xs v first len \<le> i \<longrightarrow> i < length xs \<longrightarrow> v < xs ! i)"
proof (induction xs v first len rule: upper_bound_from.induct)
  case (1 xs v first len)
  show ?case
  proof (cases "0 < len")
    case False
    then show ?thesis using "1.prems" by (simp add: upper_bound_from.simps)
  next
    case pos: True
    let ?half = "len div 2"
    let ?middle = "first + ?half"
    have mid: "?middle < length xs" using pos "1.prems"(2) by (simp add: less_le_trans)
    show ?thesis
    proof (cases "v < xs ! ?middle")
      case True
      have a: "first + ?half \<le> length xs" using mid by simp
      have b: "\<forall>i. first + ?half \<le> i \<longrightarrow> i < length xs \<longrightarrow> v < xs ! i"
      proof (intro allI impI)
        fix i assume "first + ?half \<le> i" "i < length xs"
        then have "xs ! ?middle \<le> xs ! i" using "1.prems"(1) by (simp add: sorted_nth_mono)
        then show "v < xs ! i" using True by simp
      qed
      have eq: "upper_bound_from xs v first len = upper_bound_from xs v first ?half"
        using pos True by (subst upper_bound_from.simps) (simp add: Let_def)
      show ?thesis
        unfolding eq
        using "1.IH"(1)[OF pos refl refl True "1.prems"(1) a "1.prems"(3) b] .
    next
      case False
      have a: "(?middle + 1) + (len - ?half - 1) \<le> length xs" using pos "1.prems"(2) by simp
      have b: "\<forall>i<?middle + 1. xs ! i \<le> v"
      proof (intro allI impI)
        fix i assume "i < ?middle + 1"
        then have "xs ! i \<le> xs ! ?middle" using "1.prems"(1) mid by (simp add: sorted_nth_mono)
        then show "xs ! i \<le> v" using False by simp
      qed
      have c: "\<forall>i. (?middle + 1) + (len - ?half - 1) \<le> i \<longrightarrow> i < length xs \<longrightarrow> v < xs ! i"
        using "1.prems"(4) pos by auto
      have eq: "upper_bound_from xs v first len = upper_bound_from xs v (?middle + 1) (len - ?half - 1)"
        using pos False by (subst upper_bound_from.simps) (simp add: Let_def)
      show ?thesis
        unfolding eq
        using "1.IH"(2)[OF pos refl refl False "1.prems"(1) a b c] .
    qed
  qed
qed

lemma drop_upper_bound:
  assumes "sorted (map f q)"
  shows "drop (upper_bound (map f q) v) q = filter (\<lambda>m. v < f m) q"
proof -
  let ?r = "upper_bound (map f q) v"
  have ub: "?r \<le> length (map f q) \<and> (\<forall>i<?r. map f q ! i \<le> v) \<and>
            (\<forall>i. ?r \<le> i \<longrightarrow> i < length (map f q) \<longrightarrow> v < map f q ! i)"
    unfolding upper_bound_def using assms by (intro upper_bound_from_sorted) auto
  have le: "?r \<le> length q" using ub by simp
  have lo: "\<forall>m\<in>set (take ?r q). \<not> v < f m"
  proof
    fix m assume "m \<in> set (take ?r q)"
    then obtain i where "i < ?r" "i < length q" "m = q ! i"
      by (auto simp: in_set_conv_nth)
    then show "\<not> v < f m" using ub by (auto simp: not_less)
  qed
  have hi: "\<forall>m\<in>set (drop ?r q). v < f m"
  proof
    fix m assume "m \<in> set (drop ?r q)"
    then obtain i where "i < length q - ?r" "m = q ! (?r + i)"
      by (auto simp: in_set_conv_nth)
    then show "v < f m" using ub by auto
  qed
  have "filter (\<lambda>m. v < f m) q = filter (\<lambda>m. v < f m) (take ?r q) @ filter (\<lambda>m. v < f m) (drop ?r q)"
    by (metis append_take_drop_id filter_append)
  also have "filter (\<lambda>m. v < f m) (take ?r q) = []" using lo by (simp add: filter_empty_conv)
  also have "filter (\<lambda>m. v < f m) (drop ?r q) = drop ?r q" using hi by (simp add: filter_id_conv)
  finally show ?thesis by simp
qed

lemma match_keyframes_returns:
  assumes "\<And>c kf s. kf \<in> set kfs \<Longrightarrow> \<exists>r. attach c kf s = Inr r"
  shows "\<exists>r. match_keyframes stamps stamp_of has attach kfs cursor u s = Inr r"
  using assms
proof (induction kfs arbitrary: cursor u s)
  case Nil
  show ?case by (simp del: ex_simps) blast
next
  case (Cons kf rest)
  have ih: "\<And>cursor u s. \<exists>r. match_keyframes stamps stamp_of has attach rest cursor u s = Inr r"
    using Cons.IH Cons.prems by (meson list.set_intros(2))
  let ?closest = "closest_in_queue (stamp_of kf) (drop cursor stamps) cursor (stamps ! cursor, cursor)"
  obtain r where r: "attach ?closest kf s = Inr r" using Cons.prems by (meson list.set_intros(1))
  obtain r1 where r1: "match_keyframes stamps stamp_of has attach rest cursor u s = Inr r1" using ih by blast
  obtain r2 where r2: "match_keyframes stamps stamp_of has attach rest ?closest u s = Inr r2" using ih by blast
  show ?case
  proof (cases r)
    case None
    then show ?thesis using r r1 r2 by (auto simp: Let_def split: prod.splits)
  next
    case (Some p)
    obtain kf1 s1 where p: "p = (kf1, s1)" by (cases p)
    obtain r3 where r3: "match_keyframes stamps stamp_of has attach rest ?closest True s1 = Inr r3" using ih by blast
    show ?thesis using r r1 r2 r3 Some p by (auto simp: Let_def split: prod.splits)
  qed
qed

lemma add_edge_kernel_edges:
  "edges (add_robust_kernel (snd (add_edge g k vs m i)) (fst (add_edge g k vs m i)) kn ks)
     = edges g @ [\<lparr>edge_kind = k, edge_vertices = vs, measurement = m, information = i,
                    robust_kernel = kernel_of kn ks\<rparr>]"
  by (simp add: add_edge_def add_robust_kernel_def kernel_of_def)

lemma gps_attach_Some:
  assumes "gps_attach C P q c kf (z, g) = Inr (Some (kf1, z1, g1))"
  shows "z1 = Some (case z of None \<Rightarrow> fromMsg C (gps_position (q ! c)) | Some v \<Rightarrow> v)
       \<and> edges g1 = edges g @ [gps_factor C P (the z1) kf (q ! c)]
       \<and> stamp kf1 = stamp kf"
  using assms
  by (auto simp: gps_attach_def gps_factor_def Let_def add_edge_kernel_edges split: option.splits)

lemma gps_attach_not_None: "gps_attach C P q c kf zg \<noteq> Inr None"
  by (simp add: gps_attach_def Let_def split: option.splits)

lemma gps_attach_returns: "node kf \<noteq> None \<Longrightarrow> \<exists>r. gps_attach C P q c kf zg = Inr r"
  by (auto simp: gps_attach_def Let_def split: option.splits)

lemma imu_attach_Some:
  assumes "imu_attach C P base q c kf g = Inr (Some (kf1, g1))"
  shows "edges g1 = edges g @ imu_factors C P base kf (q ! c) \<and> stamp kf1 = stamp kf"
  using assms
  by (auto simp: imu_attach_def imu_factors_def Let_def add_edge_kernel_edges
           split: option.splits prod.splits if_splits)

lemma imu_attach_returns: "node kf \<noteq> None \<Longrightarrow> \<exists>r. imu_attach C P base q c kf g = Inr r"
  by (auto simp: imu_attach_def Let_def split: option.splits prod.splits)

lemma imu_attach_not_None:
  "transform_imu C base (q ! c) \<noteq> None \<Longrightarrow> imu_attach C P base q c kf g \<noteq> Inr None"
  by (auto simp: imu_attach_def Let_def split: option.splits prod.splits)

lemma flush_gps_queue_cases:
  assumes "flush_gps_queue C P s = Inr (u, s')"
  shows "(keyframes s = [] \<or> gps_queue s = []) \<and> s' = s \<and> \<not> u
       \<or> (keyframes s \<noteq> [] \<and> gps_queue s \<noteq> [] \<and>
          (\<exists>ks zg ret.
             match_keyframes (map gps_stamp (gps_queue s)) stamp (\<lambda>k. utm_coord k \<noteq> None)
               (gps_attach C P (gps_queue s)) (keyframes s) 0 False (zero_utm s, graph s)
               = Inr (ks, u, zg, ret)
           \<and> s' = s\<lparr>graph := snd zg, keyframes := ks, zero_utm := fst zg,
                     gps_queue := drop (upper_bound (map gps_stamp (gps_queue s)) (stamp (last ks)))
                                    (gps_queue s)\<rparr>))"
  using assms
  by (auto simp: flush_gps_queue_def Let_def split: if_splits sum.splits prod.splits)

lemma flush_imu_queue_cases:
  assumes "flush_imu_queue C P s = Inr (u, s')"
  shows "(keyframes s = [] \<or> imu_queue s = [] \<or> base_frame_id s = []) \<and> s' = s \<and> \<not> u
       \<or> (keyframes s \<noteq> [] \<and> imu_queue s \<noteq> [] \<and> base_frame_id s \<noteq> [] \<and>
          (\<exists>ks u0 g ret.
             match_keyframes (map imu_stamp (imu_queue s)) stamp (\<lambda>k. acceleration k \<noteq> None)
               (imu_attach C P (base_frame_id s) (imu_queue s)) (keyframes s) 0 False (graph s)
               = Inr (ks, u0, g, ret)
           \<and> (if ret then s' = s\<lparr>graph := g, keyframes := ks\<rparr>
               else s' = s\<lparr>graph := g, keyframes := ks,
                     imu_queue := drop (upper_bound (map imu_stamp (imu_queue s)) (stamp (last ks)))
                                    (imu_queue s)\<rparr>)))"
  using assms
  by (auto simp: flush_imu_queue_def Let_def split: if_splits sum.splits prod.splits)

lemma last_stamp_eq:
  assumes "map stamp ks = map stamp kfs" and "kfs \<noteq> []"
  shows "stamp (last ks) = stamp (last kfs)"
proof -
  have "ks \<noteq> []" using assms by auto
  then have "stamp (last ks) = last (map stamp ks)" by (simp add: last_map)
  also have "\<dots> = last (map stamp kfs)" using assms(1) by simp
  also have "\<dots> = stamp (last kfs)" using assms(2) by (simp add: last_map)
  finally show ?thesis .
qed

lemma flush_gps_queue_queue:
  assumes "keyframes s \<noteq> []" and "flush_gps_queue C P s = Inr (u, s')"
    and "sorted (map gps_stamp (gps_queue s))"
  shows "gps_queue s' = filter (\<lambda>m. stamp (last (keyframes s)) < gps_stamp m) (gps_queue s)"
proof (cases "gps_queue s = []")
  case True
  then show ?thesis using flush_gps_queue_cases[OF assms(2)] by auto
next
  case False
  then obtain ks zg ret where
    mk: "match_keyframes (map gps_stamp (gps_queue s)) stamp (\<lambda>k. utm_coord k \<noteq> None)
           (gps_attach C P (gps_queue s)) (keyframes s) 0 False (zero_utm s, graph s)
           = Inr (ks, u, zg, ret)"
    and s': "s' = s\<lparr>graph := snd zg, keyframes := ks, zero_utm := fst zg,
                     gps_queue := drop (upper_bound (map gps_stamp (gps_queue s)) (stamp (last ks)))
                                    (gps_queue s)\<rparr>"
    using flush_gps_queue_cases[OF assms(2)] assms(1) by auto
  have "map stamp ks = map stamp (keyframes s)"
    using mk
  proof (rule match_keyframes_stamps)
    fix c kf st kf1 st1
    assume "gps_attach C P (gps_queue s) c kf st = Inr (Some (kf1, st1))"
    then show "stamp kf1 = stamp kf"
      using gps_attach_Some[of C P "gps_queue s" c kf "fst st" "snd st" kf1 "fst st1" "snd st1"] by simp
  qed
  then have "stamp (last ks) = stamp (last (keyframes s))"
    using assms(1) by (rule last_stamp_eq)
  then show ?thesis
    using s' drop_upper_bound[OF assms(3)] by simp
qed

lemma flush_imu_queue_queue:
  assumes "keyframes s \<noteq> []" and "flush_imu_queue C P s = Inr (u, s')"
    and "sorted (map imu_stamp (imu_queue s))"
    and "base_frame_id s \<noteq> []"
    and "\<forall>m\<in>set (imu_queue s). transform_imu C (base_frame_id s) m \<noteq> None"
  shows "imu_queue s' = filter (\<lambda>m. stamp (last (keyframes s)) < imu_stamp m) (imu_queue s)"
proof (cases "imu_queue s = []")
  case True
  then show ?thesis using flush_imu_queue_cases[OF assms(2)] by auto
next
  case False
  then obtain ks u0 g ret where
    mk: "match_keyframes (map imu_stamp (imu_queue s)) stamp (\<lambda>k. acceleration k \<noteq> None)
           (imu_attach C P (base_frame_id s) (imu_queue s)) (keyframes s) 0 False (graph s)
           = Inr (ks, u0, g, ret)"
    and s': "if ret then s' = s\<lparr>graph := g, keyframes := ks\<rparr>
             else s' = s\<lparr>graph := g, keyframes := ks,
                     imu_queue := drop (upper_bound (map imu_stamp (imu_queue s)) (stamp (last ks)))
                                    (imu_queue s)\<rparr>"
    using flush_imu_queue_cases[OF assms(2)] assms(1,4) by auto
  have nr: "\<not> ret"
    using mk
  proof (rule match_keyframes_not_returned)
    show "0 < length (map imu_stamp (imu_queue s))" using False by simp
  next
    fix c kf st
    assume "c < length (map imu_stamp (imu_queue s))"
    then have "transform_imu C (base_frame_id s) (imu_queue s ! c) \<noteq> None"
      using assms(5) by simp
    then show "imu_attach C P (base_frame_id s) (imu_queue s) c kf st \<noteq> Inr None"
      by (rule imu_attach_not_None)
  qed
  have "map stamp ks = map stamp (keyframes s)"
    using mk
  proof (rule match_keyframes_stamps)
    fix c kf st kf1 st1
    assume "imu_attach C P (base_frame_id s) (imu_queue s) c kf st = Inr (Some (kf1, st1))"
    then show "stamp kf1 = stamp kf"
      using imu_attach_Some by blast
  qed
  then have "stamp (last ks) = stamp (last (keyframes s))"
    using assms(1) by (rule last_stamp_eq)
  then show ?thesis
    using s' nr drop_upper_bound[OF assms(3)] by simp
qed

lemma flush_gps_queue_edges:
  assumes "flush_gps_queue C P s = Inr (u, s')"
  shows "\<exists>new. edges (graph s') = edges (graph s) @ new \<and>
           (\<forall>e\<in>set new. \<exists>kf\<in>set (keyframes s). \<exists>m\<in>set (gps_queue s).
              \<bar>gps_stamp m - stamp kf\<bar> \<le> 0.2 \<and> e = gps_factor C P (the (zero_utm s')) kf m)"
proof (cases "keyframes s = [] \<or> gps_queue s = []")
  case True
  then have "s' = s" using flush_gps_queue_cases[OF assms] by auto
  then show ?thesis by simp
next
  case False
  then obtain ks zg ret where
    mk: "match_keyframes (map gps_stamp (gps_queue s)) stamp (\<lambda>k. utm_coord k \<noteq> None)
           (gps_attach C P (gps_queue s)) (keyframes s) 0 False (zero_utm s, graph s)
           = Inr (ks, u, zg, ret)"
    and s': "s' = s\<lparr>graph := snd zg, keyframes := ks, zero_utm := fst zg,
                     gps_queue := drop (upper_bound (map gps_stamp (gps_queue s)) (stamp (last ks)))
                                    (gps_queue s)\<rparr>"
    using flush_gps_queue_cases[OF assms] by auto
  let ?Inv = "\<lambda>st. \<exists>new. edges (snd st) = edges (graph s) @ new \<and> (new \<noteq> [] \<longrightarrow> fst st \<noteq> None) \<and>
                (\<forall>e\<in>set new. \<exists>kf\<in>set (keyframes s). \<exists>m\<in>set (gps_queue s).
                   \<bar>gps_stamp m - stamp kf\<bar> \<le> 0.2 \<and> e = gps_factor C P (the (fst st)) kf m)"
  have "?Inv zg"
    using mk
  proof (rule match_keyframes_invariant)
    show "0 < length (map gps_stamp (gps_queue s))" using False by simp
  next
    show "?Inv (zero_utm s, graph s)" by simp
  next
    fix c kf st kf1 st1
    assume c: "c < length (map gps_stamp (gps_queue s))"
      and kf: "kf \<in> set (keyframes s)"
      and w: "\<bar>map gps_stamp (gps_queue s) ! c - stamp kf\<bar> \<le> 2 / 10"
      and inv: "?Inv st"
      and a: "gps_attach C P (gps_queue s) c kf st = Inr (Some (kf1, st1))"
    obtain new where n1: "edges (snd st) = edges (graph s) @ new"
      and n2: "new \<noteq> [] \<longrightarrow> fst st \<noteq> None"
      and n3: "\<forall>e\<in>set new. \<exists>kf\<in>set (keyframes s). \<exists>m\<in>set (gps_queue s).
                   \<bar>gps_stamp m - stamp kf\<bar> \<le> 0.2 \<and> e = gps_factor C P (the (fst st)) kf m"
      using inv by blast
    have at: "fst st1 = Some (case fst st of None \<Rightarrow> fromMsg C (gps_position (gps_queue s ! c)) | Some v \<Rightarrow> v)
              \<and> edges (snd st1) = edges (snd st) @ [gps_factor C P (the (fst st1)) kf (gps_queue s ! c)]"
      using gps_attach_Some[of C P "gps_queue s" c kf "fst st" "snd st" kf1 "fst st1" "snd st1"] a by simp
    have same: "new \<noteq> [] \<Longrightarrow> the (fst st1) = the (fst st)"
      using n2 at by auto
    have m: "gps_queue s ! c \<in> set (gps_queue s)" using c by simp
    have w': "\<bar>gps_stamp (gps_queue s ! c) - stamp kf\<bar> \<le> 0.2" using w c by simp
    have old: "\<forall>e\<in>set new. \<exists>kf\<in>set (keyframes s). \<exists>m\<in>set (gps_queue s).
                   \<bar>gps_stamp m - stamp kf\<bar> \<le> 0.2 \<and> e = gps_factor C P (the (fst st1)) kf m"
    proof
      fix e assume e: "e \<in> set new"
      then have "new \<noteq> []" by auto
      then have "the (fst st1) = the (fst st)" by (rule same)
      then show "\<exists>kf\<in>set (keyframes s). \<exists>m\<in>set (gps_queue s).
                   \<bar>gps_stamp m - stamp kf\<bar> \<le> 0.2 \<and> e = gps_factor C P (the (fst st1)) kf m"
        using n3 e by simp
    qed
    have new1: "\<forall>e\<in>set (new @ [gps_factor C P (the (fst st1)) kf (gps_queue s ! c)]).
                  \<exists>kf\<in>set (keyframes s). \<exists>m\<in>set (gps_queue s).
                   \<bar>gps_stamp m - stamp kf\<bar> \<le> 0.2 \<and> e = gps_factor C P (the (fst st1)) kf m"
      using old kf m w' by auto
    have "edges (snd st1) = edges (graph s) @ (new @ [gps_factor C P (the (fst st1)) kf (gps_queue s ! c)])"
      using at n1 by simp
    moreover have "fst st1 \<noteq> None" using at by simp
    ultimately show "?Inv st1" using new1 by blast
  qed
  then obtain new where e: "edges (snd zg) = edges (graph s) @ new"
    and f: "\<forall>e\<in>set new. \<exists>kf\<in>set (keyframes s). \<exists>m\<in>set (gps_queue s).
                   \<bar>gps_stamp m - stamp kf\<bar> \<le> 0.2 \<and> e = gps_factor C P (the (fst zg)) kf m"
    by blast
  have "graph s' = snd zg" "zero_utm s' = fst zg" using s' by simp_all
  then show ?thesis using e f by auto
qed

lemma flush_imu_queue_edges:
  assumes "flush_imu_queue C P s = Inr (u, s')"
  shows "\<exists>new. edges (graph s') = edges (graph s) @ new \<and>
           (\<forall>e\<in>set new. \<exists>kf\<in>set (keyframes s). \<exists>m\<in>set (imu_queue s).
              \<bar>imu_stamp m - stamp kf\<bar> \<le> 0.2 \<and> e \<in> set (imu_factors C P (base_frame_id s) kf m))"
proof (cases "keyframes s = [] \<or> imu_queue s = [] \<or> base_frame_id s = []")
  case True
  then have "s' = s" using flush_imu_queue_cases[OF assms] by auto
  then show ?thesis by simp
next
  case False
  then obtain ks u0 g ret where
    mk: "match_keyframes (map imu_stamp (imu_queue s)) stamp (\<lambda>k. acceleration k \<noteq> None)
           (imu_attach C P (base_frame_id s) (imu_queue s)) (keyframes s) 0 False (graph s)
           = Inr (ks, u0, g, ret)"
    and s': "graph s' = g"
    using flush_imu_queue_cases[OF assms] by (auto split: if_splits)
  let ?Inv = "\<lambda>st. \<exists>new. edges st = edges (graph s) @ new \<and>
                (\<forall>e\<in>set new. \<exists>kf\<in>set (keyframes s). \<exists>m\<in>set (imu_queue s).
                   \<bar>imu_stamp m - stamp kf\<bar> \<le> 0.2 \<and> e \<in> set (imu_factors C P (base_frame_id s) kf m))"
  have "?Inv g"
    using mk
  proof (rule match_keyframes_invariant)
    show "0 < length (map imu_stamp (imu_queue s))" using False by simp
  next
    show "?Inv (graph s)" by simp
  next
    fix c kf st kf1 st1
    assume c: "c < length (map imu_stamp (imu_queue s))"
      and kf: "kf \<in> set (keyframes s)"
      and w: "\<bar>map imu_stamp (imu_queue s) ! c - stamp kf\<bar> \<le> 2 / 10"
      and inv: "?Inv st"
      and a: "imu_attach C P (base_frame_id s) (imu_queue s) c kf st = Inr (Some (kf1, st1))"
    obtain new where n1: "edges st = edges (graph s) @ new"
      and n3: "\<forall>e\<in>set new. \<exists>kf\<in>set (keyframes s). \<exists>m\<in>set (imu_queue s).
                   \<bar>imu_stamp m - stamp kf\<bar> \<le> 0.2 \<and> e \<in> set (imu_factors C P (base_frame_id s) kf m)"
      using inv by blast
    have at: "edges st1 = edges st @ imu_factors C P (base_frame_id s) kf (imu_queue s ! c)"
      using imu_attach_Some[OF a] by simp
    have m: "imu_queue s ! c \<in> set (imu_queue s)" using c by simp
    have w': "\<bar>imu_stamp (imu_queue s ! c) - stamp kf\<bar> \<le> 0.2" using w c by simp
    have new1: "\<forall>e\<in>set (new @ imu_factors C P (base_frame_id s) kf (imu_queue s ! c)).
                  \<exists>kf\<in>set (keyframes s). \<exists>m\<in>set (imu_queue s).
                   \<bar>imu_stamp m - stamp kf\<bar> \<le> 0.2 \<and> e \<in> set (imu_factors C P (base_frame_id s) kf m)"
      using n3 kf m w' by auto
    have "edges st1 = edges (graph s) @ (new @ imu_factors C P (base_frame_id s) kf (imu_queue s ! c))"
      using at n1 by simp
    then show "?Inv st1" using new1 by blast
  qed
  then show ?thesis using s' by simp
qed

lemma flush_gps_queue_returns:
  assumes "\<forall>kf\<in>set (keyframes s). node kf \<noteq> None"
  shows "\<exists>u s'. flush_gps_queue C P s = Inr (u, s')"
proof -
  have "\<exists>r. match_keyframes (map gps_stamp (gps_queue s)) stamp (\<lambda>k. utm_coord k \<noteq> None)
           (gps_attach C P (gps_queue s)) (keyframes s) 0 False (zero_utm s, graph s) = Inr r"
    using assms by (intro match_keyframes_returns gps_attach_returns) simp
  then show ?thesis
    by (auto simp: flush_gps_queue_def Let_def split: prod.splits)
qed

lemma flush_imu_queue_returns:
  assumes "\<forall>kf\<in>set (keyframes s). node kf \<noteq> None"
  shows "\<exists>u s'. flush_imu_queue C P s = Inr (u, s')"
proof -
  have "\<exists>r. match_keyframes (map imu_stamp (imu_queue s)) stamp (\<lambda>k. acceleration k \<noteq> None)
           (imu_attach C P (base_frame_id s) (imu_queue s)) (keyframes s) 0 False (graph s) = Inr r"
    using assms by (intro match_keyframes_returns imu_attach_returns) simp
  then show ?thesis
    by (auto simp: flush_imu_queue_def Let_def split: prod.splits)
qed

lemma new_edges_append: "edges g' = edges g @ new \<Longrightarrow> new_edges g g' = new"
  by (simp add: new_edges_def)

text \<open>
  Claim C6, as amended. Let there be a committed keyframe. A flush whose keyframes all have
  their pose vertex returns. After \<open>flush_gps_queue\<close> on a queue in time order, the queue
  holds exactly the fixes stamped after the latest keyframe; the same holds after
  \<open>flush_imu_queue\<close> when the base frame is known and the transformation of no queued
  message throws. The flush only appends edges to the graph, and every edge it appends is
  the prior factor of a keyframe for a queued measurement within 0.2 s of that keyframe:
  a measurement farther than 0.2 s from every keyframe gets no factor. A measurement
  stamped after the latest keyframe is not excluded: it gets a factor when it is the one
  closest to a keyframe and within the window.
\<close>

theorem auxiliary_queue_draining:
  assumes "keyframes s \<noteq> []"
  shows "((\<forall>kf\<in>set (keyframes s). node kf \<noteq> None) \<longrightarrow>
            (\<exists>u s'. flush_gps_queue C P s = Inr (u, s')) \<and> (\<exists>u s'. flush_imu_queue C P s = Inr (u, s')))
       \<and> (flush_gps_queue C P s = Inr (u, s') \<longrightarrow>
            (sorted (map gps_stamp (gps_queue s)) \<longrightarrow>
               gps_queue s' = filter (\<lambda>m. stamp (last (keyframes s)) < gps_stamp m) (gps_queue s))
          \<and> edges (graph s') = edges (graph s) @ new_edges (graph s) (graph s')
          \<and> (\<forall>e\<in>set (new_edges (graph s) (graph s')).
                \<exists>kf\<in>set (keyframes s). \<exists>m\<in>set (gps_queue s).
                  \<bar>gps_stamp m - stamp kf\<bar> \<le> 0.2 \<and> e = gps_factor C P (the (zero_utm s')) kf m))
       \<and> (flush_imu_queue C P s = Inr (u, s') \<longrightarrow>
            (sorted (map imu_stamp (imu_queue s)) \<and> base_frame_id s \<noteq> [] \<and>
             (\<forall>m\<in>set (imu_queue s). transform_imu C (base_frame_id s) m \<noteq> None) \<longrightarrow>
               imu_queue s' = filter (\<lambda>m. stamp (last (keyframes s)) < imu_stamp m) (imu_queue s))
          \<and> edges (graph s') = edges (graph s) @ new_edges (graph s) (graph s')
          \<and> (\<forall>e\<in>set (new_edges (graph s) (graph s')).
                \<exists>kf\<in>set (keyframes s). \<exists>m\<in>set (imu_queue s).
                  \<bar>imu_stamp m - stamp kf\<bar> \<le> 0.2 \<and> e \<in> set (imu_factors C P (base_frame_id s) kf m)))"
proof (intro conjI impI)
  assume "\<forall>kf\<in>set (keyframes s). node kf \<noteq> None"
  then show "\<exists>u s'. flush_gps_queue C P s = Inr (u, s')" by (rule flush_gps_queue_returns)
next
  assume "\<forall>kf\<in>set (keyframes s). node kf \<noteq> None"
  then show "\<exists>u s'. flush_imu_queue C P s = Inr (u, s')" by (rule flush_imu_queue_returns)
next
  assume "flush_gps_queue C P s = Inr (u, s')" and "sorted (map gps_stamp (gps_queue s))"
  then show "gps_queue s' = filter (\<lambda>m. stamp (last (keyframes s)) < gps_stamp m) (gps_queue s)"
    using assms flush_gps_queue_queue by blast
next
  assume f: "flush_gps_queue C P s = Inr (u, s')"
  show "edges (graph s') = edges (graph s) @ new_edges (graph s) (graph s')"
    using flush_gps_queue_edges[OF f] new_edges_append by fastforce
next
  assume f: "flush_gps_queue C P s = Inr (u, s')"
  show "\<forall>e\<in>set (new_edges (graph s) (graph s')).
          \<exists>kf\<in>set (keyframes s). \<exists>m\<in>set (gps_queue s).
            \<bar>gps_stamp m - stamp kf\<bar> \<le> 0.2 \<and> e = gps_factor C P (the (zero_utm s')) kf m"
    using flush_gps_queue_edges[OF f] new_edges_append by fastforce
next
  assume "flush_imu_queue C P s = Inr (u, s')"
    and "sorted (map imu_stamp (imu_queue s)) \<and> base_frame_id s \<noteq> [] \<and>
         (\<forall>m\<in>set (imu_queue s). transform_imu C (base_frame_id s) m \<noteq> None)"
  then show "imu_queue s' = filter (\<lambda>m. stamp (last (keyframes s)) < imu_stamp m) (imu_queue s)"
    using assms flush_imu_queue_queue by blast
next
  assume f: "flush_imu_queue C P s = Inr (u, s')"
  show "edges (graph s') = edges (graph s) @ new_edges (graph s) (graph s')"
    using flush_imu_queue_edges[OF f] new_edges_append by fastforce
next
  assume f: "flush_imu_queue C P s = Inr (u, s')"
  show "\<forall>e\<in>set (new_edges (graph s) (graph s')).
          \<exists>kf\<in>set (keyframes s). \<exists>m\<in>set (imu_queue s).
            \<bar>imu_stamp m - stamp kf\<bar> \<le> 0.2 \<and> e \<in> set (imu_factors C P (base_frame_id s) kf m)"
    using flush_imu_queue_edges[OF f] new_edges_append by fastforce
qed

text \<open>
  With a keyframe at 10 s and measurements at 9 s and 10.1 s, both flushes return and
  leave the measurement at 10.1 s in the queue.
\<close>

theorem auxiliary_queue_draining_witness:
  "(\<exists>u s'. flush_gps_queue (example_collaborators :: fusion_state collaborators) imu_fusion_params
              one_keyframe_state = Inr (u, s')
          \<and> gps_queue s' = [fix_at 10.1 (2, 2, Some 2)])
 \<and> (\<exists>u s'. flush_imu_queue (example_collaborators :: fusion_state collaborators) imu_fusion_params
              one_keyframe_state = Inr (u, s')
          \<and> imu_queue s' = [imu_at 10.1 (0, 0, 10)])"
proof -
  let ?C = "example_collaborators :: fusion_state collaborators"
  let ?P = imu_fusion_params
  let ?s = one_keyframe_state
  have k: "keyframes ?s \<noteq> []" by (simp add: one_keyframe_state_def)
  have n: "\<forall>kf\<in>set (keyframes ?s). node kf \<noteq> None"
    by (simp add: one_keyframe_state_def keyframe_at_def)
  have l: "stamp (last (keyframes ?s)) = 10" by (simp add: one_keyframe_state_def keyframe_at_def)
  have sg: "sorted (map gps_stamp (gps_queue ?s))" by (simp add: one_keyframe_state_def fix_at_def)
  have si: "sorted (map imu_stamp (imu_queue ?s)) \<and> base_frame_id ?s \<noteq> [] \<and>
            (\<forall>m\<in>set (imu_queue ?s). transform_imu ?C (base_frame_id ?s) m \<noteq> None)"
    by (simp add: one_keyframe_state_def imu_at_def example_collaborators_def)
  have fg: "filter (\<lambda>m. 10 < gps_stamp m) (gps_queue ?s) = [fix_at 10.1 (2, 2, Some 2)]"
    by (simp add: one_keyframe_state_def fix_at_def)
  have fi: "filter (\<lambda>m. 10 < imu_stamp m) (imu_queue ?s) = [imu_at 10.1 (0, 0, 10)]"
    by (simp add: one_keyframe_state_def imu_at_def)
  obtain u1 s1 where g: "flush_gps_queue ?C ?P ?s = Inr (u1, s1)"
    using auxiliary_queue_draining[OF k, of ?C ?P] n by blast
  obtain u2 s2 where i: "flush_imu_queue ?C ?P ?s = Inr (u2, s2)"
    using auxiliary_queue_draining[OF k, of ?C ?P] n by blast
  have "gps_queue s1 = [fix_at 10.1 (2, 2, Some 2)]"
    using auxiliary_queue_draining[OF k, of ?C ?P u1 s1] g sg l fg by simp
  moreover have "imu_queue s2 = [imu_at 10.1 (0, 0, 10)]"
    using auxiliary_queue_draining[OF k, of ?C ?P u2 s2] i si l fi by simp
  ultimately show ?thesis using g i by blast
qed

lemma upper_bound_example: "upper_bound [9, 101 / 10] 10 = 1"
  by (simp add: upper_bound_def upper_bound_from.simps)

text \<open>
  The claim as first stated does not hold: the fix at 10.1 s is stamped after the latest
  keyframe (10 s), it stays in the queue, and the flush adds a prior factor for it.
\<close>

theorem fix_after_latest_keyframe_gets_factor:
  "flush_gps_queue (example_collaborators :: fusion_state collaborators) default_fusion_params one_keyframe_state
     = Inr (True,
            one_keyframe_state
              \<lparr>graph := (graph one_keyframe_state)
                  \<lparr>edges := [gps_factor (example_collaborators :: fusion_state collaborators)
                                default_fusion_params (0, 0, Some 0) (keyframe_at 10 0)
                                (fix_at 10.1 (2, 2, Some 2))],
                    edge_count := 1\<rparr>,
                keyframes := [(keyframe_at 10 0)\<lparr>utm_coord := Some (2, 2, Some 2)\<rparr>],
                gps_queue := [fix_at 10.1 (2, 2, Some 2)]\<rparr>)
   \<and> stamp (last (keyframes one_keyframe_state)) < gps_stamp (fix_at 10.1 (2, 2, Some 2))"
  by (simp add: flush_gps_queue_def one_keyframe_state_def keyframe_at_def fix_at_def
        gps_attach_def gps_factor_def example_collaborators_def default_fusion_params_def
        add_edge_def add_robust_kernel_def kernel_of_def upper_bound_example Let_def)

section \<open>The solver step and the plane covariances\<close>

lemma compute_plane_cov_events:
  "fst (compute_plane_cov C s) = (if plane_pairs C s = [] then [] else [ComputeLandmarkMarginals (plane_pairs C s)])"
  by (simp add: compute_plane_cov_def plane_pairs_def Let_def)

lemma compute_plane_cov_Some:
  assumes "compute_landmark_marginals C (graph s) (plane_pairs C s) = Some spinv"
  shows "map vp_covariance (x_vert_planes (snd (compute_plane_cov C s))) = map (block_or_identity C (graph s) spinv) (x_vert_planes s)"
    and "map vp_covariance (y_vert_planes (snd (compute_plane_cov C s))) = map (block_or_identity C (graph s) spinv) (y_vert_planes s)"
    and "map vp_covariance (hort_planes (snd (compute_plane_cov C s))) = map (block_or_identity C (graph s) spinv) (hort_planes s)"
  using assms
  by (auto simp: compute_plane_cov_def plane_pairs_def Let_def recover_covariance_def block_or_identity_def)

lemma compute_plane_cov_None:
  assumes "compute_landmark_marginals C (graph s) (plane_pairs C s) = None"
  shows "snd (compute_plane_cov C s) = s"
  using assms
  by (auto simp: compute_plane_cov_def plane_pairs_def Let_def)

lemma optimize_graph_eq:
  assumes "optimize C (g2o_solver_num_iterations P) (graph s) = (n, g)"
  shows "optimize_graph C P s =
           (if 0 < n
            then (Optimize (g2o_solver_num_iterations P) # fst (compute_plane_cov C (s\<lparr>graph := g\<rparr>)),
                  snd (compute_plane_cov C (s\<lparr>graph := g\<rparr>)))
            else ([Optimize (g2o_solver_num_iterations P)], s\<lparr>graph := g\<rparr>))"
  using assms by (simp add: optimize_graph_def Let_def)

text \<open>
  Claim C5, as amended. In the callback, \<open>compute_plane_cov\<close> runs exactly when \<open>optimize\<close>
  returned more than 0 iterations, and it requests the marginals of the plane vertices
  when there is a plane landmark to ask for; when \<open>optimize\<close> returned 0 or less, the
  landmarks are left as they are. The covariances are recomputed only when the solver
  provides the marginals: then every plane landmark of the three collections gets as
  covariance the block recovered for its vertex, or the 3x3 identity when the Cholesky
  factorisation of that block reports a numerical issue. When \<open>compute_landmark_marginals\<close>
  returns \<open>false\<close>, the landmarks are left as they are, with the covariances of the
  earlier tick and no identity in their place.
\<close>

theorem plane_covariance_recomputation:
  assumes "optimize C (g2o_solver_num_iterations P) (graph s) = (n, g)"
  shows "fst (optimize_graph C P s) =
           Optimize (g2o_solver_num_iterations P)
           # (if 0 < n \<and> plane_pairs C (s\<lparr>graph := g\<rparr>) \<noteq> []
              then [ComputeLandmarkMarginals (plane_pairs C (s\<lparr>graph := g\<rparr>))] else [])
       \<and> (n \<le> 0 \<longrightarrow> snd (optimize_graph C P s) = s\<lparr>graph := g\<rparr>)
       \<and> (0 < n \<longrightarrow> compute_landmark_marginals C g (plane_pairs C (s\<lparr>graph := g\<rparr>)) = None \<longrightarrow>
            snd (optimize_graph C P s) = s\<lparr>graph := g\<rparr>)
       \<and> (0 < n \<longrightarrow> compute_landmark_marginals C g (plane_pairs C (s\<lparr>graph := g\<rparr>)) = Some spinv \<longrightarrow>
            map vp_covariance (x_vert_planes (snd (optimize_graph C P s)))
              = map (block_or_identity C g spinv) (x_vert_planes s)
          \<and> map vp_covariance (y_vert_planes (snd (optimize_graph C P s)))
              = map (block_or_identity C g spinv) (y_vert_planes s)
          \<and> map vp_covariance (hort_planes (snd (optimize_graph C P s)))
              = map (block_or_identity C g spinv) (hort_planes s))"
proof -
  let ?s1 = "s\<lparr>graph := g\<rparr>"
  have g: "graph ?s1 = g" by simp
  have a: "compute_landmark_marginals C g (plane_pairs C ?s1) = None \<Longrightarrow> snd (compute_plane_cov C ?s1) = ?s1"
    using compute_plane_cov_None[of C ?s1] by simp
  have b: "compute_landmark_marginals C g (plane_pairs C ?s1) = Some spinv \<Longrightarrow>
             map vp_covariance (x_vert_planes (snd (compute_plane_cov C ?s1))) = map (block_or_identity C g spinv) (x_vert_planes s)
           \<and> map vp_covariance (y_vert_planes (snd (compute_plane_cov C ?s1))) = map (block_or_identity C g spinv) (y_vert_planes s)
           \<and> map vp_covariance (hort_planes (snd (compute_plane_cov C ?s1))) = map (block_or_identity C g spinv) (hort_planes s)"
    using compute_plane_cov_Some[of C ?s1 spinv] by simp
  show ?thesis
    unfolding optimize_graph_eq[OF assms]
    using a b by (simp add: compute_plane_cov_events)
qed

text \<open>
  Four walls and a floor with the covariance \<open>3 I\<close>, a solver that does one iteration:
  the blocks of the first wall and of the floor are positive definite and are stored, the
  blocks of the other walls are indefinite and the identity is stored.
\<close>

theorem plane_covariance_recomputation_witness:
  "fst (optimize_graph (example_collaborators :: fusion_state collaborators) default_fusion_params four_walls_fusion_state)
     = [Optimize 1024, ComputeLandmarkMarginals [(1, 1), (2, 2), (3, 3), (4, 4), (5, 5)]]
   \<and> map vp_covariance (x_vert_planes (snd (optimize_graph (example_collaborators :: fusion_state collaborators)
                                               default_fusion_params four_walls_fusion_state)))
     = [((2, 0, 0), (0, 2, 0), (0, 0, 2)), Identity3]
   \<and> map vp_covariance (y_vert_planes (snd (optimize_graph (example_collaborators :: fusion_state collaborators)
                                               default_fusion_params four_walls_fusion_state)))
     = [Identity3, Identity3]
   \<and> map vp_covariance (hort_planes (snd (optimize_graph (example_collaborators :: fusion_state collaborators)
                                               default_fusion_params four_walls_fusion_state)))
     = [((2, 0, 0), (0, 2, 0), (0, 0, 2))]
   \<and> map vp_covariance (x_vert_planes four_walls_fusion_state @ y_vert_planes four_walls_fusion_state
                         @ hort_planes four_walls_fusion_state)
     = replicate 5 stale_covariance"
proof -
  let ?C = "example_collaborators :: fusion_state collaborators"
  let ?s = four_walls_fusion_state
  have o: "optimize ?C (g2o_solver_num_iterations default_fusion_params) (graph ?s) = (1, graph ?s)"
    by (simp add: example_collaborators_def)
  have same: "?s\<lparr>graph := graph ?s\<rparr> = ?s" by simp
  have pp: "plane_pairs ?C ?s = [(1, 1), (2, 2), (3, 3), (4, 4), (5, 5)]"
    by (simp add: plane_pairs_def plane_pair_def example_collaborators_def four_walls_fusion_state_def
          four_walls_state_def wall_def)
  have m: "compute_landmark_marginals ?C (graph ?s) (plane_pairs ?C ?s) = Some example_marginals"
    by (simp add: example_collaborators_def)
  have bx: "map (block_or_identity ?C (graph ?s) example_marginals) (x_vert_planes ?s)
              = [((2, 0, 0), (0, 2, 0), (0, 0, 2)), Identity3]"
    by (simp add: block_or_identity_def plane_pair_def example_collaborators_def example_marginals_def
          four_walls_fusion_state_def four_walls_state_def wall_def Let_def)
  have by': "map (block_or_identity ?C (graph ?s) example_marginals) (y_vert_planes ?s)
              = [Identity3, Identity3]"
    by (simp add: block_or_identity_def plane_pair_def example_collaborators_def example_marginals_def
          four_walls_fusion_state_def four_walls_state_def wall_def Let_def)
  have bh: "map (block_or_identity ?C (graph ?s) example_marginals) (hort_planes ?s)
              = [((2, 0, 0), (0, 2, 0), (0, 0, 2))]"
    by (simp add: block_or_identity_def plane_pair_def example_collaborators_def example_marginals_def
          four_walls_fusion_state_def wall_def Let_def)
  have st: "map vp_covariance (x_vert_planes ?s @ y_vert_planes ?s @ hort_planes ?s)
              = replicate 5 stale_covariance"
    by (simp add: four_walls_fusion_state_def four_walls_state_def wall_def numeral_eq_Suc)
  have it: "g2o_solver_num_iterations default_fusion_params = 1024"
    by (simp add: default_fusion_params_def)
  show ?thesis
    using plane_covariance_recomputation[OF o, of example_marginals]
    unfolding same pp
    using m bx by' bh it st by (simp add: pp)
qed

text \<open>
  The claim as first stated does not hold: here \<open>optimize\<close> returns 1, the marginals are
  requested, the solver cannot provide them, and all five landmarks keep the covariance
  \<open>3 I\<close> of the earlier tick; nothing is recomputed and no identity is stored.
\<close>

theorem optimize_succeeds_covariances_not_recomputed:
  "0 < fst (optimize (no_marginals_collaborators :: fusion_state collaborators)
              (g2o_solver_num_iterations default_fusion_params) (graph four_walls_fusion_state))
   \<and> optimize_graph (no_marginals_collaborators :: fusion_state collaborators) default_fusion_params
        four_walls_fusion_state
      = ([Optimize 1024, ComputeLandmarkMarginals [(1, 1), (2, 2), (3, 3), (4, 4), (5, 5)]],
         four_walls_fusion_state)
   \<and> map vp_covariance (x_vert_planes four_walls_fusion_state @ y_vert_planes four_walls_fusion_state
                         @ hort_planes four_walls_fusion_state)
      = replicate 5 stale_covariance
   \<and> stale_covariance \<noteq> Identity3"
proof -
  let ?C = "no_marginals_collaborators :: fusion_state collaborators"
  let ?s = four_walls_fusion_state
  have o: "optimize ?C (g2o_solver_num_iterations default_fusion_params) (graph ?s) = (1, graph ?s)"
    by (simp add: no_marginals_collaborators_def example_collaborators_def)
  have same: "?s\<lparr>graph := graph ?s\<rparr> = ?s" by simp
  have pp: "map (plane_pair ?C (graph ?s)) (x_vert_planes ?s) @ map (plane_pair ?C (graph ?s)) (y_vert_planes ?s)
              @ map (plane_pair ?C (graph ?s)) (hort_planes ?s) = [(1, 1), (2, 2), (3, 3), (4, 4), (5, 5)]"
    by (simp add: plane_pair_def no_marginals_collaborators_def example_collaborators_def
          four_walls_fusion_state_def four_walls_state_def wall_def)
  have m: "compute_landmark_marginals ?C (graph ?s) [(1, 1), (2, 2), (3, 3), (4, 4), (5, 5)] = None"
    by (simp add: no_marginals_collaborators_def example_collaborators_def)
  have c: "compute_plane_cov ?C ?s = ([ComputeLandmarkMarginals [(1, 1), (2, 2), (3, 3), (4, 4), (5, 5)]], ?s)"
    by (simp add: compute_plane_cov_def Let_def pp m)
  have it: "g2o_solver_num_iterations default_fusion_params = 1024"
    by (simp add: default_fusion_params_def)
  have og: "optimize_graph ?C default_fusion_params ?s
              = ([Optimize 1024, ComputeLandmarkMarginals [(1, 1), (2, 2), (3, 3), (4, 4), (5, 5)]], ?s)"
    by (simp add: optimize_graph_def Let_def o[unfolded it] same c it)
  have st: "map vp_covariance (x_vert_planes ?s @ y_vert_planes ?s @ hort_planes ?s)
              = replicate 5 stale_covariance"
    by (simp add: four_walls_fusion_state_def four_walls_state_def wall_def numeral_eq_Suc)
  have ne: "stale_covariance \<noteq> Identity3" by (simp add: stale_covariance_def Identity3_def)
  show ?thesis using o og st ne by simp
qed

section \<open>A tick with nothing to do\<close>

lemma flush_keyframe_queue_False:
  assumes "flush_keyframe_queue C P odom2map s = Inr (False, evs, s1)"
  shows "evs = [] \<and> s1 = s"
  using assms
  by (auto simp: flush_keyframe_queue_def Let_def split: if_splits sum.splits)

text \<open>
  Claim C8. When the keyframe flush and the four other flushes (floor, GPS, IMU, segmented
  clouds) all report no change, the callback returns the state that the flushes left and
  publishes nothing but the two \<open>read_until\<close> messages: the loop detector and the solver
  are not called (no \<open>Detect\<close>, no \<open>Optimize\<close> in the trace), no transform is published,
  and \<open>trans_odom2map\<close>, \<open>keyframes_snapshot\<close> and \<open>graph_updated\<close> are unchanged.
\<close>

theorem no_op_tick:
  assumes "flush_keyframe_queue C P (trans_odom2map pub) s = Inr (False, evs, s1)"
    and "flush_floor_queue C s1 = (False, s2)"
    and "flush_gps_queue C P s2 = Inr (False, s3)"
    and "flush_imu_queue C P s3 = Inr (False, s4)"
    and "flush_clouds_seg_queue C s4 = (False, s5)"
  shows "optimization_timer_callback C P now (s, pub) =
           Inr (s5, pub\<lparr>trace := trace pub @ [PublishReadUntil (now + 30) (points_topic P),
                                               PublishReadUntil (now + 30) ''/filtered_points'']\<rparr>)"
proof -
  have e: "evs = []" using flush_keyframe_queue_False[OF assms(1)] by simp
  show ?thesis
    unfolding optimization_timer_callback_def
    by (simp add: assms e Let_def)
qed


text \<open>A tick with one committed keyframe and a single queued fix, too late for it.\<close>

theorem no_op_tick_witness:
  "optimization_timer_callback example_collaborators default_fusion_params 100 (idle_state, initial_publication)
     = Inr (idle_state,
            initial_publication\<lparr>trace := [PublishReadUntil 130 ''/velodyne_points'',
                                          PublishReadUntil 130 ''/filtered_points'']\<rparr>)"
proof -
  have k: "flush_keyframe_queue example_collaborators default_fusion_params (trans_odom2map initial_publication) idle_state
             = Inr (False, [], idle_state)"
    by (simp add: flush_keyframe_queue_def idle_state_def one_keyframe_state_def)
  have f: "flush_floor_queue example_collaborators idle_state = (False, idle_state)"
    by (simp add: example_collaborators_def)
  have ub: "upper_bound [11] 10 = 0"
    by (simp add: upper_bound_def upper_bound_from.simps)
  have g: "flush_gps_queue example_collaborators default_fusion_params idle_state = Inr (False, idle_state)"
    by (simp add: flush_gps_queue_def idle_state_def one_keyframe_state_def keyframe_at_def fix_at_def ub)
  have i: "flush_imu_queue example_collaborators default_fusion_params idle_state = Inr (False, idle_state)"
    by (simp add: flush_imu_queue_def idle_state_def one_keyframe_state_def)
  have c: "flush_clouds_seg_queue example_collaborators idle_state = (False, idle_state)"
    by (simp add: example_collaborators_def)
  show ?thesis
    using no_op_tick[OF k f g i c, of 100]
    by (simp add: initial_publication_def default_fusion_params_def)
qed

end
